(* ===== verification/Prelude.thy ===== *)
theory Prelude
  imports Complex_Main "HOL-Library.AList" "HOL-Library.Char_ord" "HOL-Library.List_Lexorder"
begin

text \<open>
  Shared vocabulary of the development. The service passes untyped JSON-like values
  between the language model, the tool registry and the tool handlers
  (\<open>Dict[str, Any]\<close> in the Python source); they are modelled by the datatype
  \<open>jval\<close>. A Python dictionary is an association list in insertion order, updated in
  place by \<open>AList.update\<close> (assignment to an existing key keeps its position, a new key
  is appended), read by \<open>map_of\<close>. Python's truth test (\<open>if x:\<close>, \<open>not x\<close>) is
  \<open>py_truthy\<close>; the exceptions that matter to the callers are \<open>py_exc\<close>.
  The collections \<open>model_simps\<close> and \<open>inv_intros\<close> gather the unfolding rules and
  the invariant-preservation rules the component theories share.
\<close>

named_theorems model_simps "unfolding rules of the shared handler policy"
named_theorems inv_intros "preservation rules of the store invariant"

section \<open>JSON values and Python truthiness\<close>

datatype jval =
    JNull
  | JBool bool
  | JInt int
  | JStr string
  | JList "jval list"
  | JObj "(string \<times> jval) list"

text \<open>\<open>bool(x)\<close> for the JSON types: \<open>None\<close>, \<open>False\<close>, \<open>0\<close>, the empty string,
  list and dictionary are false, everything else is true.\<close>

fun py_truthy :: "jval \<Rightarrow> bool" where
  "py_truthy JNull = False"
| "py_truthy (JBool b) = b"
| "py_truthy (JInt i) = (i \<noteq> 0)"
| "py_truthy (JStr s) = (s \<noteq> [])"
| "py_truthy (JList xs) = (xs \<noteq> [])"
| "py_truthy (JObj kvs) = (kvs \<noteq> [])"

text \<open>The \<open>type\<close> keyword of a JSON Schema, as the tool definitions use it, and the
  values it admits: \<open>integer\<close> excludes booleans and \<open>null\<close> is of no type.\<close>

datatype json_type = JT_string | JT_integer | JT_boolean | JT_array json_type | JT_object

fun has_type :: "jval \<Rightarrow> json_type \<Rightarrow> bool" where
  "has_type (JStr s) JT_string = True"
| "has_type (JInt i) JT_integer = True"
| "has_type (JBool b) JT_boolean = True"
| "has_type (JList xs) (JT_array t) = list_all (\<lambda>x. has_type x t) xs"
| "has_type (JObj kvs) JT_object = True"
| "has_type v t = False"

text \<open>Exceptions that escape a handler body: \<open>TypeError\<close> (a bad call, an unhashable
  key, a value that is not iterable) and every other exception.\<close>

datatype py_exc = TypeError | OtherError

text \<open>A value passed as a text query argument: the driver encodes a Python \<open>str\<close> and
  rejects any other type: asyncpg raises \<open>DataError\<close>, an \<open>InterfaceError\<close> and not a
  \<open>PostgresError\<close>, so the handlers report it through their \<open>except Exception\<close>
  clause as \<open>internal_error\<close>.\<close>

fun text_arg :: "jval \<Rightarrow> string option" where
  "text_arg (JStr s) = Some s"
| "text_arg _ = None"

text \<open>Membership of a value among integer dictionary keys (\<open>x in {1: ..., 5: ...}\<close>):
  Python hashes \<open>True\<close> and \<open>False\<close> as \<open>1\<close> and \<open>0\<close>, strings and \<open>None\<close> are
  hashable but equal to no integer, lists and dictionaries are unhashable.\<close>

fun int_key :: "jval \<Rightarrow> py_exc + int option" where
  "int_key (JInt i) = Inr (Some i)"
| "int_key (JBool b) = Inr (Some (if b then 1 else 0))"
| "int_key JNull = Inr None"
| "int_key (JStr s) = Inr None"
| "int_key (JList xs) = Inl TypeError"
| "int_key (JObj kvs) = Inl TypeError"

text \<open>Iteration over a value (\<open>for x in v\<close>), with \<open>len(v)\<close> defined: lists yield
  their items, strings their characters, dictionaries their keys; other types are not
  iterable.\<close>

fun py_items :: "jval \<Rightarrow> py_exc + jval list" where
  "py_items (JList xs) = Inr xs"
| "py_items (JStr s) = Inr (map (\<lambda>c. JStr [c]) s)"
| "py_items (JObj kvs) = Inr (map (JStr \<circ> fst) kvs)"
| "py_items JNull = Inl TypeError"
| "py_items (JBool b) = Inl TypeError"
| "py_items (JInt i) = Inl TypeError"

text \<open>\<open>sep.join(xs)\<close>.\<close>

fun py_join :: "string \<Rightarrow> string list \<Rightarrow> string" where
  "py_join sep [] = []"
| "py_join sep [x] = x"
| "py_join sep (x # xs) = x @ sep @ py_join sep xs"

text \<open>The newline character.\<close>

definition nl :: string where
  "nl = [CHR 0x0A]"

text \<open>A value passed as an optional text argument: \<open>None\<close> is SQL \<open>NULL\<close>, a
  string is encoded, any other type is rejected by the driver.\<close>

fun opt_text_arg :: "jval \<Rightarrow> string option option" where
  "opt_text_arg JNull = Some None"
| "opt_text_arg (JStr s) = Some (Some s)"
| "opt_text_arg _ = None"

section \<open>Python's \<open>int()\<close> and \<open>str()\<close> on integers\<close>

text \<open>\<open>int(s)\<close> on a string: surrounding whitespace (\<open>str.isspace\<close>, here the
  characters below 256) is stripped, an optional sign follows, then decimal digits in
  groups separated by single underscores; anything else raises \<open>ValueError\<close>
  (the value \<open>None\<close>).\<close>

definition py_space :: "char \<Rightarrow> bool" where
  "py_space c \<longleftrightarrow> of_char c \<in> {9, 10, 11, 12, 13, 28, 29, 30, 31, 32, 133, 160 :: nat}"

definition py_digit :: "char \<Rightarrow> bool" where
  "py_digit c \<longleftrightarrow> CHR ''0'' \<le> c \<and> c \<le> CHR ''9''"

fun py_digit_groups :: "string \<Rightarrow> bool" where
  "py_digit_groups [] = False"
| "py_digit_groups [c] = py_digit c"
| "py_digit_groups (c # d # cs) =
     (py_digit c \<and> (if d = CHR ''_'' then py_digit_groups cs else py_digit_groups (d # cs)))"

definition digits_value :: "string \<Rightarrow> int" where
  "digits_value s = foldl (\<lambda>n c. if c = CHR ''_'' then n else 10 * n + (int (of_char c) - 48)) 0 s"

definition py_strip :: "string \<Rightarrow> string" where
  "py_strip s = rev (dropWhile py_space (rev (dropWhile py_space s)))"

definition parse_py_int :: "string \<Rightarrow> int option" where
  "parse_py_int s =
     (case py_strip s of
        [] \<Rightarrow> None
      | c # ds \<Rightarrow>
          if c = CHR ''-'' then (if py_digit_groups ds then Some (- digits_value ds) else None)
          else if c = CHR ''+'' then (if py_digit_groups ds then Some (digits_value ds) else None)
          else if py_digit_groups (c # ds) then Some (digits_value (c # ds)) else None)"

text \<open>\<open>int(v)\<close> on a JSON value: integers and booleans convert, strings are parsed,
  \<open>None\<close>, lists and dictionaries raise \<open>TypeError\<close>.\<close>

fun py_int :: "jval \<Rightarrow> py_exc + int option" where
  "py_int (JInt i) = Inr (Some i)"
| "py_int (JBool b) = Inr (Some (if b then 1 else 0))"
| "py_int (JStr s) = Inr (parse_py_int s)"
| "py_int JNull = Inl TypeError"
| "py_int (JList xs) = Inl TypeError"
| "py_int (JObj kvs) = Inl TypeError"

text \<open>\<open>str(i)\<close> for an integer: the decimal digits, with a minus sign when
  negative.\<close>

fun nat_digits :: "nat \<Rightarrow> string" where
  "nat_digits n = (if n < 10 then [char_of (48 + n)] else nat_digits (n div 10) @ [char_of (48 + n mod 10)])"

definition py_str_int :: "int \<Rightarrow> string" where
  "py_str_int i = (if i < 0 then CHR ''-'' # nat_digits (nat (- i)) else nat_digits (nat i))"

section \<open>Shared lemmas\<close>

lemma text_arg_Some_iff [simp]: "text_arg v = Some s \<longleftrightarrow> v = JStr s"
  by (cases v) auto

lemma int_key_Inr_Some_iff: "int_key v = Inr (Some i) \<longleftrightarrow>
    v = JInt i \<or> (v = JBool True \<and> i = 1) \<or> (v = JBool False \<and> i = 0)"
  by (cases v) auto

lemma map_of_update_same [simp]: "map_of (AList.update k v al) k = Some v"
  by (simp add: update_conv')

lemma map_of_update_other [simp]: "k' \<noteq> k \<Longrightarrow> map_of (AList.update k v al) k' = map_of al k'"
  by (simp add: update_conv')

lemma length_filter_map_eq:
  "(\<And>x. x \<in> set xs \<Longrightarrow> P (f x) = Q x) \<Longrightarrow> length (filter P (map f xs)) = length (filter Q xs)"
  by (induction xs) auto

lemma find_eq_filter: "find P xs = (case filter P xs of [] \<Rightarrow> None | x # _ \<Rightarrow> Some x)"
  by (induction xs) auto

lemma filter_single_distinct:
  "distinct (map f xs) \<Longrightarrow> x \<in> set xs \<Longrightarrow> filter (\<lambda>y. f y = f x) xs = [x]"
proof (induction xs)
  case Nil
  then show ?case by simp
next
  case (Cons a xs)
  show ?case
  proof (cases "a = x")
    case True
    with Cons.prems have "\<forall>y\<in>set xs. f y \<noteq> f x" by (auto simp: image_iff)
    with True show ?thesis by (simp add: filter_empty_conv)
  next
    case False
    with Cons.prems have "x \<in> set xs" and "f a \<noteq> f x" by auto
    with Cons show ?thesis by simp
  qed
qed


declare nat_digits.simps [simp del]

lemma nat_digits_ne [simp]: "nat_digits n \<noteq> []"
  by (subst nat_digits.simps) simp

lemma py_digit_char_of: "(k::nat) < 10 \<Longrightarrow> py_digit (char_of (48 + k))"
  by (simp add: py_digit_def less_eq_char_def of_char_of)

lemma nat_digits_digits: "c \<in> set (nat_digits n) \<Longrightarrow> py_digit c"
proof (induction n rule: nat_digits.induct)
  case (1 n)
  then show ?case
    by (cases "n < 10") (auto simp: nat_digits.simps [of n] intro: py_digit_char_of)
qed

lemma py_digit_not_special: "py_digit c \<Longrightarrow> c \<noteq> CHR ''_'' \<and> c \<noteq> CHR ''-'' \<and> c \<noteq> CHR ''+'' \<and> \<not> py_space c"
  by (auto simp: py_digit_def py_space_def less_eq_char_def)

lemma py_digit_groups_digits: "xs \<noteq> [] \<Longrightarrow> \<forall>c\<in>set xs. py_digit c \<Longrightarrow> py_digit_groups xs"
  by (induction xs rule: py_digit_groups.induct) (auto dest: py_digit_not_special)

lemma digits_value_snoc:
  "c \<noteq> CHR ''_'' \<Longrightarrow> digits_value (xs @ [c]) = 10 * digits_value xs + (int (of_char c) - 48)"
  by (simp add: digits_value_def)

lemma digits_value_nat_digits: "digits_value (nat_digits n) = int n"
proof (induction n rule: nat_digits.induct)
  case (1 n)
  show ?case
  proof (cases "n < 10")
    case True
    with py_digit_not_special [OF py_digit_char_of [OF True]] show ?thesis
      by (simp add: nat_digits.simps [of n] digits_value_def of_char_of)
  next
    case False
    have d: "py_digit (char_of (48 + n mod 10))" by (simp add: py_digit_char_of)
    from False 1 have "digits_value (nat_digits (n div 10)) = int (n div 10)" by simp
    moreover have "10 * int (n div 10) + int (n mod 10) = int n" by presburger
    ultimately show ?thesis
      using False d py_digit_not_special [OF d]
      by (simp add: nat_digits.simps [of n] digits_value_snoc)
  qed
qed

lemma py_strip_id:
  assumes "xs \<noteq> []" "\<not> py_space (hd xs)" "\<not> py_space (last xs)"
  shows "py_strip xs = xs"
proof -
  from assms(1,2) have "dropWhile py_space xs = xs" by (cases xs) auto
  moreover from assms(1,3) have "dropWhile py_space (rev xs) = rev xs"
    by (cases "rev xs") (auto simp: hd_rev [symmetric])
  ultimately show ?thesis by (simp add: py_strip_def)
qed

lemma parse_py_int_py_str_int: "parse_py_int (py_str_int i) = Some i"
proof -
  let ?ds = "nat_digits (nat \<bar>i\<bar>)"
  have dig: "\<forall>c\<in>set ?ds. py_digit c" by (blast intro: nat_digits_digits)
  then have hd: "py_digit (hd ?ds)" and lst: "py_digit (last ?ds)" by simp_all
  have grp: "py_digit_groups ?ds" using dig by (simp add: py_digit_groups_digits)
  show ?thesis
  proof (cases "i < 0")
    case True
    have "py_strip (CHR ''-'' # ?ds) = CHR ''-'' # ?ds"
      using py_digit_not_special [OF lst] by (intro py_strip_id) (auto simp: py_space_def)
    with True grp show ?thesis
      by (simp add: py_str_int_def parse_py_int_def digits_value_nat_digits)
  next
    case False
    obtain c cs where ds: "?ds = c # cs" by (cases ?ds) auto
    have "py_strip ?ds = ?ds"
      using py_digit_not_special [OF hd] py_digit_not_special [OF lst] by (intro py_strip_id) auto
    with False ds grp py_digit_not_special [OF hd] show ?thesis
      using digits_value_nat_digits [of "nat i"]
      by (simp add: py_str_int_def parse_py_int_def)
  qed
qed

end
