(* ===== verification/Store.thy ===== *)
theory Store
  imports Prelude
begin

text \<open>
  The relational store the tool handlers read and write (PostgreSQL through asyncpg in
  \<open>src/ai-service/src/database/connection.py\<close> and the handlers' own queries), the
  session context the registry passes to a handler, the error codes and result payloads
  of the handlers, and the authorisation policy every handler that targets an
  application shares. The handlers address the \<open>module_data\<close> and \<open>documents\<close>
  tables with two column vocabularies (\<open>field_name\<close>/\<open>field_value\<close> in
  \<open>update_module\<close> and \<open>query_application\<close>, \<open>field_id\<close>/\<open>value\<close> in
  \<open>request_audit\<close> and \<open>certify_application\<close>); the model identifies them, one row
  type per table.
\<close>

section \<open>Rows\<close>

datatype app_status = Draft | In_progress | Under_review | Approved | Rejected

text \<open>\<open>app_row["status"] in ["approved", "rejected"]\<close>: the locked statuses.\<close>

fun is_terminal :: "app_status \<Rightarrow> bool" where
  "is_terminal Approved = True"
| "is_terminal Rejected = True"
| "is_terminal _ = False"

text \<open>The document status values the handlers compare against: \<open>extract_fields\<close> uses
  pending, processing, completed and failed; \<open>request_audit\<close> processed and audited;
  \<open>certify_application\<close> pending, processing and error.\<close>

datatype doc_status = Pending | Processing | Completed | Failed | Processed | Audited | Error_status

datatype data_source = Ocr_extracted | Proxy_entered | Proxy_edited

record application =
  app_owner :: string
  app_status :: app_status
  app_cert :: string
  app_notes :: "string option"
  app_updated :: string

record document =
  doc_app :: string
  doc_type :: string
  doc_file :: string
  doc_status :: "doc_status option"
  doc_meta :: "(string \<times> jval) list option"

record module_row =
  md_id :: nat
  md_app :: string
  md_module :: int
  md_field :: string
  md_value :: jval
  md_source :: data_source
  md_conf :: rat
  md_updated :: string
  md_doc :: "string option"

record audit_entry =
  ae_app :: string
  ae_user :: jval
  ae_action :: string
  ae_field :: "string option"
  ae_value :: string

text \<open>The store: applications by id, documents and module rows in storage order (a
  query without \<open>ORDER BY\<close> that returns one row is modelled as returning the first
  match), the append-only audit trail, the accounts of \<open>auth.users\<close> by e-mail, and
  the next row id the database hands out.\<close>

record store =
  apps :: "string \<rightharpoonup> application"
  docs :: "(string \<times> document) list"
  mdata :: "module_row list"
  audit :: "audit_entry list"
  accounts :: "(string \<times> string) list"
  next_row :: nat

text \<open>\<open>session_context\<close>: the caller's user id and linked application id, each
  \<open>JNull\<close> when the dictionary has no such key.\<close>

record session_ctx =
  ctx_user :: jval
  ctx_app :: jval

section \<open>Modules\<close>

definition MODULE_NAMES :: "(int \<times> string) list" where
  "MODULE_NAMES = [(1, ''financial''), (2, ''compliance''), (3, ''operations''),
                   (4, ''sustainability''), (5, ''risk'')]"

definition required_modules :: "string list" where
  "required_modules = [''financial'', ''compliance'', ''operations'', ''sustainability'', ''risk'']"

definition app_rows :: "store \<Rightarrow> string \<Rightarrow> module_row list" where
  "app_rows st k = filter (\<lambda>r. md_app r = k) (mdata st)"

definition app_docs :: "store \<Rightarrow> string \<Rightarrow> (string \<times> document) list" where
  "app_docs st k = filter (\<lambda>(i, d). doc_app d = k) (docs st)"

text \<open>The audit-flag test of \<open>certify_application\<close> and \<open>show_artifact\<close>:
  \<open>jsonb_typeof(value) = 'object' AND value->>'_audit_flagged' = 'true'\<close>, or
  \<open>value @> '{"_audit_flagged": true}'\<close>. The text extraction \<open>->>\<close> also reads the
  JSON string \<open>"true"\<close> as \<open>'true'\<close>.\<close>

definition audit_flagged :: "jval \<Rightarrow> bool" where
  "audit_flagged v = (case v of
      JObj kvs \<Rightarrow> map_of kvs ''_audit_flagged'' = Some (JBool True)
                 \<or> map_of kvs ''_audit_flagged'' = Some (JStr ''true'')
    | _ \<Rightarrow> False)"

section \<open>Errors and results\<close>

datatype err_code =
    Invalid_module | Application_id_required | Application_not_found | Unauthorized
  | Application_locked | No_targets_specified | Document_not_found | Confirmation_required
  | Already_certified | Invalid_certification_type | Missing_required_fields | Invalid_email
  | User_not_found | Duplicate_application | Invalid_document_type | Ocr_failed
  | Unknown_status | Invalid_artifact_type | Invalid_module_number | Database_error
  | Internal_error

text \<open>One entry of \<open>validation_failures\<close> in \<open>certify_application\<close>, with the count
  or the module numbers its message reports.\<close>

datatype cert_failure =
    Pending_docs nat | Processing_docs nat | Error_docs nat
  | Missing_modules "int list" | Flagged_fields nat | No_documents

record query_view =
  qv_status :: app_status
  qv_docs :: "(string \<times> doc_status option \<times> bool) list"
  qv_modules :: "(string \<times> nat) list"
  qv_pct :: nat
  qv_completed :: "string list"
  qv_missing :: "string list"

datatype artifact_kind =
  Art_document | Art_module_form | Art_extraction_preview | Art_application_summary | Art_audit_review

text \<open>The \<open>metadata\<close> dictionary of \<open>show_artifact\<close>, one shape per artifact kind:
  document id, application id, document type and status; the same with the number of
  extracted fields; module number, display name, application id and status; application
  id, status and certification type; application id and number of flagged fields.\<close>

datatype art_meta =
    Doc_meta string string string "doc_status option"
  | Preview_meta string string string nat
  | Module_form_meta int string string app_status
  | Summary_meta string app_status string
  | Audit_meta string nat

text \<open>The dictionary a handler returns: an error (it carries the key \<open>"error"\<close>), or
  the success payload of one tool, with the fields a later step reads (messages,
  timestamps and UI hints left out).\<close>

datatype payload =
    Tool_error err_code
  | Certify_rejected "cert_failure list" string app_status
  | Query_result query_view
  | Created string app_status string
  | Upload_requested string string jval
  | Extraction_running string bool
  | Module_updated string string int "jval option" jval data_source
  | Audit_flagged nat bool
  | Certified string app_status string
  | Artifact_opened artifact_kind jval art_meta

text \<open>\<open>"error" in result\<close>: the registry's success test.\<close>

fun has_error :: "payload \<Rightarrow> bool" where
  "has_error (Tool_error e) = True"
| "has_error (Certify_rejected fs k s) = True"
| "has_error _ = False"

text \<open>What a handler does: a result, or an exception that leaves the handler, and the
  store after it.\<close>

type_synonym outcome = "(py_exc + payload) \<times> store"

abbreviation ret :: "payload \<Rightarrow> store \<Rightarrow> outcome" where
  "ret p st \<equiv> (Inr p, st)"

abbreviation fail :: "err_code \<Rightarrow> store \<Rightarrow> outcome" where
  "fail e st \<equiv> (Inr (Tool_error e), st)"

section \<open>The shared policy of the handlers\<close>

text \<open>\<open>target = application_id; if not target and session_context:
  target = session_context.get("application_id")\<close>.\<close>

definition resolve_app_id :: "jval \<Rightarrow> session_ctx option \<Rightarrow> jval" where
  "resolve_app_id a c = (if py_truthy a then a else (case c of None \<Rightarrow> a | Some x \<Rightarrow> ctx_app x))"

text \<open>\<open>user_id = session_context.get("user_id") if session_context else None\<close>.\<close>

definition ctx_user_of :: "session_ctx option \<Rightarrow> jval" where
  "ctx_user_of c = (case c of None \<Rightarrow> JNull | Some x \<Rightarrow> ctx_user x)"

text \<open>\<open>if user_id and str(app_row["user_id"]) != user_id: unauthorized\<close>: a caller
  without a user id passes, a caller with one must own the row.\<close>

definition owner_ok :: "string \<Rightarrow> jval \<Rightarrow> bool" where
  "owner_ok owner u \<longleftrightarrow> \<not> py_truthy u \<or> u = JStr owner"

text \<open>Load the target application and check ownership: existence first, then the
  owner, so that a stranger learns nothing beyond \<open>unauthorized\<close>.\<close>

definition load_owned_app :: "store \<Rightarrow> jval \<Rightarrow> jval \<Rightarrow> err_code + (string \<times> application)" where
  "load_owned_app st target u =
     (case text_arg target of
        None \<Rightarrow> Inl Internal_error
      | Some k \<Rightarrow> (case apps st k of
          None \<Rightarrow> Inl Application_not_found
        | Some a \<Rightarrow> if owner_ok (app_owner a) u then Inr (k, a) else Inl Unauthorized))"

text \<open>\<open>UPDATE applications SET updated_at = NOW() WHERE id = $1\<close>.\<close>

definition touch_app :: "string \<Rightarrow> string \<Rightarrow> store \<Rightarrow> store" where
  "touch_app k now st =
     st\<lparr>apps := (case apps st k of None \<Rightarrow> apps st
                 | Some a \<Rightarrow> (apps st)(k \<mapsto> a\<lparr>app_updated := now\<rparr>))\<rparr>"


section \<open>Well-formed stores\<close>

text \<open>The invariant the handlers keep: module rows are unique per
  (application, module, field) and per row id, ids are below the counter, module
  numbers are 1 to 5, and rows and documents belong to existing applications.\<close>

definition store_inv :: "store \<Rightarrow> bool" where
  "store_inv st \<longleftrightarrow>
     distinct (map (\<lambda>r. (md_app r, md_module r, md_field r)) (mdata st))
   \<and> distinct (map md_id (mdata st))
   \<and> (\<forall>r\<in>set (mdata st). md_id r < next_row st \<and> 1 \<le> md_module r \<and> md_module r \<le> 5
                          \<and> md_app r \<in> dom (apps st))
   \<and> distinct (map fst (docs st))
   \<and> (\<forall>p\<in>set (docs st). doc_app (snd p) \<in> dom (apps st))"

section \<open>Sample data\<close>

text \<open>A small store used by the witnesses: user \<open>u1\<close> owns a draft application
  \<open>app1\<close> with one processed tax return, and an approved application \<open>app2\<close>;
  \<open>auth.users\<close> knows one more account.\<close>

definition demo_store :: store where
  "demo_store =
     \<lparr>apps = [''app1'' \<mapsto> \<lparr>app_owner = ''u1'', app_status = Draft, app_cert = ''standard'',
                            app_notes = None, app_updated = ''t0''\<rparr>,
              ''app2'' \<mapsto> \<lparr>app_owner = ''u1'', app_status = Approved, app_cert = ''organic'',
                            app_notes = None, app_updated = ''t0''\<rparr>],
      docs = [(''doc1'', \<lparr>doc_app = ''app1'', doc_type = ''tax_return'', doc_file = ''return.pdf'',
                          doc_status = Some Processed, doc_meta = None\<rparr>)],
      mdata = [], audit = [], accounts = [(''jane@farm.example'', ''u2'')], next_row = 0\<rparr>"

definition demo_ctx :: "string \<Rightarrow> session_ctx option" where
  "demo_ctx k = Some \<lparr>ctx_user = JStr ''u1'', ctx_app = JStr k\<rparr>"

declare resolve_app_id_def [model_simps] ctx_user_of_def [model_simps]
  owner_ok_def [model_simps] load_owned_app_def [model_simps]
  demo_store_def [model_simps] demo_ctx_def [model_simps]

lemma store_inv_demo: "store_inv demo_store"
  by (simp add: store_inv_def demo_store_def)

lemma load_owned_app_Inr:
  "load_owned_app st t u = Inr (k, a) \<Longrightarrow> t = JStr k \<and> apps st k = Some a \<and> owner_ok (app_owner a) u"
  by (auto simp: load_owned_app_def split: option.splits if_splits)

lemma touch_app_dom [simp]: "dom (apps (touch_app k now st)) = dom (apps st)"
  by (auto simp: touch_app_def split: option.splits)

lemma touch_app_other [simp]:
  "mdata (touch_app k now st) = mdata st" "docs (touch_app k now st) = docs st"
  "audit (touch_app k now st) = audit st" "next_row (touch_app k now st) = next_row st"
  "accounts (touch_app k now st) = accounts st"
  by (simp_all add: touch_app_def)

lemma touch_app_same [simp]:
  "apps st k = Some a \<Longrightarrow> apps (touch_app k now st) k = Some (a\<lparr>app_updated := now\<rparr>)"
  by (simp add: touch_app_def)

lemma touch_app_status [simp]:
  "map_option app_status (apps (touch_app k now st) j) = map_option app_status (apps st j)"
  by (auto simp: touch_app_def split: option.splits)

lemma store_inv_touch_app [inv_intros]: "store_inv st \<Longrightarrow> store_inv (touch_app k now st)"
  by (simp add: store_inv_def)

end
