(* ===== verification/Module_Tools.thy ===== *)
theory Module_Tools
  imports Store
begin

text \<open>
  The two handlers that write module data: \<open>update_module\<close>
  (\<open>src/ai-service/src/tools/update_module.py\<close>), the upsert of one field by
  (application, module, field), and \<open>request_audit\<close>
  (\<open>src/ai-service/src/tools/request_audit.py\<close>), which is meant to flag fields and
  documents for human review but whose two flagging \<open>UPDATE\<close>s PostgreSQL rejects. Each handler is one definition over explicit arguments (the JSON values
  the registry binds), the optional session context, the clock value \<open>now\<close> that
  \<open>NOW()\<close> reads, and the store; it returns the handler's dictionary or the exception
  that leaves it, with the store after every statement it ran.
\<close>

section \<open>Row operations\<close>

text \<open>\<open>SELECT ... FROM module_data WHERE application_id = $1 AND module_name = $2
  AND field_name = $3\<close>. Module names and numbers correspond one to one
  (\<open>MODULE_NAMES\<close>), so the row's module number is compared.\<close>

definition find_row :: "store \<Rightarrow> string \<Rightarrow> int \<Rightarrow> string \<Rightarrow> module_row option" where
  "find_row st k m f = find (\<lambda>r. md_app r = k \<and> md_module r = m \<and> md_field r = f) (mdata st)"

text \<open>\<open>UPDATE module_data SET ... WHERE id = $n\<close>.\<close>

definition set_row :: "nat \<Rightarrow> (module_row \<Rightarrow> module_row) \<Rightarrow> store \<Rightarrow> store" where
  "set_row i g st = st\<lparr>mdata := map (\<lambda>r. if md_id r = i then g r else r) (mdata st)\<rparr>"

text \<open>\<open>INSERT INTO module_data (...) VALUES ($1, $2, $3, $4, $5, 1.0, NOW(), NOW())
  RETURNING id\<close>: the database assigns the next row id; the statement sets no
  \<open>source_document_id\<close>.\<close>

definition insert_row :: "string \<Rightarrow> int \<Rightarrow> string \<Rightarrow> jval \<Rightarrow> data_source \<Rightarrow> string \<Rightarrow> store \<Rightarrow> store" where
  "insert_row k m f v src now st =
     st\<lparr>mdata := mdata st @ [\<lparr>md_id = next_row st, md_app = k, md_module = m, md_field = f,
                               md_value = v, md_source = src, md_conf = 1, md_updated = now, md_doc = None\<rparr>],
        next_row := Suc (next_row st)\<rparr>"

text \<open>The overwrite of an existing field: new value, source \<open>proxy_edited\<close>,
  confidence 1.0.\<close>

definition edit_row :: "string \<Rightarrow> string \<Rightarrow> module_row \<Rightarrow> module_row" where
  "edit_row v now r = r\<lparr>md_value := JStr v, md_source := Proxy_edited, md_conf := 1, md_updated := now\<rparr>"

section \<open>update\_module\<close>

text \<open>
  The order of the checks is the source's: the module number (a list or dictionary
  raises \<open>TypeError\<close> in the dictionary lookup, outside the handler's \<open>try\<close>), the
  target application id, existence, ownership, the lock, then the upsert and the
  application's timestamp. A field id or value that is not text is rejected by the
  driver (\<open>internal_error\<close>) before any row changes.
\<close>

definition update_module ::
  "jval \<Rightarrow> jval \<Rightarrow> jval \<Rightarrow> jval \<Rightarrow> session_ctx option \<Rightarrow> string \<Rightarrow> store \<Rightarrow> outcome" where
  "update_module module_number field_id value application_id ctx now st =
     (case int_key module_number of
        Inl e \<Rightarrow> (Inl e, st)
      | Inr None \<Rightarrow> fail Invalid_module st
      | Inr (Some m) \<Rightarrow>
          (case map_of MODULE_NAMES m of
             None \<Rightarrow> fail Invalid_module st
           | Some name \<Rightarrow>
               (let target = resolve_app_id application_id ctx in
                if \<not> py_truthy target then fail Application_id_required st
                else
                  (case load_owned_app st target (ctx_user_of ctx) of
                     Inl e \<Rightarrow> fail e st
                   | Inr (k, a) \<Rightarrow>
                       if is_terminal (app_status a) then fail Application_locked st
                       else
                         (case (text_arg field_id, text_arg value) of
                            (Some f, Some v) \<Rightarrow>
                              (case find_row st k m f of
                                 Some r \<Rightarrow>
                                   ret (Module_updated f name m (Some (md_value r)) (JStr v) Proxy_edited)
                                       (touch_app k now (set_row (md_id r) (edit_row v now) st))
                               | None \<Rightarrow>
                                   ret (Module_updated f name m None (JStr v) Proxy_entered)
                                       (touch_app k now (insert_row k m f (JStr v) Proxy_entered now st)))
                          | _ \<Rightarrow> fail Internal_error st)))))"

text \<open>The rows holding one (application, module, field) key, in storage order.\<close>

definition key_rows :: "store \<Rightarrow> string \<Rightarrow> int \<Rightarrow> string \<Rightarrow> module_row list" where
  "key_rows st k m f = filter (\<lambda>r. md_app r = k \<and> md_module r = m \<and> md_field r = f) (mdata st)"

section \<open>request\_audit\<close>

text \<open>An \<open>UPDATE documents SET c1 = e1, ..., cn = en WHERE id = $i\<close>: each
  right-hand side reads the old row. PostgreSQL rejects a statement that assigns one
  column twice (\<open>multiple assignments to same column\<close>) before it changes
  anything.\<close>

definition sql_set_doc ::
  "(string \<times> (document \<Rightarrow> document \<Rightarrow> document)) list \<Rightarrow> string \<Rightarrow> store \<Rightarrow> err_code + store" where
  "sql_set_doc assigns i st =
     (if distinct (map fst assigns)
      then Inr (st\<lparr>docs := map (\<lambda>(j, d). if j = i then (j, fold (\<lambda>(c, g) acc. g d acc) assigns d)
                                              else (j, d)) (docs st)\<rparr>)
      else Inl Database_error)"

text \<open>The \<open>SET\<close> list of \<open>request_audit\<close>'s document update: three assignments to
  \<open>metadata\<close> (\<open>needs_audit\<close> on \<open>COALESCE(metadata, '{}')\<close>, then
  \<open>audit_reason\<close> and \<open>audit_requested_at\<close> on \<open>metadata\<close>, which stays
  \<open>NULL\<close> when it is) and the escalation of a \<open>processed\<close> document to
  \<open>audited\<close>.\<close>

definition doc_audit_assignments ::
  "string \<Rightarrow> string \<Rightarrow> (string \<times> (document \<Rightarrow> document \<Rightarrow> document)) list" where
  "doc_audit_assignments reason now =
     [(''metadata'', \<lambda>old d. d\<lparr>doc_meta := Some (AList.update ''needs_audit'' (JBool True)
                                                (case doc_meta old of None \<Rightarrow> [] | Some m \<Rightarrow> m))\<rparr>),
      (''metadata'', \<lambda>old d. d\<lparr>doc_meta := map_option (AList.update ''audit_reason'' (JStr reason))
                                                (doc_meta old)\<rparr>),
      (''metadata'', \<lambda>old d. d\<lparr>doc_meta := map_option (AList.update ''audit_requested_at'' (JStr now))
                                                (doc_meta old)\<rparr>),
      (''extraction_status'', \<lambda>old d. d\<lparr>doc_status := (if doc_status old = Some Processed
                                                         then Some Audited else doc_status old)\<rparr>)]"

text \<open>The document branch of \<open>request_audit\<close>: skipped when no document id is
  given, \<open>document_not_found\<close> unless the document belongs to the application, then
  the update above.\<close>

definition audit_document :: "jval \<Rightarrow> jval \<Rightarrow> string \<Rightarrow> string \<Rightarrow> store \<Rightarrow> err_code + bool \<times> store" where
  "audit_document reason document_id k now st =
     (if \<not> py_truthy document_id then Inr (False, st)
      else (case text_arg document_id of
        None \<Rightarrow> Inl Internal_error
      | Some i \<Rightarrow>
          (case find (\<lambda>(j, d). j = i \<and> doc_app d = k) (docs st) of
             None \<Rightarrow> Inl Document_not_found
           | Some _ \<Rightarrow>
               (case text_arg reason of
                  None \<Rightarrow> Inl Internal_error
                | Some r \<Rightarrow> (case sql_set_doc (doc_audit_assignments r now) i st of
                    Inl e \<Rightarrow> Inl e
                  | Inr st' \<Rightarrow> Inr (True, st'))))))"

text \<open>The loop over \<open>field_ids\<close>. Each field id is looked up with a \<open>SELECT\<close> (a
  non-string id is rejected by the driver: \<open>internal_error\<close>); a missing field is
  skipped. For a field that exists, the \<open>UPDATE\<close> passes its parameters \<open>$1\<close> and
  \<open>$2\<close> untyped into \<open>jsonb_build_object\<close>, whose arguments are \<open>VARIADIC "any"\<close>:
  PostgreSQL cannot determine their types and rejects the statement when asyncpg
  prepares it (\<open>could not determine data type of parameter $1\<close>, SQLSTATE 42P18),
  before it changes anything, so the handler answers \<open>database_error\<close>. The value
  of the loop is the list of field ids it looked up, all of them missing.\<close>

fun flag_fields :: "string \<Rightarrow> jval list \<Rightarrow> store \<Rightarrow> err_code + string list" where
  "flag_fields k [] st = Inr []"
| "flag_fields k (x # xs) st =
     (case text_arg x of
        None \<Rightarrow> Inl Internal_error
      | Some f \<Rightarrow>
          (case find (\<lambda>r. md_app r = k \<and> md_field r = f) (mdata st) of
             None \<Rightarrow> (case flag_fields k xs st of Inl e \<Rightarrow> Inl e | Inr fs \<Rightarrow> Inr (f # fs))
           | Some r \<Rightarrow> Inl Database_error))"

text \<open>\<open>if field_ids and len(field_ids) > 0\<close>: \<open>len\<close> of a number raises
  \<open>TypeError\<close>, which the handler's \<open>except Exception\<close> turns into
  \<open>internal_error\<close>.\<close>

definition audit_fields :: "jval \<Rightarrow> string \<Rightarrow> store \<Rightarrow> err_code + string list" where
  "audit_fields field_ids k st =
     (if \<not> py_truthy field_ids then Inr []
      else (case py_items field_ids of
        Inl _ \<Rightarrow> Inl Internal_error
      | Inr xs \<Rightarrow> flag_fields k xs st))"

text \<open>\<open>INSERT INTO audit_trail (...)\<close>.\<close>

definition add_audit :: "string \<Rightarrow> jval \<Rightarrow> string \<Rightarrow> string option \<Rightarrow> string \<Rightarrow> store \<Rightarrow> store" where
  "add_audit k u action fld v st =
     st\<lparr>audit := audit st @ [\<lparr>ae_app = k, ae_user = u, ae_action = action, ae_field = fld, ae_value = v\<rparr>]\<rparr>"

text \<open>The handler. There is no lock check: the status of the application is read but
  never tested. \<open>flagged_fields_count\<close> is only incremented after a field update
  succeeds, so it is reported as 0.\<close>

definition request_audit ::
  "jval \<Rightarrow> jval \<Rightarrow> jval \<Rightarrow> jval \<Rightarrow> session_ctx option \<Rightarrow> string \<Rightarrow> store \<Rightarrow> outcome" where
  "request_audit reason application_id document_id field_ids ctx now st =
     (let target = resolve_app_id application_id ctx; u = ctx_user_of ctx in
      if \<not> py_truthy target then fail Application_id_required st
      else if \<not> py_truthy document_id \<and> \<not> py_truthy field_ids then fail No_targets_specified st
      else
        (case load_owned_app st target u of
           Inl e \<Rightarrow> fail e st
         | Inr (k, a) \<Rightarrow>
             (case audit_document reason document_id k now st of
                Inl e \<Rightarrow> fail e st
              | Inr (flagged_doc, st1) \<Rightarrow>
                  (case audit_fields field_ids k st1 of
                     Inl e \<Rightarrow> fail e st1
                   | Inr fids \<Rightarrow>
                       (let field_list = (if py_truthy field_ids then Some (py_join '', '' fids) else None) in
                        if py_truthy u then
                          (case text_arg reason of
                             None \<Rightarrow> fail Internal_error st1
                           | Some r \<Rightarrow> ret (Audit_flagged 0 flagged_doc)
                               (touch_app k now (add_audit k u ''audit_requested'' field_list r st1)))
                        else ret (Audit_flagged 0 flagged_doc) (touch_app k now st1))))))"

section \<open>Lemmas on the row operations\<close>

abbreviation row_key :: "module_row \<Rightarrow> string \<times> int \<times> string" where
  "row_key r \<equiv> (md_app r, md_module r, md_field r)"

lemma find_row_SomeD:
  "find_row st k m f = Some r \<Longrightarrow> r \<in> set (mdata st) \<and> row_key r = (k, m, f)"
  by (auto simp: find_row_def dest: find_Some_iff[THEN iffD1] simp: in_set_conv_nth)

lemma find_row_None_iff:
  "find_row st k m f = None \<longleftrightarrow> (k, m, f) \<notin> set (map row_key (mdata st))"
  by (auto simp: find_row_def find_None_iff)

lemma map_row_key_set_row:
  "(\<And>r. row_key (g r) = row_key r) \<Longrightarrow> map row_key (mdata (set_row i g st)) = map row_key (mdata st)"
  by (simp add: set_row_def)

lemma map_md_id_set_row:
  "(\<And>r. md_id (g r) = md_id r) \<Longrightarrow> map md_id (mdata (set_row i g st)) = map md_id (mdata st)"
  by (simp add: set_row_def)

lemma set_row_other [simp]:
  "apps (set_row i g st) = apps st" "docs (set_row i g st) = docs st"
  "audit (set_row i g st) = audit st" "next_row (set_row i g st) = next_row st"
  "accounts (set_row i g st) = accounts st"
  by (simp_all add: set_row_def)

lemma insert_row_other [simp]:
  "apps (insert_row k m f v src now st) = apps st" "docs (insert_row k m f v src now st) = docs st"
  "audit (insert_row k m f v src now st) = audit st"
  "accounts (insert_row k m f v src now st) = accounts st"
  by (simp_all add: insert_row_def)

lemma edit_row_fixes [simp]:
  "md_id (edit_row v now r) = md_id r" "md_app (edit_row v now r) = md_app r"
  "md_module (edit_row v now r) = md_module r" "md_field (edit_row v now r) = md_field r"
  by (simp_all add: edit_row_def)

lemma set_row_memD:
  assumes "r \<in> set (mdata (set_row i g st))"
    and "\<And>r. row_key (g r) = row_key r" and "\<And>r. md_id (g r) = md_id r"
  shows "\<exists>r0\<in>set (mdata st). row_key r = row_key r0 \<and> md_id r = md_id r0"
proof -
  from assms(1) obtain r0 where r0: "r0 \<in> set (mdata st)"
    and r: "r = (if md_id r0 = i then g r0 else r0)"
    by (auto simp: set_row_def)
  with assms(2,3) show ?thesis by (cases "md_id r0 = i") auto
qed

text \<open>A map that keeps a row's key and id keeps the invariant.\<close>

lemma store_inv_set_row [inv_intros]:
  assumes inv: "store_inv st" and key: "\<And>r. row_key (g r) = row_key r"
    and id: "\<And>r. md_id (g r) = md_id r"
  shows "store_inv (set_row i g st)"
  unfolding store_inv_def
proof (intro conjI)
  show "distinct (map row_key (mdata (set_row i g st)))"
    using inv key by (simp add: map_row_key_set_row store_inv_def)
  show "distinct (map md_id (mdata (set_row i g st)))"
    using inv id by (simp add: map_md_id_set_row store_inv_def)
  show "\<forall>r\<in>set (mdata (set_row i g st)). md_id r < next_row (set_row i g st)
      \<and> 1 \<le> md_module r \<and> md_module r \<le> 5 \<and> md_app r \<in> dom (apps (set_row i g st))"
  proof
    fix r assume "r \<in> set (mdata (set_row i g st))"
    then obtain r0 where r0: "r0 \<in> set (mdata st)" and "row_key r = row_key r0" "md_id r = md_id r0"
      using set_row_memD key id by blast
    moreover have "md_id r0 < next_row st \<and> 1 \<le> md_module r0 \<and> md_module r0 \<le> 5
        \<and> md_app r0 \<in> dom (apps st)"
      using inv r0 by (simp add: store_inv_def)
    ultimately show "md_id r < next_row (set_row i g st) \<and> 1 \<le> md_module r \<and> md_module r \<le> 5
        \<and> md_app r \<in> dom (apps (set_row i g st))"
      by simp
  qed
  show "distinct (map fst (docs (set_row i g st)))"
    using inv by (simp add: store_inv_def)
  show "\<forall>p\<in>set (docs (set_row i g st)). doc_app (snd p) \<in> dom (apps (set_row i g st))"
    using inv by (simp add: store_inv_def)
qed

lemma store_inv_insert_row [inv_intros]:
  assumes inv: "store_inv st" and fresh: "(k, m, f) \<notin> set (map row_key (mdata st))"
    and "k \<in> dom (apps st)" and "1 \<le> m" and "m \<le> 5"
  shows "store_inv (insert_row k m f v src now st)"
proof -
  from inv have "next_row st \<notin> set (map md_id (mdata st))"
    by (auto simp: store_inv_def)
  moreover from inv have "\<forall>r\<in>set (mdata st). md_id r < Suc (next_row st)"
    by (auto simp: store_inv_def)
  ultimately show ?thesis
    using assms unfolding store_inv_def insert_row_def by auto
qed
lemma find_row_key_rows: "find_row st k m f = (case key_rows st k m f of [] \<Rightarrow> None | r # _ \<Rightarrow> Some r)"
  by (simp add: find_row_def key_rows_def find_eq_filter)

lemma key_rows_touch_app [simp]: "key_rows (touch_app j now st) k m f = key_rows st k m f"
  by (simp add: key_rows_def)

lemma key_rows_set_row:
  "(\<And>r. row_key (g r) = row_key r) \<Longrightarrow>
   key_rows (set_row i g st) k m f = map (\<lambda>r. if md_id r = i then g r else r) (key_rows st k m f)"
  by (induction "mdata st" arbitrary: st) (auto simp: key_rows_def set_row_def filter_map comp_def intro!: filter_cong)

lemma key_rows_insert_row:
  "key_rows (insert_row k m f v src now st) k' m' f' =
     key_rows st k' m' f' @
     (if (k', m', f') = (k, m, f)
      then [\<lparr>md_id = next_row st, md_app = k, md_module = m, md_field = f,
             md_value = v, md_source = src, md_conf = 1, md_updated = now, md_doc = None\<rparr>] else [])"
  by (auto simp: key_rows_def insert_row_def)

lemma key_rows_distinct:
  assumes "store_inv st" and "r \<in> set (key_rows st k m f)"
  shows "key_rows st k m f = [r]"
proof -
  from assms(2) have r: "r \<in> set (mdata st)" "row_key r = (k, m, f)"
    by (auto simp: key_rows_def)
  from assms(1) have "distinct (map row_key (mdata st))"
    by (simp add: store_inv_def)
  from filter_single_distinct [OF this r(1)] r(2) show ?thesis
    by (simp add: key_rows_def)
qed

text \<open>The result of a successful \<open>update_module\<close>, branch by branch.\<close>

lemma update_module_Module_updated:
  "update_module mn fid val aid ctx now st = (Inr (Module_updated f name m old nv src), st') \<longleftrightarrow>
   (\<exists>k a v. int_key mn = Inr (Some m) \<and> map_of MODULE_NAMES m = Some name
      \<and> py_truthy (resolve_app_id aid ctx)
      \<and> load_owned_app st (resolve_app_id aid ctx) (ctx_user_of ctx) = Inr (k, a)
      \<and> \<not> is_terminal (app_status a) \<and> fid = JStr f \<and> val = JStr v \<and> nv = JStr v
      \<and> (case find_row st k m f of
           Some r \<Rightarrow> old = Some (md_value r) \<and> src = Proxy_edited
                     \<and> st' = touch_app k now (set_row (md_id r) (edit_row v now) st)
         | None \<Rightarrow> old = None \<and> src = Proxy_entered
                     \<and> st' = touch_app k now (insert_row k m f (JStr v) Proxy_entered now st)))"
  unfolding update_module_def Let_def
  by (auto split: sum.splits option.splits if_splits prod.splits)

lemma MODULE_NAMES_range: "map_of MODULE_NAMES m = Some name \<Longrightarrow> 1 \<le> m \<and> m \<le> 5"
  by (auto simp: MODULE_NAMES_def split: if_splits)

lemma update_module_frame:
  "update_module mn fid val aid ctx now st = (res, st') \<Longrightarrow>
   st' = st \<or> (\<exists>f name m old nv src. res = Inr (Module_updated f name m old nv src))"
  unfolding update_module_def Let_def
  by (auto split: sum.splits option.splits if_splits prod.splits)

lemma update_module_inv:
  assumes inv: "store_inv st"
  shows "store_inv (snd (update_module mn fid val aid ctx now st))"
proof -
  obtain res st' where run: "update_module mn fid val aid ctx now st = (res, st')"
    by (cases "update_module mn fid val aid ctx now st")
  from update_module_frame [OF run] consider (same) "st' = st"
    | (upd) f name m old nv src where "res = Inr (Module_updated f name m old nv src)"
    by blast
  then have "store_inv st'"
  proof cases
    case same
    with inv show ?thesis by simp
  next
    case upd
    with run obtain k a v where mod: "map_of MODULE_NAMES m = Some name"
      and load: "load_owned_app st (resolve_app_id aid ctx) (ctx_user_of ctx) = Inr (k, a)"
      and st': "case find_row st k m f of
           Some r \<Rightarrow> st' = touch_app k now (set_row (md_id r) (edit_row v now) st)
         | None \<Rightarrow> st' = touch_app k now (insert_row k m f (JStr v) Proxy_entered now st)"
      by (auto simp: update_module_Module_updated split: option.splits)
    show ?thesis
    proof (cases "find_row st k m f")
      case None
      with st' have "st' = touch_app k now (insert_row k m f (JStr v) Proxy_entered now st)" by simp
      moreover have "k \<in> dom (apps st)" using load_owned_app_Inr [OF load] by auto
      ultimately show ?thesis
        using inv None MODULE_NAMES_range [OF mod]
        by (auto intro!: inv_intros simp: find_row_None_iff)
    next
      case (Some r)
      with st' have "st' = touch_app k now (set_row (md_id r) (edit_row v now) st)" by simp
      with inv show ?thesis by (auto intro!: inv_intros)
    qed
  qed
  with run show ?thesis by simp
qed

lemma load_owned_app_touch:
  "load_owned_app st t u = Inr (k, a) \<Longrightarrow>
   load_owned_app (touch_app k now st) t u = Inr (k, a\<lparr>app_updated := now\<rparr>)"
  by (auto simp: load_owned_app_def touch_app_def owner_ok_def split: option.splits if_splits)

text \<open>After a successful update the key holds exactly one row, with the new value.\<close>

lemma update_module_key_rows:
  assumes inv: "store_inv st"
    and run: "update_module mn fid val aid ctx now st = (Inr (Module_updated f name m old (JStr v) src), st')"
  shows "\<exists>k a r. load_owned_app st (resolve_app_id aid ctx) (ctx_user_of ctx) = Inr (k, a)
     \<and> \<not> is_terminal (app_status a) \<and> int_key mn = Inr (Some m) \<and> map_of MODULE_NAMES m = Some name
     \<and> fid = JStr f \<and> val = JStr v \<and> py_truthy (resolve_app_id aid ctx)
     \<and> apps st' k = Some (a\<lparr>app_updated := now\<rparr>)
     \<and> key_rows st' k m f = [r] \<and> md_value r = JStr v \<and> md_source r = src \<and> md_conf r = 1"
proof -
  from run obtain k a where load: "load_owned_app st (resolve_app_id aid ctx) (ctx_user_of ctx) = Inr (k, a)"
    and facts: "\<not> is_terminal (app_status a)" "int_key mn = Inr (Some m)" "map_of MODULE_NAMES m = Some name"
      "fid = JStr f" "val = JStr v" "py_truthy (resolve_app_id aid ctx)"
    and st': "case find_row st k m f of
         Some r \<Rightarrow> old = Some (md_value r) \<and> src = Proxy_edited
                   \<and> st' = touch_app k now (set_row (md_id r) (edit_row v now) st)
       | None \<Rightarrow> old = None \<and> src = Proxy_entered
                   \<and> st' = touch_app k now (insert_row k m f (JStr v) Proxy_entered now st)"
    by (auto simp: update_module_Module_updated)
  have app: "apps st k = Some a" using load_owned_app_Inr [OF load] by simp
  have "\<exists>r. key_rows st' k m f = [r] \<and> md_value r = JStr v \<and> md_source r = src \<and> md_conf r = 1
            \<and> apps st' k = Some (a\<lparr>app_updated := now\<rparr>)"
  proof (cases "find_row st k m f")
    case None
    then have "key_rows st k m f = []" by (simp add: find_row_key_rows split: list.splits)
    with None st' app show ?thesis
      by (simp add: key_rows_insert_row)
  next
    case (Some r)
    then obtain rs where rs: "key_rows st k m f = r # rs" by (auto simp: find_row_key_rows split: list.splits)
    then have "key_rows st k m f = [r]" using key_rows_distinct [OF inv, of r k m f] by simp
    with Some st' app show ?thesis
      by (simp add: key_rows_set_row edit_row_def)
  qed
  with load facts show ?thesis by blast
qed

section \<open>Lemmas on request\_audit\<close>

text \<open>The document update of \<open>request_audit\<close> assigns \<open>metadata\<close> three times,
  so the database rejects it on every document.\<close>

lemma sql_set_doc_audit_rejected:
  "sql_set_doc (doc_audit_assignments r now) i st = Inl Database_error"
  by (simp add: sql_set_doc_def doc_audit_assignments_def)

lemma audit_document_Inr:
  "audit_document reason d k now st = Inr (b, st') \<Longrightarrow> \<not> py_truthy d \<and> b = False \<and> st' = st"
  by (auto simp: audit_document_def sql_set_doc_audit_rejected split: if_splits option.splits)

lemma audit_document_fails:
  "py_truthy d \<Longrightarrow> \<exists>e. audit_document reason d k now st = Inl e"
  by (auto simp: audit_document_def sql_set_doc_audit_rejected split: option.splits)

lemma add_audit_other [simp]:
  "apps (add_audit k u act fl v st) = apps st" "docs (add_audit k u act fl v st) = docs st"
  "mdata (add_audit k u act fl v st) = mdata st" "next_row (add_audit k u act fl v st) = next_row st"
  "accounts (add_audit k u act fl v st) = accounts st"
  "audit (add_audit k u act fl v st) =
     audit st @ [\<lparr>ae_app = k, ae_user = u, ae_action = act, ae_field = fl, ae_value = v\<rparr>]"
  by (simp_all add: add_audit_def)

lemma store_inv_add_audit [inv_intros]: "store_inv st \<Longrightarrow> store_inv (add_audit k u act fl v st)"
  by (simp add: store_inv_def)

text \<open>The field loop succeeds only when every id is a string and no requested field
  exists; a requested field that exists ends it with \<open>database_error\<close>.\<close>

lemma flag_fields_Inr:
  "flag_fields k xs st = Inr fs \<Longrightarrow>
   xs = map JStr fs \<and> (\<forall>f\<in>set fs. find (\<lambda>r. md_app r = k \<and> md_field r = f) (mdata st) = None)"
  by (induction xs arbitrary: fs) (auto split: option.splits sum.splits)

lemma flag_fields_found:
  "\<exists>f\<in>set fs. find (\<lambda>r. md_app r = k \<and> md_field r = f) (mdata st) \<noteq> None \<Longrightarrow>
   flag_fields k (map JStr fs) st = Inl Database_error"
proof (induction fs)
  case (Cons a fs)
  show ?case
  proof (cases "find (\<lambda>r. md_app r = k \<and> md_field r = a) (mdata st)")
    case None
    with Cons.prems have "\<exists>f\<in>set fs. find (\<lambda>r. md_app r = k \<and> md_field r = f) (mdata st) \<noteq> None"
      by auto
    with None Cons.IH show ?thesis by simp
  qed simp
qed simp

text \<open>A successful \<open>request_audit\<close>: no document was given, no requested field
  exists, one audit-trail row was added when the caller has a user id, and the
  application's timestamp was bumped.\<close>

lemma request_audit_Audit_flagged:
  "request_audit reason aid did fids ctx now st = (Inr (Audit_flagged n fd), st') \<Longrightarrow>
   \<exists>k a fs. load_owned_app st (resolve_app_id aid ctx) (ctx_user_of ctx) = Inr (k, a)
     \<and> \<not> py_truthy did \<and> py_truthy fids \<and> n = 0 \<and> fd = False \<and> audit_fields fids k st = Inr fs
     \<and> (if py_truthy (ctx_user_of ctx)
        then \<exists>r. reason = JStr r \<and> st' = touch_app k now (add_audit k (ctx_user_of ctx) ''audit_requested''
                   (Some (py_join '', '' fs)) r st)
        else st' = touch_app k now st)"
  unfolding request_audit_def Let_def
  by (auto split: if_splits sum.splits prod.splits option.splits dest!: audit_document_Inr)

text \<open>Every run leaves the store as it was, or bumps the application's timestamp,
  after adding one trail row or none.\<close>

lemma request_audit_cases:
  "request_audit reason aid did fids ctx now st = (res, st') \<Longrightarrow>
   st' = st \<or> (\<exists>k. st' = touch_app k now st)
   \<or> (\<exists>k u fl r. st' = touch_app k now (add_audit k u ''audit_requested'' fl r st))"
  unfolding request_audit_def Let_def
  by (auto split: if_splits sum.splits prod.splits option.splits dest!: audit_document_Inr) blast+

lemma request_audit_inv:
  assumes inv: "store_inv st"
  shows "store_inv (snd (request_audit reason aid did fids ctx now st))"
proof -
  obtain res st' where run: "request_audit reason aid did fids ctx now st = (res, st')"
    by (cases "request_audit reason aid did fids ctx now st")
  from request_audit_cases [OF run] inv have "store_inv st'" by (auto intro: inv_intros)
  with run show ?thesis by simp
qed

section \<open>Properties of update\_module\<close>

text \<open>C1 (the upsert of spec section 8): two calls of \<open>update_module\<close> for the same
  (application, module, field) leave exactly one row for that key, holding the second
  value with source \<open>proxy_edited\<close> and confidence 1.0, and the second call reports the
  first call's value as \<open>old_value\<close>.\<close>

theorem update_module_upsert_twice:
  assumes inv: "store_inv st"
    and first: "update_module mn (JStr f) (JStr v1) aid ctx now st =
                  (Inr (Module_updated f name m old (JStr v1) src), st1)"
  shows "\<exists>k r st2. update_module mn (JStr f) (JStr v2) aid ctx now' st1 =
              (Inr (Module_updated f name m (Some (JStr v1)) (JStr v2) Proxy_edited), st2)
           \<and> resolve_app_id aid ctx = JStr k \<and> key_rows st2 k m f = [r]
           \<and> md_value r = JStr v2 \<and> md_source r = Proxy_edited \<and> md_conf r = 1"
proof -
  from update_module_key_rows [OF inv first] obtain k a r1 where
    load: "load_owned_app st (resolve_app_id aid ctx) (ctx_user_of ctx) = Inr (k, a)"
    and facts: "\<not> is_terminal (app_status a)" "int_key mn = Inr (Some m)"
      "map_of MODULE_NAMES m = Some name" "py_truthy (resolve_app_id aid ctx)"
    and app1: "apps st1 k = Some (a\<lparr>app_updated := now\<rparr>)"
    and rows1: "key_rows st1 k m f = [r1]" "md_value r1 = JStr v1"
    by blast
  from load_owned_app_Inr [OF load] have tgt: "resolve_app_id aid ctx = JStr k"
    and own: "owner_ok (app_owner a) (ctx_user_of ctx)" by auto
  have load1: "load_owned_app st1 (resolve_app_id aid ctx) (ctx_user_of ctx) = Inr (k, a\<lparr>app_updated := now\<rparr>)"
    using tgt app1 own by (simp add: load_owned_app_def)
  have find1: "find_row st1 k m f = Some r1"
    using rows1 by (simp add: find_row_key_rows)
  let ?st2 = "touch_app k now' (set_row (md_id r1) (edit_row v2 now') st1)"
  have run2: "update_module mn (JStr f) (JStr v2) aid ctx now' st1 =
      (Inr (Module_updated f name m (Some (JStr v1)) (JStr v2) Proxy_edited), ?st2)"
    using facts load1 find1 rows1 by (simp add: update_module_def Let_def)
  have "key_rows ?st2 k m f = [edit_row v2 now' r1]"
    using rows1 by (simp add: key_rows_set_row)
  with run2 tgt show ?thesis
    by (auto simp: edit_row_def)
qed

theorem update_module_upsert_twice_witness:
  "store_inv demo_store \<and>
   update_module (JInt 1) (JStr ''total_revenue'') (JStr ''100'') JNull (demo_ctx ''app1'') ''t1'' demo_store =
     (Inr (Module_updated ''total_revenue'' ''financial'' 1 None (JStr ''100'') Proxy_entered),
      snd (update_module (JInt 1) (JStr ''total_revenue'') (JStr ''100'') JNull (demo_ctx ''app1'') ''t1'' demo_store)) \<and>
   (\<exists>k r st2. update_module (JInt 1) (JStr ''total_revenue'') (JStr ''250'') JNull (demo_ctx ''app1'') ''t2''
          (snd (update_module (JInt 1) (JStr ''total_revenue'') (JStr ''100'') JNull (demo_ctx ''app1'') ''t1'' demo_store)) =
        (Inr (Module_updated ''total_revenue'' ''financial'' 1 (Some (JStr ''100'')) (JStr ''250'') Proxy_edited), st2)
      \<and> resolve_app_id JNull (demo_ctx ''app1'') = JStr k \<and> key_rows st2 k 1 ''total_revenue'' = [r]
      \<and> md_value r = JStr ''250'' \<and> md_source r = Proxy_edited \<and> md_conf r = 1)"
proof -
  have run: "update_module (JInt 1) (JStr ''total_revenue'') (JStr ''100'') JNull (demo_ctx ''app1'') ''t1'' demo_store =
     (Inr (Module_updated ''total_revenue'' ''financial'' 1 None (JStr ''100'') Proxy_entered),
      snd (update_module (JInt 1) (JStr ''total_revenue'') (JStr ''100'') JNull (demo_ctx ''app1'') ''t1'' demo_store))"
    by (simp add: update_module_def model_simps MODULE_NAMES_def find_row_def insert_row_def touch_app_def)
  show ?thesis
    using store_inv_demo run update_module_upsert_twice [OF store_inv_demo run, of "''250''" "''t2''"]
    by simp
qed

text \<open>C2 (lock enforcement): against an approved or rejected application,
  \<open>update_module\<close> changes nothing in the store, whatever its arguments; with a valid
  module number and an authorised caller it answers \<open>application_locked\<close>.\<close>

theorem update_module_locked:
  assumes app: "apps st k = Some a" and locked: "is_terminal (app_status a)"
    and tgt: "resolve_app_id aid ctx = JStr k"
  shows "snd (update_module mn fid val aid ctx now st) = st
       \<and> (k \<noteq> [] \<longrightarrow> owner_ok (app_owner a) (ctx_user_of ctx) \<longrightarrow> int_key mn = Inr (Some m)
            \<longrightarrow> map_of MODULE_NAMES m = Some name
            \<longrightarrow> fst (update_module mn fid val aid ctx now st) = Inr (Tool_error Application_locked))"
proof
  obtain res st' where run: "update_module mn fid val aid ctx now st = (res, st')"
    by (cases "update_module mn fid val aid ctx now st")
  from update_module_frame [OF run] have "st' = st"
  proof
    assume "\<exists>f name m old nv src. res = Inr (Module_updated f name m old nv src)"
    then obtain f name m old nv src where "res = Inr (Module_updated f name m old nv src)" by blast
    with run obtain k' a' where "load_owned_app st (resolve_app_id aid ctx) (ctx_user_of ctx) = Inr (k', a')"
      and "\<not> is_terminal (app_status a')"
      by (auto simp: update_module_Module_updated)
    with tgt app locked show "st' = st"
      by (auto dest: load_owned_app_Inr)
  qed
  with run show "snd (update_module mn fid val aid ctx now st) = st" by simp
next
  show "k \<noteq> [] \<longrightarrow> owner_ok (app_owner a) (ctx_user_of ctx) \<longrightarrow> int_key mn = Inr (Some m)
      \<longrightarrow> map_of MODULE_NAMES m = Some name
      \<longrightarrow> fst (update_module mn fid val aid ctx now st) = Inr (Tool_error Application_locked)"
    using app locked tgt by (simp add: update_module_def load_owned_app_def)
qed

theorem update_module_locked_witness:
  "snd (update_module (JInt 2) (JStr ''license'') (JStr ''L-1'') JNull (demo_ctx ''app2'') ''t1'' demo_store) = demo_store
   \<and> fst (update_module (JInt 2) (JStr ''license'') (JStr ''L-1'') JNull (demo_ctx ''app2'') ''t1'' demo_store)
       = Inr (Tool_error Application_locked)"
proof -
  have app: "apps demo_store ''app2'' = Some \<lparr>app_owner = ''u1'', app_status = Approved, app_cert = ''organic'',
                            app_notes = None, app_updated = ''t0''\<rparr>"
    by (simp add: demo_store_def)
  have tgt: "resolve_app_id JNull (demo_ctx ''app2'') = JStr ''app2''"
    by (simp add: model_simps)
  show ?thesis
    using update_module_locked [OF app _ tgt, of "JInt 2" "JStr ''license''" "JStr ''L-1''" "''t1''" 2 "''compliance''"]
    by (simp add: model_simps MODULE_NAMES_def)
qed

section \<open>Properties of request\_audit\<close>

text \<open>C3 (the document flag never applies): whenever a document id is given,
  \<open>request_audit\<close> returns an error and leaves the store unchanged, because the
  document update assigns \<open>metadata\<close> three times in one statement and PostgreSQL
  rejects it (or an earlier check fails).\<close>

theorem request_audit_document_rejected:
  assumes "py_truthy document_id"
  shows "\<exists>e. request_audit reason aid document_id fids ctx now st = (Inr (Tool_error e), st)"
  using assms by (auto simp: request_audit_def Let_def split: sum.splits dest!: audit_document_Inr)

theorem request_audit_document_rejected_witness:
  "py_truthy (JStr ''doc1'') \<and>
   (\<exists>e. request_audit (JStr ''blurred scan'') JNull (JStr ''doc1'') JNull (demo_ctx ''app1'') ''t1'' demo_store
          = (Inr (Tool_error e), demo_store))"
  using request_audit_document_rejected [of "JStr ''doc1''" "JStr ''blurred scan''" JNull JNull
      "demo_ctx ''app1''" "''t1''" demo_store]
  by simp

text \<open>C4 (a field that exists is never flagged): for an authorised call without a
  document whose field ids are strings, one of which names a field of the target
  application, \<open>request_audit\<close> answers \<open>database_error\<close> and leaves the store
  unchanged: the field update is rejected when it is prepared. The application's
  status plays no part (the witness uses an approved one).\<close>

theorem request_audit_field_rejected:
  assumes load: "load_owned_app st (resolve_app_id aid ctx) (ctx_user_of ctx) = Inr (k, a)"
    and tgt: "py_truthy (resolve_app_id aid ctx)"
    and found: "\<exists>f\<in>set fs. find (\<lambda>r. md_app r = k \<and> md_field r = f) (mdata st) \<noteq> None"
  shows "request_audit reason aid JNull (JList (map JStr fs)) ctx now st = (Inr (Tool_error Database_error), st)"
proof -
  from found have "fs \<noteq> []" by auto
  with load tgt flag_fields_found [OF found] show ?thesis
    by (simp add: request_audit_def audit_document_def audit_fields_def Let_def)
qed

theorem request_audit_field_rejected_witness:
  "request_audit (JStr ''recheck'') JNull JNull (JList [JStr ''acreage'']) (demo_ctx ''app2'') ''t1''
     (demo_store\<lparr>mdata := [\<lparr>md_id = 0, md_app = ''app2'', md_module = 3, md_field = ''acreage'',
                               md_value = JStr ''40'', md_source = Proxy_entered, md_conf = 1,
                               md_updated = ''t0'', md_doc = None\<rparr>], next_row := 1\<rparr>)
   = (Inr (Tool_error Database_error),
      demo_store\<lparr>mdata := [\<lparr>md_id = 0, md_app = ''app2'', md_module = 3, md_field = ''acreage'',
                               md_value = JStr ''40'', md_source = Proxy_entered, md_conf = 1,
                               md_updated = ''t0'', md_doc = None\<rparr>], next_row := 1\<rparr>)"
  using request_audit_field_rejected [where fs = "[''acreage'']" and k = "''app2''"
      and a = "\<lparr>app_owner = ''u1'', app_status = Approved, app_cert = ''organic'', app_notes = None,
               app_updated = ''t0''\<rparr>" and aid = JNull and ctx = "demo_ctx ''app2''"
      and st = "demo_store\<lparr>mdata := [\<lparr>md_id = 0, md_app = ''app2'', md_module = 3, md_field = ''acreage'',
                               md_value = JStr ''40'', md_source = Proxy_entered, md_conf = 1,
                               md_updated = ''t0'', md_doc = None\<rparr>], next_row := 1\<rparr>"]
  by (simp add: model_simps)

text \<open>C5 (no call flags anything): whatever its arguments, \<open>request_audit\<close> changes
  no module row and no document, and a success reports no flagged field and no
  flagged document.\<close>

theorem request_audit_never_flags:
  assumes run: "request_audit reason aid did fids ctx now st = (res, st')"
  shows "mdata st' = mdata st \<and> docs st' = docs st
    \<and> (\<forall>n fd. res = Inr (Audit_flagged n fd) \<longrightarrow> n = 0 \<and> fd = False)"
proof -
  from request_audit_cases [OF run] have "mdata st' = mdata st \<and> docs st' = docs st" by auto
  moreover have "n = 0 \<and> fd = False" if "res = Inr (Audit_flagged n fd)" for n fd
    using request_audit_Audit_flagged [of reason aid did fids ctx now st n fd st'] run that by auto
  ultimately show ?thesis by blast
qed

theorem request_audit_never_flags_witness:
  "fst (request_audit (JStr ''check'') JNull JNull (JList [JStr ''a'']) (demo_ctx ''app1'') ''t1'' demo_store)
     = Inr (Audit_flagged 0 False)
   \<and> mdata (snd (request_audit (JStr ''check'') JNull JNull (JList [JStr ''a'']) (demo_ctx ''app1'') ''t1'' demo_store))
     = mdata demo_store"
proof -
  have r: "fst (request_audit (JStr ''check'') JNull JNull (JList [JStr ''a'']) (demo_ctx ''app1'') ''t1'' demo_store)
     = Inr (Audit_flagged 0 False)"
    by (simp add: request_audit_def audit_document_def audit_fields_def model_simps)
  from request_audit_never_flags [OF surjective_pairing] r show ?thesis by simp
qed

text \<open>C6 (one audit row per call): a successful \<open>request_audit\<close> by a caller with a
  user id for the string field ids \<open>fs\<close> appends exactly one audit-trail row: action
  \<open>audit_requested\<close>, the ids joined with commas as field, the reason as new value.\<close>

theorem request_audit_one_trail_row:
  assumes run: "request_audit reason aid did (JList (map JStr fs)) ctx now st = (Inr (Audit_flagged n fd), st')"
    and user: "py_truthy (ctx_user_of ctx)"
  shows "\<exists>k r. reason = JStr r \<and>
     audit st' = audit st @ [\<lparr>ae_app = k, ae_user = ctx_user_of ctx, ae_action = ''audit_requested'',
                               ae_field = Some (py_join '', '' fs), ae_value = r\<rparr>]"
proof -
  from request_audit_Audit_flagged [OF run] user obtain k a fs' r where
    flds: "audit_fields (JList (map JStr fs)) k st = Inr fs'" and rs: "reason = JStr r"
    and tr: "py_truthy (JList (map JStr fs))"
    and st': "st' = touch_app k now (add_audit k (ctx_user_of ctx) ''audit_requested''
                   (Some (py_join '', '' fs')) r st)"
    by auto
  from flds tr have "flag_fields k (map JStr fs) st = Inr fs'" by (simp add: audit_fields_def)
  from flag_fields_Inr [OF this] have "map JStr fs = map JStr fs'" by simp
  then have "fs' = fs" by (metis jval.inject list.inj_map_strong)
  with rs st' show ?thesis by (auto simp: add_audit_def)
qed

theorem request_audit_one_trail_row_witness:
  "request_audit (JStr ''check'') JNull JNull (JList (map JStr [''a'', ''b''])) (demo_ctx ''app1'') ''t1'' demo_store
     = (Inr (Audit_flagged 0 False),
        snd (request_audit (JStr ''check'') JNull JNull (JList (map JStr [''a'', ''b''])) (demo_ctx ''app1'') ''t1'' demo_store))
   \<and> py_truthy (ctx_user_of (demo_ctx ''app1''))
   \<and> (\<exists>k r. JStr ''check'' = JStr r \<and>
        audit (snd (request_audit (JStr ''check'') JNull JNull (JList (map JStr [''a'', ''b'']))
                      (demo_ctx ''app1'') ''t1'' demo_store))
        = audit demo_store @ [\<lparr>ae_app = k, ae_user = ctx_user_of (demo_ctx ''app1''),
                                ae_action = ''audit_requested'', ae_field = Some (py_join '', '' [''a'', ''b'']),
                                ae_value = r\<rparr>])"
proof -
  have run: "request_audit (JStr ''check'') JNull JNull (JList (map JStr [''a'', ''b''])) (demo_ctx ''app1'') ''t1'' demo_store
     = (Inr (Audit_flagged 0 False),
        snd (request_audit (JStr ''check'') JNull JNull (JList (map JStr [''a'', ''b''])) (demo_ctx ''app1'') ''t1'' demo_store))"
    by (simp add: request_audit_def audit_document_def audit_fields_def model_simps)
  have user: "py_truthy (ctx_user_of (demo_ctx ''app1''))" by (simp add: model_simps)
  show ?thesis using run user request_audit_one_trail_row [OF run user] by blast
qed

end
