(* ===== verification/Certify.thy ===== *)
theory Certify
  imports Store
begin

text \<open>
  \<open>certify_application\<close> (\<open>src/ai-service/src/tools/certify_application.py\<close>): the
  irreversible transition of an application to \<open>approved\<close>. The handler checks the
  confirmation flag, the target, ownership and the terminal statuses, then runs four
  independent checks over the application's documents and module rows, collects every
  failure, and writes (status, timestamp, note, audit-trail row) only when there is none.
  \<open>cert_failures\<close> is the list of failures the handler computes; \<open>cert_ready\<close> is
  the gate stated over the rows, and the lemmas show that the two agree.
\<close>

section \<open>The four checks\<close>

text \<open>\<open>SELECT extraction_status, COUNT(*) FROM documents WHERE application_id = $1
  GROUP BY extraction_status\<close>, read for one status.\<close>

definition doc_count :: "store \<Rightarrow> string \<Rightarrow> doc_status \<Rightarrow> nat" where
  "doc_count st k s = length (filter (\<lambda>p. doc_status (snd p) = Some s) (app_docs st k))"

text \<open>\<open>SELECT DISTINCT module_number FROM module_data WHERE application_id = $1\<close>
  and the required modules 1 to 5 absent from it.\<close>

definition missing_modules :: "store \<Rightarrow> string \<Rightarrow> int list" where
  "missing_modules st k = filter (\<lambda>m. m \<notin> md_module ` set (app_rows st k)) [1, 2, 3, 4, 5]"

definition flagged_count :: "store \<Rightarrow> string \<Rightarrow> nat" where
  "flagged_count st k = length (filter (\<lambda>r. audit_flagged (md_value r)) (app_rows st k))"

text \<open>The \<open>validation_failures\<close> list, in the order the handler appends to it.\<close>

definition cert_failures :: "store \<Rightarrow> string \<Rightarrow> cert_failure list" where
  "cert_failures st k =
     (if 0 < doc_count st k Pending then [Pending_docs (doc_count st k Pending)] else [])
   @ (if 0 < doc_count st k Processing then [Processing_docs (doc_count st k Processing)] else [])
   @ (if 0 < doc_count st k Error_status then [Error_docs (doc_count st k Error_status)] else [])
   @ (if missing_modules st k \<noteq> [] then [Missing_modules (missing_modules st k)] else [])
   @ (if 0 < flagged_count st k then [Flagged_fields (flagged_count st k)] else [])
   @ (if app_docs st k = [] then [No_documents] else [])"

text \<open>The gate stated over the rows: no document in a blocking status, every module
  present, no flagged field, at least one document.\<close>

definition cert_ready :: "store \<Rightarrow> string \<Rightarrow> bool" where
  "cert_ready st k \<longleftrightarrow>
     (\<forall>p\<in>set (app_docs st k). doc_status (snd p) \<notin> {Some Pending, Some Processing, Some Error_status})
   \<and> (\<forall>m\<in>{1..5}. \<exists>r\<in>set (app_rows st k). md_module r = m)
   \<and> (\<forall>r\<in>set (app_rows st k). \<not> audit_flagged (md_value r))
   \<and> app_docs st k \<noteq> []"

section \<open>The approval\<close>

definition certified_note :: "string \<Rightarrow> string" where
  "certified_note now = [CHR 0x0A, CHR 0x0A] @ ''Certified at: '' @ now"

text \<open>\<open>UPDATE applications SET status = 'approved', updated_at = $1,
  notes = COALESCE(notes, '') || E'\n\nCertified at: ' || $2 WHERE id = $3\<close>.\<close>

definition approve :: "string \<Rightarrow> string \<Rightarrow> store \<Rightarrow> store" where
  "approve k now st =
     st\<lparr>apps := (case apps st k of
                   None \<Rightarrow> apps st
                 | Some a \<Rightarrow> (apps st)(k \<mapsto> a\<lparr>app_status := Approved, app_updated := now,
                      app_notes := Some ((case app_notes a of None \<Rightarrow> [] | Some n \<Rightarrow> n) @ certified_note now)\<rparr>))\<rparr>"

text \<open>\<open>INSERT INTO audit_trail ... VALUES ($1, $2, 'application_certified', $3, $4)\<close>,
  only when the caller has a user id.\<close>

definition log_certified :: "string \<Rightarrow> jval \<Rightarrow> string \<Rightarrow> store \<Rightarrow> store" where
  "log_certified k u cert st =
     (if py_truthy u
      then st\<lparr>audit := audit st @ [\<lparr>ae_app = k, ae_user = u, ae_action = ''application_certified'',
                                     ae_field = None, ae_value = ''Application certified for '' @ cert\<rparr>]\<rparr>
      else st)"

section \<open>certify\_application\<close>

definition certify_application :: "jval \<Rightarrow> jval \<Rightarrow> session_ctx option \<Rightarrow> string \<Rightarrow> store \<Rightarrow> outcome" where
  "certify_application certification_confirmed application_id ctx now st =
     (if \<not> py_truthy certification_confirmed then fail Confirmation_required st
      else
        (let target = resolve_app_id application_id ctx; u = ctx_user_of ctx in
         if \<not> py_truthy target then fail Application_id_required st
         else
           (case load_owned_app st target u of
              Inl e \<Rightarrow> fail e st
            | Inr (k, a) \<Rightarrow>
                if is_terminal (app_status a) then fail Already_certified st
                else
                  (let fs = cert_failures st k in
                   if fs \<noteq> [] then ret (Certify_rejected fs k (app_status a)) st
                   else ret (Certified k Approved (app_cert a))
                            (log_certified k u (app_cert a) (approve k now st))))))"

section \<open>Sample data\<close>

text \<open>Module rows for the witnesses: one field in each of the given modules.\<close>

definition demo_rows :: "string \<Rightarrow> int list \<Rightarrow> jval \<Rightarrow> module_row list" where
  "demo_rows k ms v = map (\<lambda>m. \<lparr>md_id = nat m, md_app = k, md_module = m, md_field = ''field'',
                                md_value = v, md_source = Proxy_entered, md_conf = 1, md_updated = ''t0'', md_doc = None\<rparr>) ms"

definition demo_doc :: "string \<Rightarrow> doc_status \<Rightarrow> document" where
  "demo_doc k s = \<lparr>doc_app = k, doc_type = ''tax_return'', doc_file = ''return.pdf'',
                   doc_status = Some s, doc_meta = None\<rparr>"

section \<open>Lemmas\<close>

lemma app_docs_approve [simp]: "app_docs (approve k now st) j = app_docs st j"
  by (simp add: app_docs_def approve_def)

lemma app_rows_approve [simp]: "app_rows (approve k now st) j = app_rows st j"
  by (simp add: app_rows_def approve_def)

lemma approve_other [simp]:
  "mdata (approve k now st) = mdata st" "docs (approve k now st) = docs st"
  "audit (approve k now st) = audit st" "next_row (approve k now st) = next_row st"
  "accounts (approve k now st) = accounts st"
  by (simp_all add: approve_def)

lemma approve_dom [simp]: "dom (apps (approve k now st)) = dom (apps st)"
  by (auto simp: approve_def split: option.splits)

lemma log_certified_other [simp]:
  "apps (log_certified k u c st) = apps st" "mdata (log_certified k u c st) = mdata st"
  "docs (log_certified k u c st) = docs st" "next_row (log_certified k u c st) = next_row st"
  "accounts (log_certified k u c st) = accounts st"
  by (simp_all add: log_certified_def)

lemma store_inv_approve [inv_intros]: "store_inv st \<Longrightarrow> store_inv (approve k now st)"
  by (simp add: store_inv_def)

lemma store_inv_log_certified [inv_intros]: "store_inv st \<Longrightarrow> store_inv (log_certified k u c st)"
  by (simp add: store_inv_def)

lemma missing_modules_Nil_iff:
  "missing_modules st k = [] \<longleftrightarrow> (\<forall>m\<in>{1..5}. \<exists>r\<in>set (app_rows st k). md_module r = m)"
proof -
  have "{1..5::int} = set [1, 2, 3, 4, 5]" by auto
  then show ?thesis
    by (auto simp: missing_modules_def filter_empty_conv image_iff)
qed

lemma doc_count_zero_iff:
  "doc_count st k s = 0 \<longleftrightarrow> (\<forall>p\<in>set (app_docs st k). doc_status (snd p) \<noteq> Some s)"
  by (simp add: doc_count_def filter_empty_conv)

lemma flagged_count_zero_iff:
  "flagged_count st k = 0 \<longleftrightarrow> (\<forall>r\<in>set (app_rows st k). \<not> audit_flagged (md_value r))"
  by (simp add: flagged_count_def filter_empty_conv)

lemma cert_failures_Nil_conv:
  "cert_failures st k = [] \<longleftrightarrow> doc_count st k Pending = 0 \<and> doc_count st k Processing = 0
     \<and> doc_count st k Error_status = 0 \<and> missing_modules st k = [] \<and> flagged_count st k = 0
     \<and> app_docs st k \<noteq> []"
  by (simp add: cert_failures_def)

lemmas gate_simps = cert_failures_Nil_conv cert_ready_def missing_modules_Nil_iff
  flagged_count_zero_iff doc_count_zero_iff

lemma certify_frame:
  "certify_application c aid ctx now st = (res, st') \<Longrightarrow>
   st' = st \<or> (\<exists>k s cert. res = Inr (Certified k s cert))"
  unfolding certify_application_def Let_def
  by (auto split: if_splits sum.splits prod.splits)

lemma certify_Certified:
  "certify_application c aid ctx now st = (Inr (Certified k s cert), st') \<longleftrightarrow>
   (\<exists>a. py_truthy c \<and> py_truthy (resolve_app_id aid ctx)
      \<and> load_owned_app st (resolve_app_id aid ctx) (ctx_user_of ctx) = Inr (k, a)
      \<and> \<not> is_terminal (app_status a) \<and> cert_failures st k = [] \<and> s = Approved \<and> cert = app_cert a
      \<and> st' = log_certified k (ctx_user_of ctx) (app_cert a) (approve k now st))"
  unfolding certify_application_def Let_def
  by (auto split: if_splits sum.splits prod.splits)

lemma certify_Certify_rejected:
  "certify_application c aid ctx now st = (Inr (Certify_rejected fs k s), st') \<longleftrightarrow>
   (\<exists>a. py_truthy c \<and> py_truthy (resolve_app_id aid ctx)
      \<and> load_owned_app st (resolve_app_id aid ctx) (ctx_user_of ctx) = Inr (k, a)
      \<and> \<not> is_terminal (app_status a) \<and> fs = cert_failures st k \<and> fs \<noteq> [] \<and> s = app_status a
      \<and> st' = st)"
  unfolding certify_application_def Let_def
  by (auto split: if_splits sum.splits prod.splits)

lemma certify_inv: "store_inv st \<Longrightarrow> store_inv (snd (certify_application c aid ctx now st))"
proof -
  assume inv: "store_inv st"
  obtain res st' where run: "certify_application c aid ctx now st = (res, st')"
    by (cases "certify_application c aid ctx now st")
  from certify_frame [OF run] have "store_inv st'"
  proof
    assume "st' = st"
    with inv show ?thesis by simp
  next
    assume "\<exists>k s cert. res = Inr (Certified k s cert)"
    then obtain k s cert where "res = Inr (Certified k s cert)" by blast
    with run have "certify_application c aid ctx now st = (Inr (Certified k s cert), st')" by simp
    then obtain a :: application where "st' = log_certified k (ctx_user_of ctx) (app_cert a) (approve k now st)"
      unfolding certify_Certified by blast
    with inv show ?thesis by (simp add: inv_intros)
  qed
  with run show ?thesis by simp
qed

lemma approve_status: "apps st k = Some a \<Longrightarrow> map_option app_status (apps (approve k now st) k) = Some Approved"
  by (simp add: approve_def)

section \<open>Properties of certify\_application\<close>

text \<open>C7 (the gate is computed right): the handler's list of validation failures is
  empty exactly when no document of the application is pending, processing or in error,
  all five modules have a row, no row is audit-flagged, and there is a document.\<close>

theorem cert_failures_empty_iff_ready: "cert_failures st k = [] \<longleftrightarrow> cert_ready st k"
  unfolding gate_simps by auto

text \<open>C8 (no write before the gate): if \<open>certify_application\<close> changes the store at all,
  the caller confirmed, owns a non-terminal application whose rows pass every check,
  and the application is now approved.\<close>

theorem certify_writes_only_when_ready:
  assumes run: "certify_application c aid ctx now st = (res, st')" and changed: "st' \<noteq> st"
  shows "\<exists>k a. py_truthy c \<and> load_owned_app st (resolve_app_id aid ctx) (ctx_user_of ctx) = Inr (k, a)
           \<and> \<not> is_terminal (app_status a) \<and> cert_ready st k
           \<and> map_option app_status (apps st' k) = Some Approved
           \<and> res = Inr (Certified k Approved (app_cert a))"
proof -
  from certify_frame [OF run] changed obtain k s cert where res: "res = Inr (Certified k s cert)"
    by blast
  with run obtain a where c: "py_truthy c"
    and load: "load_owned_app st (resolve_app_id aid ctx) (ctx_user_of ctx) = Inr (k, a)"
    and nt: "\<not> is_terminal (app_status a)" and ok: "cert_failures st k = []"
    and sc: "s = Approved" "cert = app_cert a"
    and st': "st' = log_certified k (ctx_user_of ctx) (app_cert a) (approve k now st)"
    by (auto simp: certify_Certified)
  from load_owned_app_Inr [OF load] have "apps st k = Some a" by simp
  then have "map_option app_status (apps st' k) = Some Approved"
    using st' by (simp add: approve_status)
  moreover from ok have "cert_ready st k"
    unfolding gate_simps by auto
  ultimately show ?thesis using c load nt res sc by auto
qed

theorem certify_writes_only_when_ready_witness:
  "certify_application (JBool True) JNull (demo_ctx ''app1'') ''t9''
      (demo_store\<lparr>mdata := demo_rows ''app1'' [1, 2, 3, 4, 5] (JStr ''x''), next_row := 6\<rparr>)
     = (Inr (Certified ''app1'' Approved ''standard''),
        snd (certify_application (JBool True) JNull (demo_ctx ''app1'') ''t9''
          (demo_store\<lparr>mdata := demo_rows ''app1'' [1, 2, 3, 4, 5] (JStr ''x''), next_row := 6\<rparr>)))
   \<and> snd (certify_application (JBool True) JNull (demo_ctx ''app1'') ''t9''
          (demo_store\<lparr>mdata := demo_rows ''app1'' [1, 2, 3, 4, 5] (JStr ''x''), next_row := 6\<rparr>))
     \<noteq> demo_store\<lparr>mdata := demo_rows ''app1'' [1, 2, 3, 4, 5] (JStr ''x''), next_row := 6\<rparr>
   \<and> cert_ready (demo_store\<lparr>mdata := demo_rows ''app1'' [1, 2, 3, 4, 5] (JStr ''x''), next_row := 6\<rparr>) ''app1''"
proof -
  let ?st = "demo_store\<lparr>mdata := demo_rows ''app1'' [1, 2, 3, 4, 5] (JStr ''x''), next_row := 6\<rparr>"
  have run: "certify_application (JBool True) JNull (demo_ctx ''app1'') ''t9'' ?st
     = (Inr (Certified ''app1'' Approved ''standard''), snd (certify_application (JBool True) JNull (demo_ctx ''app1'') ''t9'' ?st))"
    by (simp add: certify_application_def cert_failures_def doc_count_def missing_modules_def
        flagged_count_def app_docs_def app_rows_def demo_rows_def audit_flagged_def model_simps)
  have "snd (certify_application (JBool True) JNull (demo_ctx ''app1'') ''t9'' ?st)
      = log_certified ''app1'' (JStr ''u1'') ''standard'' (approve ''app1'' ''t9'' ?st)"
    using run by (auto simp: certify_Certified model_simps)
  then have "map_option app_status (apps (snd (certify_application (JBool True) JNull (demo_ctx ''app1'') ''t9'' ?st)) ''app1'')
      = Some Approved"
    by (simp add: approve_def demo_store_def)
  moreover have "map_option app_status (apps ?st ''app1'') = Some Draft"
    by (simp add: demo_store_def)
  ultimately have changed: "snd (certify_application (JBool True) JNull (demo_ctx ''app1'') ''t9'' ?st) \<noteq> ?st"
    by auto
  from certify_writes_only_when_ready [OF run changed] changed run show ?thesis
    by (auto simp: model_simps)
qed

text \<open>C9 (every failure is reported, nothing is written): a rejected certification
  leaves the store unchanged and lists every failing check together, with its count or
  its missing modules, rather than stopping at the first.\<close>

theorem certify_reports_every_failure:
  assumes run: "certify_application c aid ctx now st = (Inr (Certify_rejected fs k s), st')"
  shows "st' = st \<and> map_option app_status (apps st k) = Some s \<and> fs \<noteq> []
    \<and> (0 < doc_count st k Pending \<longrightarrow> Pending_docs (doc_count st k Pending) \<in> set fs)
    \<and> (0 < doc_count st k Processing \<longrightarrow> Processing_docs (doc_count st k Processing) \<in> set fs)
    \<and> (0 < doc_count st k Error_status \<longrightarrow> Error_docs (doc_count st k Error_status) \<in> set fs)
    \<and> (missing_modules st k \<noteq> [] \<longrightarrow> Missing_modules (missing_modules st k) \<in> set fs)
    \<and> (0 < flagged_count st k \<longrightarrow> Flagged_fields (flagged_count st k) \<in> set fs)
    \<and> (app_docs st k = [] \<longrightarrow> No_documents \<in> set fs)"
proof -
  from run obtain a where load: "load_owned_app st (resolve_app_id aid ctx) (ctx_user_of ctx) = Inr (k, a)"
    and fs: "fs = cert_failures st k" "fs \<noteq> []" and s: "s = app_status a" and st': "st' = st"
    unfolding certify_Certify_rejected by blast
  from load_owned_app_Inr [OF load] s have "map_option app_status (apps st k) = Some s" by simp
  with fs st' show ?thesis by (simp add: cert_failures_def)
qed

theorem certify_reports_every_failure_witness:
  "certify_application (JBool True) (JStr ''app1'') (demo_ctx ''app1'') ''t9''
      (demo_store\<lparr>docs := [(''d1'', demo_doc ''app1'' Pending)],
                  mdata := demo_rows ''app1'' [1, 2] (JStr ''x'')
                           @ demo_rows ''app1'' [3] (JObj [(''_value'', JStr ''7''), (''_audit_flagged'', JBool True)]),
                  next_row := 6\<rparr>)
     = (Inr (Certify_rejected [Pending_docs 1, Missing_modules [4, 5], Flagged_fields 1] ''app1'' Draft),
        demo_store\<lparr>docs := [(''d1'', demo_doc ''app1'' Pending)],
                  mdata := demo_rows ''app1'' [1, 2] (JStr ''x'')
                           @ demo_rows ''app1'' [3] (JObj [(''_value'', JStr ''7''), (''_audit_flagged'', JBool True)]),
                  next_row := 6\<rparr>)
   \<and> Missing_modules [4, 5] \<in> set [Pending_docs 1, Missing_modules [4, 5], Flagged_fields 1]"
proof -
  let ?st = "demo_store\<lparr>docs := [(''d1'', demo_doc ''app1'' Pending)],
                  mdata := demo_rows ''app1'' [1, 2] (JStr ''x'')
                           @ demo_rows ''app1'' [3] (JObj [(''_value'', JStr ''7''), (''_audit_flagged'', JBool True)]),
                  next_row := 6\<rparr>"
  have run: "certify_application (JBool True) (JStr ''app1'') (demo_ctx ''app1'') ''t9'' ?st
     = (Inr (Certify_rejected [Pending_docs 1, Missing_modules [4, 5], Flagged_fields 1] ''app1'' Draft), ?st)"
    by (simp add: certify_application_def cert_failures_def doc_count_def missing_modules_def
        flagged_count_def app_docs_def app_rows_def demo_rows_def demo_doc_def audit_flagged_def model_simps)
  from certify_reports_every_failure [OF run] run show ?thesis by simp
qed

text \<open>Failed and audited documents do not block: the document check only
  rejects the statuses pending, processing and error; a document whose extraction
  failed, or that was escalated to audited for human review, passes, so an application
  whose only documents are in those statuses is approved.\<close>

theorem certify_approves_failed_and_audited_documents:
  "certify_application (JBool True) JNull (demo_ctx ''app1'') ''t9''
      (demo_store\<lparr>docs := [(''d1'', demo_doc ''app1'' Failed), (''d2'', demo_doc ''app1'' Audited)],
                  mdata := demo_rows ''app1'' [1, 2, 3, 4, 5] (JStr ''x''), next_row := 6\<rparr>)
   = (Inr (Certified ''app1'' Approved ''standard''),
      snd (certify_application (JBool True) JNull (demo_ctx ''app1'') ''t9''
      (demo_store\<lparr>docs := [(''d1'', demo_doc ''app1'' Failed), (''d2'', demo_doc ''app1'' Audited)],
                  mdata := demo_rows ''app1'' [1, 2, 3, 4, 5] (JStr ''x''), next_row := 6\<rparr>)))"
  by (simp add: certify_application_def cert_failures_def doc_count_def missing_modules_def
      flagged_count_def app_docs_def app_rows_def demo_rows_def demo_doc_def audit_flagged_def model_simps)

end
