(* ===== verification/Intake.thy ===== *)
theory Intake
  imports Store
begin

text \<open>
  The four intake and view tools: \<open>query_application\<close>
  (\<open>tools/query_application.py\<close>), \<open>create_application\<close>
  (\<open>tools/create_application.py\<close>), \<open>upload_document\<close>
  (\<open>tools/upload_document.py\<close>) and \<open>extract_fields\<close>
  (\<open>tools/extract_fields.py\<close>). The connection pool
  (\<open>database/connection.py\<close>) registers no JSON codec, so asyncpg hands a
  \<open>jsonb\<close> column to Python as its text: a document's metadata, when not SQL
  \<open>NULL\<close>, is a non-empty \<open>str\<close> in the handlers. Ids the database generates are
  parameters (\<open>new_id\<close>), as is the clock (\<open>now\<close>).
\<close>

section \<open>query\_application\<close>

text \<open>Under the unified schema a row's \<open>module_name\<close> is the name of its module
  number.\<close>

definition module_name_of :: "int \<Rightarrow> string" where
  "module_name_of m = (case map_of MODULE_NAMES m of Some n \<Rightarrow> n | None \<Rightarrow> [])"

text \<open>\<open>ORDER BY module_name, field_name\<close> and the grouping loop: one group per
  module name in sorted order, with its number of rows. Sorting is the lexicographic
  order on characters, which is PostgreSQL's order on the five lower-case names.\<close>

definition module_groups :: "module_row list \<Rightarrow> (string \<times> nat) list" where
  "module_groups rows =
     map (\<lambda>n. (n, length (filter (\<lambda>r. module_name_of (md_module r) = n) rows)))
         (sort (remdups (map (module_name_of \<circ> md_module) rows)))"

text \<open>\<open>int((len(completed_modules) / len(required_modules)) * 100)\<close>, computed
  exactly; for the counts 0 to 5 the float result rounds down to the same integer.\<close>

definition completion_pct :: "nat \<Rightarrow> nat" where
  "completion_pct c = nat \<lfloor>(of_nat c / of_nat (length required_modules) * 100 :: rat)\<rfloor>"

text \<open>The view the handler returns. Documents are stored in creation order, so
  \<open>ORDER BY created_at DESC\<close> is the reverse; \<open>has_extracted_data\<close> is
  \<open>bool(row["extraction_metadata"])\<close>, the truth of the column's text.\<close>

definition query_view_of :: "store \<Rightarrow> string \<Rightarrow> application \<Rightarrow> query_view" where
  "query_view_of st k a =
     (let rows = app_rows st k;
          present = map (module_name_of \<circ> md_module) rows;
          completed = filter (\<lambda>m. m \<in> set present) required_modules in
      \<lparr>qv_status = app_status a,
       qv_docs = map (\<lambda>(i, d). (i, doc_status d, doc_meta d \<noteq> None)) (rev (app_docs st k)),
       qv_modules = module_groups rows,
       qv_pct = completion_pct (length completed),
       qv_completed = completed,
       qv_missing = filter (\<lambda>m. m \<notin> set present) required_modules\<rparr>)"

definition query_application :: "jval \<Rightarrow> session_ctx option \<Rightarrow> store \<Rightarrow> outcome" where
  "query_application application_id ctx st =
     (let target = resolve_app_id application_id ctx in
      if \<not> py_truthy target then fail Application_id_required st
      else (case load_owned_app st target (ctx_user_of ctx) of
              Inl e \<Rightarrow> fail e st
            | Inr (k, a) \<Rightarrow> ret (Query_result (query_view_of st k a)) st))"

section \<open>create\_application\<close>

text \<open>The character classes of \<open>validate_email\<close>'s pattern
  \<open>^[a-zA-Z0-9._%+-]+@[a-zA-Z0-9.-]+\.[a-zA-Z]{2,}$\<close>.\<close>

definition ascii_letter :: "char \<Rightarrow> bool" where
  "ascii_letter c \<longleftrightarrow> (CHR ''a'' \<le> c \<and> c \<le> CHR ''z'') \<or> (CHR ''A'' \<le> c \<and> c \<le> CHR ''Z'')"

definition local_char :: "char \<Rightarrow> bool" where
  "local_char c \<longleftrightarrow> ascii_letter c \<or> py_digit c \<or> c \<in> set ''._%+-''"

definition domain_char :: "char \<Rightarrow> bool" where
  "domain_char c \<longleftrightarrow> ascii_letter c \<or> py_digit c \<or> c \<in> set ''.-''"

text \<open>The pattern matched against a whole string: the local part runs to the first
  \<open>@\<close> (the local class has no \<open>@\<close>), the top-level label is what follows the
  last dot (letters have no dot), the host is what lies between.\<close>

definition email_scan :: "string \<Rightarrow> bool" where
  "email_scan t =
     (let a = takeWhile (\<lambda>x. x \<noteq> CHR ''@'') t;
          r = drop (Suc (length a)) t;
          c = rev (takeWhile (\<lambda>x. x \<noteq> CHR ''.'') (rev r));
          b = take (length r - Suc (length c)) r in
      length a < length t \<and> a \<noteq> [] \<and> list_all local_char a \<and>
      length c < length r \<and> b \<noteq> [] \<and> list_all domain_char b \<and>
      2 \<le> length c \<and> list_all ascii_letter c)"

text \<open>\<open>re.match(pattern, email)\<close>: anchored at the start; Python's \<open>$\<close> also
  matches just before a final newline.\<close>

definition validate_email_str :: "string \<Rightarrow> bool" where
  "validate_email_str s = email_scan (if s \<noteq> [] \<and> last s = CHR 0x0A then butlast s else s)"

text \<open>\<open>re.match\<close> on a value that is not a string raises \<open>TypeError\<close>.\<close>

fun validate_email :: "jval \<Rightarrow> py_exc + bool" where
  "validate_email (JStr s) = Inr (validate_email_str s)"
| "validate_email _ = Inl TypeError"

text \<open>The language of the pattern between its anchors, the reference for
  \<open>email_scan\<close>.\<close>

definition email_lang :: "string \<Rightarrow> bool" where
  "email_lang t \<longleftrightarrow> (\<exists>a b c. t = a @ CHR ''@'' # b @ CHR ''.'' # c \<and> a \<noteq> [] \<and> list_all local_char a \<and>
     b \<noteq> [] \<and> list_all domain_char b \<and> 2 \<le> length c \<and> list_all ascii_letter c)"

definition valid_cert_types :: "string list" where
  "valid_cert_types = [''standard'', ''organic'', ''sustainable'', ''gmp'']"

text \<open>The \<open>try\<close> block: resolve the owner (the session's user id, or the account
  found by email in \<open>auth.users\<close>), then \<open>INSERT INTO applications\<close> with status
  \<open>draft\<close>. The database generates the id; an id already taken is a unique
  violation, reported as \<open>duplicate_application\<close>.\<close>

definition create_in_db ::
  "jval \<Rightarrow> jval \<Rightarrow> string \<Rightarrow> jval \<Rightarrow> string \<Rightarrow> string \<Rightarrow> store \<Rightarrow> outcome" where
  "create_in_db u farmer_email ct notes new_id now st =
     (case (if py_truthy u then (case text_arg u of None \<Rightarrow> Inl Internal_error | Some uid \<Rightarrow> Inr uid)
            else (case text_arg farmer_email of
                    None \<Rightarrow> Inl Internal_error
                  | Some e \<Rightarrow> (case map_of (accounts st) e of
                                None \<Rightarrow> Inl User_not_found
                              | Some uid \<Rightarrow> Inr uid))) of
        Inl e \<Rightarrow> fail e st
      | Inr uid \<Rightarrow>
          (case opt_text_arg notes of
             None \<Rightarrow> fail Internal_error st
           | Some n \<Rightarrow>
               if new_id \<in> dom (apps st) then fail Duplicate_application st
               else ret (Created new_id Draft ct)
                        (st\<lparr>apps := (apps st)(new_id \<mapsto> \<lparr>app_owner = uid, app_status = Draft,
                               app_cert = ct, app_notes = n, app_updated = now\<rparr>)\<rparr>)))"

text \<open>The checks before the \<open>try\<close>: certification type, then (without a session
  user) email present, email valid, name present, then (with one) a given email
  valid. On the branch without a user the code's second email check repeats the
  first one, which has passed.\<close>

definition create_application ::
  "jval \<Rightarrow> jval \<Rightarrow> jval \<Rightarrow> jval \<Rightarrow> jval \<Rightarrow> session_ctx option \<Rightarrow> string \<Rightarrow> string \<Rightarrow> store \<Rightarrow> outcome" where
  "create_application farmer_name farmer_email farmer_phone certification_type notes ctx new_id now st =
     (case certification_type of
        JStr ct \<Rightarrow>
          if ct \<notin> set valid_cert_types then fail Invalid_certification_type st
          else
            (let u = ctx_user_of ctx in
             if \<not> py_truthy u then
               (if \<not> py_truthy farmer_email then fail Missing_required_fields st
                else (case validate_email farmer_email of
                        Inl e \<Rightarrow> (Inl e, st)
                      | Inr ok \<Rightarrow>
                          if \<not> ok then fail Invalid_email st
                          else if \<not> py_truthy farmer_name then fail Missing_required_fields st
                          else create_in_db u farmer_email ct notes new_id now st))
             else if py_truthy farmer_email then
               (case validate_email farmer_email of
                  Inl e \<Rightarrow> (Inl e, st)
                | Inr ok \<Rightarrow>
                    if \<not> ok then fail Invalid_email st
                    else create_in_db u farmer_email ct notes new_id now st)
             else create_in_db u farmer_email ct notes new_id now st)
      | _ \<Rightarrow> fail Invalid_certification_type st)"

section \<open>upload\_document\<close>

definition DOCUMENT_TYPES :: "string list" where
  "DOCUMENT_TYPES = [''financial_statement'', ''tax_return'', ''bank_statement'', ''land_deed'',
     ''insurance_certificate'', ''business_license'', ''environmental_permit'',
     ''compliance_certificate'', ''other'']"

definition default_instructions :: "(string \<times> string) list" where
  "default_instructions =
     [(''financial_statement'', ''Please upload your most recent annual or quarterly financial statement. Include all pages showing assets, liabilities, income, and expenses.''),
      (''tax_return'', ''Please upload your complete federal tax return from the most recent year. Include all schedules and supporting documents.''),
      (''bank_statement'', ''Please upload bank statements from the last 3-6 months. Include all pages showing transactions and account balances.''),
      (''land_deed'', ''Please upload property deeds or ownership documents for all land included in this application.''),
      (''insurance_certificate'', ''Please upload current insurance certificates showing adequate coverage for your operations.''),
      (''business_license'', ''Please upload your current business registration, license, or incorporation documents.''),
      (''environmental_permit'', ''Please upload any required environmental permits, compliance certificates, or inspection reports.''),
      (''compliance_certificate'', ''Please upload relevant compliance certificates, audit reports, or certification documents.''),
      (''other'', ''Please upload the requested document. Ensure all pages are clear and readable.'')]"

text \<open>No file moves: the handler validates and answers with an upload instruction.
  Its only \<open>except\<close> clause is \<open>Exception\<close>, so every driver error is
  \<open>internal_error\<close>.\<close>

definition upload_document :: "jval \<Rightarrow> jval \<Rightarrow> jval \<Rightarrow> session_ctx option \<Rightarrow> store \<Rightarrow> outcome" where
  "upload_document document_type application_id instructions ctx st =
     (case document_type of
        JStr t \<Rightarrow>
          if t \<notin> set DOCUMENT_TYPES then fail Invalid_document_type st
          else
            (let target = resolve_app_id application_id ctx in
             if \<not> py_truthy target then fail Application_id_required st
             else (case load_owned_app st target (ctx_user_of ctx) of
                     Inl e \<Rightarrow> fail e st
                   | Inr (k, a) \<Rightarrow>
                       ret (Upload_requested t k
                              (if py_truthy instructions then instructions
                               else JStr (case map_of default_instructions t of
                                            Some s \<Rightarrow> s
                                          | None \<Rightarrow> ''Please upload the requested document.''))) st))
      | _ \<Rightarrow> fail Invalid_document_type st)"

section \<open>extract\_fields\<close>

text \<open>\<open>FROM documents d JOIN applications a ON a.id = d.application_id WHERE d.id = $1\<close>.\<close>

definition lookup_doc :: "store \<Rightarrow> string \<Rightarrow> (document \<times> application) option" where
  "lookup_doc st i =
     (case map_of (docs st) i of
        None \<Rightarrow> None
      | Some d \<Rightarrow> (case apps st (doc_app d) of None \<Rightarrow> None | Some a \<Rightarrow> Some (d, a)))"

text \<open>\<open>UPDATE documents SET ocr_status = $s WHERE id = $1\<close>.\<close>

definition set_doc_status :: "string \<Rightarrow> doc_status \<Rightarrow> store \<Rightarrow> store" where
  "set_doc_status i s st =
     st\<lparr>docs := map (\<lambda>(j, d). if j = i then (j, d\<lparr>doc_status := Some s\<rparr>) else (j, d)) (docs st)\<rparr>"

text \<open>The status dispatch. The cached branch and the failed branch call
  \<open>extraction_metadata.get(...)\<close> on the metadata, which is text when not
  \<open>NULL\<close>: \<open>AttributeError\<close>, caught as \<open>internal_error\<close>. A completed document
  without metadata matches no branch and is \<open>unknown_status\<close>.\<close>

definition extract_fields :: "jval \<Rightarrow> jval \<Rightarrow> session_ctx option \<Rightarrow> store \<Rightarrow> outcome" where
  "extract_fields document_id field_hints ctx st =
     (case text_arg document_id of
        None \<Rightarrow> fail Internal_error st
      | Some i \<Rightarrow>
          (case lookup_doc st i of
             None \<Rightarrow> fail Document_not_found st
           | Some (d, a) \<Rightarrow>
               if \<not> owner_ok (app_owner a) (ctx_user_of ctx) then fail Unauthorized st
               else if doc_status d = Some Completed \<and> doc_meta d \<noteq> None then fail Internal_error st
               else if doc_status d = Some Processing then ret (Extraction_running i False) st
               else if doc_status d = Some Failed then
                 (if doc_meta d \<noteq> None then fail Internal_error st else fail Ocr_failed st)
               else if doc_status d = Some Pending \<or> doc_status d = None then
                 ret (Extraction_running i True) (set_doc_status i Processing st)
               else fail Unknown_status st))"

section \<open>Sample data\<close>

text \<open>The sample store with two more documents of \<open>app1\<close> (a pending bank
  statement and a completed deed with extraction metadata) and one row in each of
  the financial and compliance modules.\<close>

definition intake_store :: store where
  "intake_store = demo_store\<lparr>
     docs := docs demo_store @
       [(''doc2'', \<lparr>doc_app = ''app1'', doc_type = ''bank_statement'', doc_file = ''may.pdf'',
                    doc_status = Some Pending, doc_meta = None\<rparr>),
        (''doc3'', \<lparr>doc_app = ''app1'', doc_type = ''land_deed'', doc_file = ''deed.pdf'',
                    doc_status = Some Completed, doc_meta = Some [(''fields'', JList [])]\<rparr>)],
     mdata := [\<lparr>md_id = 0, md_app = ''app1'', md_module = 1, md_field = ''revenue'', md_value = JStr ''9000'',
                 md_source = Proxy_entered, md_conf = 1, md_updated = ''t0'', md_doc = None\<rparr>,
               \<lparr>md_id = 1, md_app = ''app1'', md_module = 2, md_field = ''license'', md_value = JStr ''L-7'',
                 md_source = Proxy_entered, md_conf = 1, md_updated = ''t0'', md_doc = None\<rparr>],
     next_row := 2\<rparr>"

section \<open>Lemmas\<close>

lemma completion_pct_eq [simp]: "completion_pct c = 20 * c"
  by (simp add: completion_pct_def required_modules_def) (metis floor_of_nat nat_int of_nat_mult of_nat_numeral)

lemma query_view_of_completed:
  "qv_completed (query_view_of st k a) =
     filter (\<lambda>m. m \<in> set (map (module_name_of \<circ> md_module) (app_rows st k))) required_modules"
  "qv_pct (query_view_of st k a) = 20 * length (qv_completed (query_view_of st k a))"
  by (simp_all add: query_view_of_def Let_def)

lemma query_application_Inr:
  "query_application aid ctx st = (Inr (Query_result v), st') \<Longrightarrow>
   st' = st \<and> (\<exists>k a. load_owned_app st (resolve_app_id aid ctx) (ctx_user_of ctx) = Inr (k, a) \<and>
                      v = query_view_of st k a)"
  by (auto simp: query_application_def Let_def split: if_splits sum.splits)

lemma takeWhile_split_first:
  assumes "length (takeWhile (\<lambda>x. x \<noteq> y) xs) < length xs"
  shows "xs = takeWhile (\<lambda>x. x \<noteq> y) xs @ y # drop (Suc (length (takeWhile (\<lambda>x. x \<noteq> y) xs))) xs"
proof -
  let ?P = "\<lambda>x. x \<noteq> y"
  have xs: "xs = takeWhile ?P xs @ dropWhile ?P xs" by simp
  with assms have ne: "dropWhile ?P xs \<noteq> []" by (metis append_Nil2 less_not_refl)
  then have "hd (dropWhile ?P xs) = y" using hd_dropWhile by blast
  with ne have "dropWhile ?P xs = y # tl (dropWhile ?P xs)" by (metis list.collapse)
  moreover have "tl (dropWhile ?P xs) = drop (Suc (length (takeWhile ?P xs))) xs"
    by (simp add: dropWhile_eq_drop drop_Suc tl_drop)
  ultimately show ?thesis using xs by metis
qed

lemma takeWhile_first: "y \<notin> set a \<Longrightarrow> takeWhile (\<lambda>x. x \<noteq> y) (a @ y # z) = a"
  by (induction a) auto

lemma email_chars:
  "\<not> local_char CHR ''@''" "\<not> ascii_letter CHR ''.''" "\<not> ascii_letter (CHR 0x0A)"
  by (simp_all add: local_char_def ascii_letter_def py_digit_def less_eq_char_def)

lemma email_scan_lang: "email_lang t \<Longrightarrow> email_scan t"
proof -
  assume "email_lang t"
  then obtain a b c where t: "t = a @ CHR ''@'' # b @ CHR ''.'' # c" and
    p: "a \<noteq> []" "list_all local_char a" "b \<noteq> []" "list_all domain_char b"
       "2 \<le> length c" "list_all ascii_letter c"
    unfolding email_lang_def by blast
  have "CHR ''@'' \<notin> set a" using p(2) email_chars(1) by (auto simp: list_all_iff)
  then have ta: "takeWhile (\<lambda>x. x \<noteq> CHR ''@'') t = a" by (simp add: t takeWhile_first)
  have "CHR ''.'' \<notin> set (rev c)" using p(6) email_chars(2) by (auto simp: list_all_iff)
  then have tc: "takeWhile (\<lambda>x. x \<noteq> CHR ''.'') (rev (b @ CHR ''.'' # c)) = rev c"
    using takeWhile_first [of "CHR ''.''" "rev c" "rev b"] by simp
  from ta tc p t show ?thesis by (simp add: email_scan_def Let_def)
qed

lemma email_lang_scan: "email_scan t \<Longrightarrow> email_lang t"
proof -
  assume s: "email_scan t"
  define a where "a = takeWhile (\<lambda>x. x \<noteq> CHR ''@'') t"
  define r where "r = drop (Suc (length a)) t"
  define c where "c = rev (takeWhile (\<lambda>x. x \<noteq> CHR ''.'') (rev r))"
  define b where "b = take (length r - Suc (length c)) r"
  from s have la: "length a < length t" and lc: "length c < length r"
    and props: "a \<noteq> [] \<and> list_all local_char a \<and> b \<noteq> [] \<and> list_all domain_char b \<and>
                2 \<le> length c \<and> list_all ascii_letter c"
    unfolding email_scan_def Let_def a_def [symmetric] r_def [symmetric] c_def [symmetric]
      b_def [symmetric] by simp_all
  from takeWhile_split_first [OF la [unfolded a_def]] have t: "t = a @ CHR ''@'' # r"
    unfolding a_def [symmetric] r_def [symmetric] .
  have "length (takeWhile (\<lambda>x. x \<noteq> CHR ''.'') (rev r)) < length (rev r)"
    using lc by (simp add: c_def)
  from takeWhile_split_first [OF this]
  have "rev r = rev c @ CHR ''.'' # drop (Suc (length c)) (rev r)" by (simp add: c_def)
  then have "rev (rev r) = rev (rev c @ CHR ''.'' # drop (Suc (length c)) (rev r))" by (rule arg_cong)
  then have "r = rev (drop (Suc (length c)) (rev r)) @ CHR ''.'' # c" by simp
  moreover have "rev (drop (Suc (length c)) (rev r)) = b" by (simp add: b_def rev_drop)
  ultimately have "t = a @ CHR ''@'' # b @ CHR ''.'' # c" using t by simp
  with props show ?thesis unfolding email_lang_def by blast
qed

lemma email_lang_last: "email_lang t \<Longrightarrow> ascii_letter (last t)"
  by (auto simp: email_lang_def list_all_iff)

lemma email_scan_iff: "email_scan t \<longleftrightarrow> email_lang t"
  using email_scan_lang email_lang_scan by blast

lemma validate_email_trailing_newline:
  "validate_email_str (''jane@farm.example'' @ [CHR 0x0A])
   \<and> \<not> validate_email_str (''jane@farm.example'' @ [CHR 0x0A, CHR 0x0A])"
  by (simp add: validate_email_str_def email_scan_def local_char_def domain_char_def ascii_letter_def
        py_digit_def)

lemma store_inv_grow_apps:
  "store_inv st \<Longrightarrow> mdata st' = mdata st \<Longrightarrow> docs st' = docs st \<Longrightarrow> next_row st' = next_row st \<Longrightarrow>
   dom (apps st) \<subseteq> dom (apps st') \<Longrightarrow> store_inv st'"
  unfolding store_inv_def by (metis subsetD)

lemma create_in_db_cases:
  assumes "create_in_db u fe ct notes nid now st = (r, st')"
  shows "st' = st \<and> (\<forall>k s c. r \<noteq> Inr (Created k s c)) \<or>
    (r = Inr (Created nid Draft ct) \<and> nid \<notin> dom (apps st) \<and>
     (\<exists>uid n. (if py_truthy u then u = JStr uid else \<exists>e. fe = JStr e \<and> map_of (accounts st) e = Some uid) \<and>
        st' = st\<lparr>apps := (apps st)(nid \<mapsto> \<lparr>app_owner = uid, app_status = Draft, app_cert = ct,
                                        app_notes = n, app_updated = now\<rparr>)\<rparr>))"
  using assms unfolding create_in_db_def
  by (auto split: if_splits option.splits sum.splits)

lemma create_application_cases:
  assumes "create_application fn fe fp cty notes ctx nid now st = (r, st')"
  shows "st' = st \<and> (\<forall>k s c. r \<noteq> Inr (Created k s c)) \<or>
    (\<exists>ct. cty = JStr ct \<and> ct \<in> set valid_cert_types \<and>
       create_in_db (ctx_user_of ctx) fe ct notes nid now st = (r, st') \<and>
       (\<not> py_truthy (ctx_user_of ctx) \<longrightarrow> py_truthy fn \<and> validate_email fe = Inr True) \<and>
       (py_truthy fe \<longrightarrow> validate_email fe = Inr True))"
  using assms unfolding create_application_def Let_def
  by (auto split: jval.splits if_splits sum.splits)

lemma map_of_map_at:
  "map_of (map (\<lambda>(j, d). if j = i then (j, g d) else (j, d)) xs) = (map_of xs)(i := map_option g (map_of xs i))"
  by (induction xs) (auto simp: fun_eq_iff)

lemma lookup_doc_Some:
  "lookup_doc st i = Some (d, a) \<longleftrightarrow> map_of (docs st) i = Some d \<and> apps st (doc_app d) = Some a"
  by (auto simp: lookup_doc_def split: option.splits)

lemma extract_fields_cases:
  "extract_fields di h ctx st = (r, st') \<Longrightarrow>
   st' = st \<or> (\<exists>i d. map_of (docs st) i = Some d \<and> (doc_status d = Some Pending \<or> doc_status d = None) \<and>
                   st' = set_doc_status i Processing st)"
proof (cases "st' = st")
  case False
  assume e: "extract_fields di h ctx st = (r, st')"
  with False obtain i d a where "lookup_doc st i = Some (d, a)"
    "doc_status d = Some Pending \<or> doc_status d = None" "st' = set_doc_status i Processing st"
    by (auto simp: extract_fields_def split: option.splits if_splits)
  then show ?thesis by (auto simp: lookup_doc_Some)
qed simp

lemma default_instructions_ne: "map_of default_instructions t = Some s \<Longrightarrow> s \<noteq> []"
  by (auto simp: default_instructions_def split: if_splits)

lemma map_at_keys: "map fst (map (\<lambda>(j, d). if j = i then (j, g d) else (j, d)) xs) = map fst xs"
  by (induction xs) auto

lemma store_inv_set_doc_status [inv_intros]:
  assumes "store_inv st" shows "store_inv (set_doc_status i s st)"
proof -
  have "\<forall>p\<in>set (docs (set_doc_status i s st)). doc_app (snd p) \<in> dom (apps st)"
    using assms unfolding store_inv_def set_doc_status_def by auto
  with assms show ?thesis unfolding store_inv_def by (simp add: set_doc_status_def map_at_keys del: map_map)
qed

lemma create_application_inv [inv_intros]:
  assumes "store_inv st" "create_application fn fe fp cty notes ctx nid now st = (r, st')"
  shows "store_inv st'"
proof -
  have "st' = st \<or> (mdata st' = mdata st \<and> docs st' = docs st \<and> next_row st' = next_row st \<and>
                    dom (apps st) \<subseteq> dom (apps st'))"
    using create_application_cases [OF assms(2)] create_in_db_cases by fastforce
  with assms(1) show ?thesis using store_inv_grow_apps by blast
qed

lemma extract_fields_inv [inv_intros]:
  "store_inv st \<Longrightarrow> extract_fields di h ctx st = (r, st') \<Longrightarrow> store_inv st'"
  by (auto dest!: extract_fields_cases intro: store_inv_set_doc_status)

section \<open>Properties\<close>

text \<open>C11: A successful create\_application inserts exactly one new draft application under the database-generated id, owned by the session user or, without one, by the account found for a valid email, and touches no other table.\<close>

theorem create_application_creates:
  assumes "create_application fn fe fp cty notes ctx nid now st = (Inr (Created k s c), st')"
  shows "k = nid \<and> s = Draft \<and> c \<in> set valid_cert_types \<and> k \<notin> dom (apps st) \<and>
    (\<exists>a. apps st' = (apps st)(k \<mapsto> a) \<and> app_status a = Draft \<and> app_cert a = c \<and>
         (if py_truthy (ctx_user_of ctx) then ctx_user_of ctx = JStr (app_owner a)
          else \<exists>e. fe = JStr e \<and> validate_email_str e \<and> map_of (accounts st) e = Some (app_owner a))) \<and>
    mdata st' = mdata st \<and> docs st' = docs st \<and> audit st' = audit st \<and> accounts st' = accounts st"
proof -
  from create_application_cases [OF assms] obtain ct where cty: "cty = JStr ct"
    and ct: "ct \<in> set valid_cert_types"
    and db: "create_in_db (ctx_user_of ctx) fe ct notes nid now st = (Inr (Created k s c), st')"
    and chk: "\<not> py_truthy (ctx_user_of ctx) \<longrightarrow> py_truthy fn \<and> validate_email fe = Inr True"
    by blast
  from create_in_db_cases [OF db] obtain uid n where
    r: "Created k s c = Created nid Draft ct" and fresh: "nid \<notin> dom (apps st)"
    and own: "if py_truthy (ctx_user_of ctx) then ctx_user_of ctx = JStr uid
              else \<exists>e. fe = JStr e \<and> map_of (accounts st) e = Some uid"
    and st': "st' = st\<lparr>apps := (apps st)(nid \<mapsto> \<lparr>app_owner = uid, app_status = Draft, app_cert = ct,
                                        app_notes = n, app_updated = now\<rparr>)\<rparr>"
    by blast
  have "\<not> py_truthy (ctx_user_of ctx) \<Longrightarrow> \<exists>e. fe = JStr e \<and> validate_email_str e \<and> map_of (accounts st) e = Some uid"
    using own chk by auto
  with r fresh own st' ct show ?thesis
    by (intro conjI exI [of _ "\<lparr>app_owner = uid, app_status = Draft, app_cert = ct, app_notes = n, app_updated = now\<rparr>"])
       (auto split: if_splits)
qed

theorem create_application_creates_witness:
  "fst (create_application JNull JNull JNull (JStr ''organic'') JNull (demo_ctx ''app1'') ''app3'' ''t1'' demo_store)
     = Inr (Created ''app3'' Draft ''organic'')
   \<and> map_option app_owner (apps (snd (create_application JNull JNull JNull (JStr ''organic'') JNull
        (demo_ctx ''app1'') ''app3'' ''t1'' demo_store)) ''app3'') = Some ''u1''"
proof -
  let ?o = "create_application JNull JNull JNull (JStr ''organic'') JNull (demo_ctx ''app1'') ''app3'' ''t1'' demo_store"
  have r: "fst ?o = Inr (Created ''app3'' Draft ''organic'')"
    by (simp add: create_application_def create_in_db_def valid_cert_types_def model_simps)
  then have "?o = (Inr (Created ''app3'' Draft ''organic''), snd ?o)" by (metis prod.collapse)
  from create_application_creates [OF this] obtain a where
    "apps (snd ?o) = (apps demo_store)(''app3'' \<mapsto> a)" "ctx_user_of (demo_ctx ''app1'') = JStr (app_owner a)"
    by (auto simp: model_simps)
  with r show ?thesis by (simp add: model_simps)
qed

text \<open>C12: Every outcome of create\_application other than a created application leaves the store unchanged: the validation failures all come before the insert.\<close>

theorem create_application_error_no_write:
  assumes "create_application fn fe fp cty notes ctx nid now st = (r, st')"
    and "\<forall>k s c. r \<noteq> Inr (Created k s c)"
  shows "st' = st"
  using create_application_cases [OF assms(1)] create_in_db_cases assms(2) by blast

theorem create_application_error_no_write_witness:
  "snd (create_application (JStr ''Jane Roe'') (JStr ''jane@farm.example'') JNull (JStr ''platinum'') JNull
          None ''app3'' ''t1'' demo_store) = demo_store"
proof -
  let ?o = "create_application (JStr ''Jane Roe'') (JStr ''jane@farm.example'') JNull (JStr ''platinum'') JNull
              None ''app3'' ''t1'' demo_store"
  have "fst ?o = Inr (Tool_error Invalid_certification_type)"
    by (simp add: create_application_def valid_cert_types_def)
  then have "?o = (Inr (Tool_error Invalid_certification_type), snd ?o)" by (metis prod.collapse)
  from create_application_error_no_write [OF this] show ?thesis by simp
qed

text \<open>C13: Without a logged-in user, a valid name and email whose address has no account yield user\_not\_found and no application (the scenario of a new farmer, Jane Roe, in the specification).\<close>

theorem create_application_user_not_found:
  assumes "\<not> py_truthy (ctx_user_of ctx)" "py_truthy fn" "validate_email_str e"
    "map_of (accounts st) e = None" "ct \<in> set valid_cert_types"
  shows "create_application fn (JStr e) fp (JStr ct) notes ctx nid now st = fail User_not_found st"
proof -
  from assms(3) have "e \<noteq> []" by (auto simp: validate_email_str_def email_scan_def Let_def)
  with assms show ?thesis by (simp add: create_application_def create_in_db_def)
qed

theorem create_application_user_not_found_witness:
  "create_application (JStr ''Jane Roe'') (JStr ''jane.roe@example.com'') JNull (JStr ''standard'') JNull
     None ''app3'' ''t1'' demo_store = fail User_not_found demo_store"
  by (rule create_application_user_not_found)
     (simp_all add: model_simps validate_email_str_def email_scan_def local_char_def domain_char_def
        ascii_letter_def py_digit_def valid_cert_types_def)

text \<open>C14: validate\_email accepts exactly the strings of the pattern's language, and those strings followed by one newline: Python's \<open>$\<close> matches before a final newline.\<close>

theorem validate_email_str_regex:
  "validate_email_str s \<longleftrightarrow> email_lang s \<or> (\<exists>t. s = t @ [CHR 0x0A] \<and> email_lang t)"
proof (cases "s \<noteq> [] \<and> last s = CHR 0x0A")
  case True
  then have s: "s = butlast s @ [CHR 0x0A]" by (metis append_butlast_last_id)
  have "\<not> email_lang s" using email_lang_last email_chars(3) True by metis
  moreover have "(\<exists>t. s = t @ [CHR 0x0A] \<and> email_lang t) \<longleftrightarrow> email_lang (butlast s)"
    using s by (metis butlast_snoc)
  ultimately show ?thesis using True by (simp add: validate_email_str_def email_scan_iff)
next
  case False
  then have "\<not> (\<exists>t. s = t @ [CHR 0x0A] \<and> email_lang t)" by auto
  moreover from False have "validate_email_str s = email_scan s"
    unfolding validate_email_str_def by (simp only: if_not_P if_False)
  ultimately show ?thesis by (auto simp: email_scan_iff)
qed

text \<open>C15: query\_application only reads; a view is returned only for an existing application the caller may access, its completed modules are the required modules with at least one row, the missing ones the rest, and the percentage is 20 per completed module.\<close>

theorem query_application_view:
  assumes "query_application aid ctx st = (Inr (Query_result v), st')"
  shows "st' = st \<and>
    (\<exists>k a. apps st k = Some a \<and> owner_ok (app_owner a) (ctx_user_of ctx) \<and> qv_status v = app_status a \<and>
       set (qv_completed v) =
         {m \<in> set required_modules. \<exists>r\<in>set (app_rows st k). module_name_of (md_module r) = m} \<and>
       set (qv_missing v) = set required_modules - set (qv_completed v) \<and>
       qv_pct v = 20 * length (qv_completed v))"
proof -
  from query_application_Inr [OF assms] obtain k a where st: "st' = st"
    and ld: "load_owned_app st (resolve_app_id aid ctx) (ctx_user_of ctx) = Inr (k, a)"
    and v: "v = query_view_of st k a" by blast
  from load_owned_app_Inr [OF ld] have "apps st k = Some a" "owner_ok (app_owner a) (ctx_user_of ctx)" by auto
  with st v show ?thesis
    by (intro conjI exI [of _ k] exI [of _ a]) (auto simp: query_view_of_def Let_def)
qed

theorem query_application_view_witness:
  "qv_pct (query_view_of intake_store ''app1'' (the (apps intake_store ''app1''))) = 40
   \<and> set (qv_completed (query_view_of intake_store ''app1'' (the (apps intake_store ''app1''))))
       = {''financial'', ''compliance''}"
proof -
  let ?a = "the (apps intake_store ''app1'')"
  have q: "query_application JNull (demo_ctx ''app1'') intake_store
             = (Inr (Query_result (query_view_of intake_store ''app1'' ?a)), intake_store)"
    by (simp add: query_application_def intake_store_def model_simps)
  have "qv_completed (query_view_of intake_store ''app1'' ?a) = [''financial'', ''compliance'']"
    by (simp add: query_view_of_completed intake_store_def demo_store_def app_rows_def
          required_modules_def module_name_of_def MODULE_NAMES_def)
  with query_application_view [OF q] show ?thesis by auto
qed

text \<open>C16: extract\_fields on a pending or unstarted document the caller may access answers processing-initiated and changes nothing but that document's status, to processing.\<close>

theorem extract_fields_trigger:
  assumes "lookup_doc st i = Some (d, a)" "owner_ok (app_owner a) (ctx_user_of ctx)"
    "doc_status d = Some Pending \<or> doc_status d = None"
  shows "fst (extract_fields (JStr i) h ctx st) = Inr (Extraction_running i True)
    \<and> map_of (docs (snd (extract_fields (JStr i) h ctx st))) = (map_of (docs st))(i \<mapsto> d\<lparr>doc_status := Some Processing\<rparr>)
    \<and> apps (snd (extract_fields (JStr i) h ctx st)) = apps st
    \<and> mdata (snd (extract_fields (JStr i) h ctx st)) = mdata st"
proof -
  have "extract_fields (JStr i) h ctx st = (Inr (Extraction_running i True), set_doc_status i Processing st)"
    using assms by (auto simp: extract_fields_def)
  moreover from assms(1) have "map_of (docs st) i = Some d" by (simp add: lookup_doc_Some)
  ultimately show ?thesis by (simp add: set_doc_status_def map_of_map_at)
qed

theorem extract_fields_trigger_witness:
  "fst (extract_fields (JStr ''doc2'') JNull (demo_ctx ''app1'') intake_store) = Inr (Extraction_running ''doc2'' True)
   \<and> map_option doc_status (map_of (docs (snd (extract_fields (JStr ''doc2'') JNull (demo_ctx ''app1'') intake_store))) ''doc2'')
       = Some (Some Processing)"
proof -
  have l: "lookup_doc intake_store ''doc2'' = Some (the (map_of (docs intake_store) ''doc2''), the (apps intake_store ''app1''))"
    by (simp add: lookup_doc_def intake_store_def demo_store_def)
  show ?thesis
    using extract_fields_trigger [OF l, of "demo_ctx ''app1''" JNull]
    by (simp add: intake_store_def demo_store_def model_simps)
qed

text \<open>C17: extract\_fields never returns cached results: on a completed document it fails with internal\_error when metadata is stored (the metadata arrives as text and has no get method) and with unknown\_status when none is.\<close>

theorem extract_fields_completed:
  assumes "lookup_doc st i = Some (d, a)" "doc_status d = Some Completed"
  shows "extract_fields (JStr i) h ctx st =
    fail (if \<not> owner_ok (app_owner a) (ctx_user_of ctx) then Unauthorized
          else if doc_meta d \<noteq> None then Internal_error else Unknown_status) st"
  using assms by (simp add: extract_fields_def)

theorem extract_fields_completed_witness:
  "extract_fields (JStr ''doc3'') JNull (demo_ctx ''app1'') intake_store = fail Internal_error intake_store"
proof -
  have l: "lookup_doc intake_store ''doc3'' = Some (the (map_of (docs intake_store) ''doc3''), the (apps intake_store ''app1''))"
    by (simp add: lookup_doc_def intake_store_def demo_store_def)
  show ?thesis
    using extract_fields_completed [OF l, of JNull "demo_ctx ''app1''"]
    by (simp add: intake_store_def demo_store_def model_simps)
qed

text \<open>C18: upload\_document never writes, and an upload request names a valid document type, an application the caller may access, and non-empty instructions.\<close>

theorem upload_document_request:
  assumes "upload_document dt aid ins ctx st = (r, st')"
  shows "st' = st \<and> (\<forall>t k i. r = Inr (Upload_requested t k i) \<longrightarrow>
     t \<in> set DOCUMENT_TYPES \<and> (\<exists>a. apps st k = Some a \<and> owner_ok (app_owner a) (ctx_user_of ctx)) \<and> py_truthy i)"
  using assms default_instructions_ne
  by (auto simp: upload_document_def Let_def dest!: load_owned_app_Inr split: jval.splits if_splits sum.splits option.splits)

theorem upload_document_request_witness:
  "snd (upload_document (JStr ''tax_return'') JNull JNull (demo_ctx ''app1'') demo_store) = demo_store
   \<and> fst (upload_document (JStr ''tax_return'') JNull JNull (demo_ctx ''app1'') demo_store)
       = Inr (Upload_requested ''tax_return'' ''app1'' (JStr ''Please upload your complete federal tax return from the most recent year. Include all schedules and supporting documents.''))"
proof -
  have e: "upload_document (JStr ''tax_return'') JNull JNull (demo_ctx ''app1'') demo_store
    = (Inr (Upload_requested ''tax_return'' ''app1'' (JStr ''Please upload your complete federal tax return from the most recent year. Include all schedules and supporting documents.'')),
       snd (upload_document (JStr ''tax_return'') JNull JNull (demo_ctx ''app1'') demo_store))"
    by (simp add: upload_document_def DOCUMENT_TYPES_def default_instructions_def model_simps)
  from upload_document_request [OF e] e show ?thesis by (metis fst_conv)
qed

end
