(* ===== verification/Artifact.thy ===== *)
theory Artifact
  imports Intake Certify
begin

text \<open>
  \<open>show_artifact\<close> (\<open>tools/show_artifact.py\<close>): a read-only dispatch over five
  artifact kinds that checks existence and ownership and returns the metadata the
  frontend needs to open a panel. The \<open>module_form\<close> kind parses its artifact id with
  Python's \<open>int()\<close>; \<open>audit_review\<close> counts flagged fields with the query
  \<open>certify_application\<close> uses.
\<close>

section \<open>Definitions\<close>

definition artifact_kind_of :: "jval \<Rightarrow> artifact_kind option" where
  "artifact_kind_of v =
     (if v = JStr ''document'' then Some Art_document
      else if v = JStr ''module_form'' then Some Art_module_form
      else if v = JStr ''extraction_preview'' then Some Art_extraction_preview
      else if v = JStr ''application_summary'' then Some Art_application_summary
      else if v = JStr ''audit_review'' then Some Art_audit_review
      else None)"

definition module_form_names :: "(int \<times> string) list" where
  "module_form_names = [(1, ''Financial Information''), (2, ''Compliance Records''),
     (3, ''Operations Data''), (4, ''Sustainability Practices''), (5, ''Risk Management'')]"

text \<open>\<open>SELECT ... FROM module_data WHERE source_document_id = $1\<close>: the rows
  extracted from a document.\<close>

definition extracted_count :: "store \<Rightarrow> string \<Rightarrow> nat" where
  "extracted_count st i = length (filter (\<lambda>r. md_doc r = Some i) (mdata st))"

text \<open>The \<open>document\<close> and \<open>extraction_preview\<close> branches: the document joined
  with its application, then ownership.\<close>

definition show_doc :: "artifact_kind \<Rightarrow> jval \<Rightarrow> jval \<Rightarrow> store \<Rightarrow> outcome" where
  "show_doc kind artifact_id u st =
     (case text_arg artifact_id of
        None \<Rightarrow> fail Internal_error st
      | Some i \<Rightarrow>
          (case lookup_doc st i of
             None \<Rightarrow> fail Document_not_found st
           | Some (d, a) \<Rightarrow>
               if \<not> owner_ok (app_owner a) u then fail Unauthorized st
               else ret (Artifact_opened kind artifact_id
                          (if kind = Art_document then Doc_meta i (doc_app d) (doc_type d) (doc_status d)
                           else Preview_meta i (doc_app d) (doc_type d) (extracted_count st i))) st))"

text \<open>The \<open>application_summary\<close> and \<open>audit_review\<close> branches: the artifact id
  names the application, \<open>"current"\<close> the session's.\<close>

definition show_app :: "artifact_kind \<Rightarrow> jval \<Rightarrow> jval \<Rightarrow> jval \<Rightarrow> store \<Rightarrow> outcome" where
  "show_app kind artifact_id target u st =
     (let app_id = (if artifact_id \<noteq> JStr ''current'' then artifact_id else target) in
      if \<not> py_truthy app_id then fail Application_id_required st
      else (case load_owned_app st app_id u of
              Inl e \<Rightarrow> fail e st
            | Inr (k, a) \<Rightarrow>
                ret (Artifact_opened kind artifact_id
                       (if kind = Art_application_summary then Summary_meta k (app_status a) (app_cert a)
                        else Audit_meta k (flagged_count st k))) st))"

text \<open>The \<open>module_form\<close> branch: \<open>int(artifact_id)\<close> inside an inner \<open>try\<close> that
  catches \<open>ValueError\<close> only (a \<open>TypeError\<close> reaches the outer \<open>except
  Exception\<close>), the range check, then the application.\<close>

definition show_module_form :: "jval \<Rightarrow> jval \<Rightarrow> jval \<Rightarrow> store \<Rightarrow> outcome" where
  "show_module_form artifact_id target u st =
     (case py_int artifact_id of
        Inl e \<Rightarrow> fail Internal_error st
      | Inr None \<Rightarrow> fail Invalid_module_number st
      | Inr (Some m) \<Rightarrow>
          if m < 1 \<or> m > 5 then fail Invalid_module_number st
          else (case load_owned_app st target u of
                  Inl e \<Rightarrow> fail e st
                | Inr (k, a) \<Rightarrow>
                    ret (Artifact_opened Art_module_form artifact_id
                           (Module_form_meta m (the (map_of module_form_names m)) k (app_status a))) st))"

definition show_artifact :: "jval \<Rightarrow> jval \<Rightarrow> jval \<Rightarrow> session_ctx option \<Rightarrow> store \<Rightarrow> outcome" where
  "show_artifact artifact_type artifact_id application_id ctx st =
     (case artifact_kind_of artifact_type of
        None \<Rightarrow> fail Invalid_artifact_type st
      | Some kind \<Rightarrow>
          (let target = resolve_app_id application_id ctx in
           if kind = Art_module_form \<and> \<not> py_truthy target then fail Application_id_required st
           else
             (let u = ctx_user_of ctx in
              case kind of
                Art_document \<Rightarrow> show_doc kind artifact_id u st
              | Art_extraction_preview \<Rightarrow> show_doc kind artifact_id u st
              | Art_module_form \<Rightarrow> show_module_form artifact_id target u st
              | Art_application_summary \<Rightarrow> show_app kind artifact_id target u st
              | Art_audit_review \<Rightarrow> show_app kind artifact_id target u st)))"

text \<open>The application an artifact's metadata belongs to.\<close>

fun meta_app :: "art_meta \<Rightarrow> string" where
  "meta_app (Doc_meta i k t s) = k"
| "meta_app (Preview_meta i k t n) = k"
| "meta_app (Module_form_meta m n k s) = k"
| "meta_app (Summary_meta k s c) = k"
| "meta_app (Audit_meta k n) = k"

section \<open>Lemmas\<close>

lemma show_parts_read_only:
  "snd (show_doc kind i u st) = st" "snd (show_app kind i t u st) = st" "snd (show_module_form i t u st) = st"
  by (auto simp: show_doc_def show_app_def show_module_form_def Let_def
           split: option.splits sum.splits if_splits)

lemma load_owned_app_errors:
  "load_owned_app st t u = Inl e \<Longrightarrow> e \<in> {Internal_error, Application_not_found, Unauthorized}"
  by (auto simp: load_owned_app_def split: option.splits if_splits)

lemma flagged_in_cert_failures:
  "(\<exists>c. Flagged_fields c \<in> set (cert_failures st k)) \<longleftrightarrow> 0 < flagged_count st k"
  by (auto simp: cert_failures_def)

section \<open>Properties\<close>

text \<open>show\_artifact never writes: every outcome, error or panel, leaves the store as it was.\<close>

theorem show_artifact_read_only: "snd (show_artifact t i aid ctx st) = st"
  by (auto simp: show_artifact_def Let_def show_parts_read_only split: option.splits artifact_kind.splits)

text \<open>C20: A module form requested by the decimal text of a module number 1 to 5 (Python \<open>str\<close> of the number, as \<open>int()\<close> reads it back) opens that module's form for an application the caller owns.\<close>

theorem show_artifact_module_form_roundtrip:
  assumes "1 \<le> m" "m \<le> 5" "py_truthy (resolve_app_id aid ctx)"
    "load_owned_app st (resolve_app_id aid ctx) (ctx_user_of ctx) = Inr (k, a)"
  shows "show_artifact (JStr ''module_form'') (JStr (py_str_int m)) aid ctx st =
    ret (Artifact_opened Art_module_form (JStr (py_str_int m))
           (Module_form_meta m (the (map_of module_form_names m)) k (app_status a))) st"
  using assms by (simp add: show_artifact_def artifact_kind_of_def show_module_form_def parse_py_int_py_str_int)

theorem show_artifact_module_form_roundtrip_witness:
  "show_artifact (JStr ''module_form'') (JStr (py_str_int 3)) JNull (demo_ctx ''app1'') demo_store =
     ret (Artifact_opened Art_module_form (JStr (py_str_int 3)) (Module_form_meta 3 ''Operations Data'' ''app1'' Draft))
       demo_store"
proof -
  have "show_artifact (JStr ''module_form'') (JStr (py_str_int 3)) JNull (demo_ctx ''app1'') demo_store =
    ret (Artifact_opened Art_module_form (JStr (py_str_int 3))
           (Module_form_meta 3 (the (map_of module_form_names 3)) ''app1''
              (app_status (the (apps demo_store ''app1''))))) demo_store"
    by (rule show_artifact_module_form_roundtrip) (simp_all add: model_simps)
  then show ?thesis by (simp add: module_form_names_def demo_store_def)
qed

text \<open>C21: With a target application, the module form is refused as invalid\_module\_number exactly when the artifact id is not an integer for Python's \<open>int()\<close> or lies outside 1 to 5.\<close>

theorem show_artifact_module_form_range:
  assumes "py_truthy (resolve_app_id aid ctx)"
  shows "show_artifact (JStr ''module_form'') (JStr s) aid ctx st = fail Invalid_module_number st \<longleftrightarrow>
    (case parse_py_int s of None \<Rightarrow> True | Some m \<Rightarrow> m < 1 \<or> 5 < m)"
  using assms load_owned_app_errors [of st "resolve_app_id aid ctx" "ctx_user_of ctx"]
  by (auto simp: show_artifact_def artifact_kind_of_def show_module_form_def
           split: option.splits sum.splits)

theorem show_artifact_module_form_range_witness:
  "show_artifact (JStr ''module_form'') (JStr '' 7'') JNull (demo_ctx ''app1'') demo_store
     = fail Invalid_module_number demo_store
   \<and> show_artifact (JStr ''module_form'') (JStr ''three'') JNull (demo_ctx ''app1'') demo_store
     = fail Invalid_module_number demo_store"
proof -
  have t: "py_truthy (resolve_app_id JNull (demo_ctx ''app1''))" by (simp add: model_simps)
  have "parse_py_int '' 7'' = Some 7" "parse_py_int ''three'' = None"
    by (simp_all add: parse_py_int_def py_strip_def py_space_def py_digit_def digits_value_def less_eq_char_def)
  with show_artifact_module_form_range [OF t] show ?thesis by simp
qed

text \<open>C22: Every artifact panel show\_artifact opens belongs to an existing application the caller may access.\<close>

theorem show_artifact_authorized:
  assumes "show_artifact t i aid ctx st = (Inr (Artifact_opened kind i' meta), st')"
  shows "\<exists>a. apps st (meta_app meta) = Some a \<and> owner_ok (app_owner a) (ctx_user_of ctx)"
  using assms
  by (auto simp: show_artifact_def show_doc_def show_app_def show_module_form_def Let_def lookup_doc_Some
           dest!: load_owned_app_Inr split: option.splits artifact_kind.splits sum.splits if_splits)

theorem show_artifact_authorized_witness:
  "\<exists>a. apps demo_store (meta_app (Doc_meta ''doc1'' ''app1'' ''tax_return'' (Some Processed))) = Some a
       \<and> owner_ok (app_owner a) (ctx_user_of (demo_ctx ''app1''))"
proof -
  have "show_artifact (JStr ''document'') (JStr ''doc1'') JNull (demo_ctx ''app1'') demo_store =
    (Inr (Artifact_opened Art_document (JStr ''doc1'') (Doc_meta ''doc1'' ''app1'' ''tax_return'' (Some Processed))),
     demo_store)"
    by (simp add: show_artifact_def artifact_kind_of_def show_doc_def lookup_doc_def model_simps)
  then show ?thesis by (rule show_artifact_authorized)
qed

end
