(* ===== verification/Registry.thy ===== *)
theory Registry
  imports Store
begin

text \<open>
  The tool registry (\<open>src/ai-service/src/tools/registry.py\<close>, class
  \<open>ToolRegistry\<close>), generic in the handler type \<open>'h\<close>, the result type \<open>'r\<close> and
  the state \<open>'s\<close> the handlers act on. A registry is the dictionary \<open>_tools\<close> from
  tool name to handler and definition, in insertion order. The handlers enter through two
  functions the caller supplies: \<open>sig\<close>, a handler's parameters with their defaults
  (Python's function signature), and \<open>invoke\<close>, which runs a handler on bound
  arguments. \<open>execute_tool\<close> binds the model's input to the signature the way a Python
  call \<open>handler(**tool_input, session_context=...)\<close> does and turns every outcome
  into one of four envelopes; timing and log output are not modelled.
\<close>

section \<open>Definitions and registration\<close>

text \<open>The part of an Anthropic tool definition the registry reads: the \<open>"name"\<close> key,
  whether \<open>"input_schema"\<close> is present, and the schema's properties and required
  list (the wire contract with the model).\<close>

record tool_def =
  def_name :: "string option"
  def_has_schema :: bool
  def_props :: "string list"
  def_required :: "string list"

type_synonym 'h registry = "(string \<times> 'h \<times> tool_def) list"

text \<open>The \<open>ValueError\<close>s of \<open>register_tool\<close>.\<close>

datatype reg_error = Missing_name_or_schema string | Name_mismatch string string

definition register_tool :: "string \<Rightarrow> 'h \<Rightarrow> tool_def \<Rightarrow> 'h registry \<Rightarrow> reg_error + 'h registry" where
  "register_tool name h d reg =
     (case def_name d of
        None \<Rightarrow> Inl (Missing_name_or_schema name)
      | Some dn \<Rightarrow>
          if \<not> def_has_schema d then Inl (Missing_name_or_schema name)
          else if dn \<noteq> name then Inl (Name_mismatch name dn)
          else Inr (AList.update name (h, d) reg))"

text \<open>\<open>_register_all_tools\<close>: registration in order; the first \<open>ValueError\<close> aborts
  the constructor.\<close>

fun register_all :: "(string \<times> 'h \<times> tool_def) list \<Rightarrow> 'h registry \<Rightarrow> reg_error + 'h registry" where
  "register_all [] reg = Inr reg"
| "register_all ((n, h, d) # ts) reg =
     (case register_tool n h d reg of Inl e \<Rightarrow> Inl e | Inr reg' \<Rightarrow> register_all ts reg')"

definition get_tool_definitions :: "'h registry \<Rightarrow> tool_def list" where
  "get_tool_definitions reg = map (\<lambda>(n, h, d). d) reg"

definition get_tool_definition :: "'h registry \<Rightarrow> string \<Rightarrow> tool_def option" where
  "get_tool_definition reg n = map_option snd (map_of reg n)"

definition list_tools :: "'h registry \<Rightarrow> string list" where
  "list_tools reg = map fst reg"

definition get_tool_count :: "'h registry \<Rightarrow> nat" where
  "get_tool_count reg = length reg"

section \<open>Argument binding\<close>

text \<open>A \<open>session_context\<close> value found in the tool input itself reaches the
  handler when the registry has no context to pass: a dictionary is read like the
  registry's context and a false value is no context (every handler guards its
  \<open>.get\<close> calls by the context's truth). Any other value makes the handler raise
  \<open>AttributeError\<close> at its first \<open>.get\<close>; where that is differs per handler, and the
  model raises at the call.\<close>

definition ctx_of_jval :: "jval \<Rightarrow> py_exc + session_ctx option" where
  "ctx_of_jval v = (if \<not> py_truthy v then Inr None
     else (case v of
       JObj kvs \<Rightarrow> Inr (Some \<lparr>ctx_user = (case map_of kvs ''user_id'' of None \<Rightarrow> JNull | Some u \<Rightarrow> u),
                             ctx_app = (case map_of kvs ''application_id'' of None \<Rightarrow> JNull | Some a \<Rightarrow> a)\<rparr>)
     | _ \<Rightarrow> Inl OtherError))"

text \<open>The Python call \<open>handler(**tool_input, session_context=ctx)\<close> (or without the
  keyword when the context is false): a keyword given twice, a keyword that is no
  parameter and a parameter without default that is not given each raise
  \<open>TypeError\<close>. Otherwise each parameter gets its argument or its default.\<close>

definition bound_args :: "(string \<times> jval option) list \<Rightarrow> (string \<times> jval) list \<Rightarrow> string \<Rightarrow> jval" where
  "bound_args params input p =
     (case map_of input p of
        Some v \<Rightarrow> v
      | None \<Rightarrow> (case map_of params p of Some (Some dv) \<Rightarrow> dv | _ \<Rightarrow> JNull))"

definition bind_args :: "(string \<times> jval option) list \<Rightarrow> (string \<times> jval) list \<Rightarrow> session_ctx option
    \<Rightarrow> py_exc + (string \<Rightarrow> jval) \<times> session_ctx option" where
  "bind_args params input ctx =
     (let keys = map fst input; args = bound_args params input in
      if ctx \<noteq> None \<and> ''session_context'' \<in> set keys then Inl TypeError
      else if \<not> set keys \<subseteq> set (map fst params) then Inl TypeError
      else if \<exists>p\<in>set params. snd p = None \<and> fst p \<notin> set keys then Inl TypeError
      else if ctx \<noteq> None then Inr (args, ctx)
      else (case map_of input ''session_context'' of
              None \<Rightarrow> Inr (args, None)
            | Some v \<Rightarrow> (case ctx_of_jval v of Inl e \<Rightarrow> Inl e | Inr c \<Rightarrow> Inr (args, c))))"

section \<open>Execution\<close>

text \<open>The four envelopes of \<open>execute_tool\<close>: \<open>tool_not_found\<close> with the known names,
  a result with \<open>success = "error" not in result\<close>, \<open>invalid_input\<close> for a
  \<open>TypeError\<close>, \<open>execution_error\<close> for any other exception.\<close>

datatype 'r envelope =
    Tool_not_found string "string list"
  | Executed bool 'r
  | Invalid_input string
  | Execution_error string

definition classify_exc :: "string \<Rightarrow> py_exc \<Rightarrow> 'r envelope" where
  "classify_exc name e = (case e of TypeError \<Rightarrow> Invalid_input name | OtherError \<Rightarrow> Execution_error name)"

definition execute_tool ::
  "('h \<Rightarrow> (string \<times> jval option) list) \<Rightarrow> ('h \<Rightarrow> (string \<Rightarrow> jval) \<Rightarrow> session_ctx option \<Rightarrow> 's \<Rightarrow> (py_exc + 'r) \<times> 's)
   \<Rightarrow> ('r \<Rightarrow> bool) \<Rightarrow> 'h registry \<Rightarrow> string \<Rightarrow> (string \<times> jval) list \<Rightarrow> session_ctx option \<Rightarrow> 's
   \<Rightarrow> 'r envelope \<times> 's" where
  "execute_tool sig invoke has_err reg name input ctx st =
     (case map_of reg name of
        None \<Rightarrow> (Tool_not_found name (list_tools reg), st)
      | Some (h, d) \<Rightarrow>
          (case bind_args (sig h) input ctx of
             Inl e \<Rightarrow> (classify_exc name e, st)
           | Inr (args, c) \<Rightarrow>
               (case invoke h args c st of
                  (Inl e, st') \<Rightarrow> (classify_exc name e, st')
                | (Inr r, st') \<Rightarrow> (Executed (\<not> has_err r) r, st'))))"

section \<open>Lemmas\<close>

lemma register_tool_Inr:
  "register_tool n h d reg = Inr reg' \<longleftrightarrow>
   def_name d = Some n \<and> def_has_schema d \<and> reg' = AList.update n (h, d) reg"
  by (auto simp: register_tool_def split: option.splits)

lemma register_tool_keys:
  "register_tool n h d reg = Inr reg' \<Longrightarrow>
   list_tools reg' = (if n \<in> set (list_tools reg) then list_tools reg else list_tools reg @ [n])"
  by (simp add: register_tool_Inr list_tools_def update_keys)

lemma register_all_distinct:
  "register_all ts reg = Inr reg' \<Longrightarrow> distinct (list_tools reg) \<Longrightarrow> distinct (list_tools reg')"
proof (induction ts arbitrary: reg)
  case Nil
  then show ?case by simp
next
  case (Cons t ts)
  obtain n h d where t: "t = (n, h, d)" by (cases t)
  show ?case
  proof (cases "register_tool n h d reg")
    case (Inl e)
    with Cons.prems(1) t show ?thesis by simp
  next
    case (Inr reg1)
    with Cons.prems(1) t have rest: "register_all ts reg1 = Inr reg'" by simp
    from register_tool_keys [OF Inr] Cons.prems(2) have "distinct (list_tools reg1)" by simp
    with rest show ?thesis by (rule Cons.IH)
  qed
qed

lemma bind_args_missing:
  assumes "(p, None) \<in> set params" and "p \<notin> fst ` set input"
  shows "bind_args params input ctx = Inl TypeError"
proof -
  from assms have "\<exists>q\<in>set params. snd q = None \<and> fst q \<notin> set (map fst input)" by force
  then show ?thesis by (simp add: bind_args_def Let_def)
qed

lemma bind_args_conforming:
  assumes "set (map fst input) \<subseteq> set (map fst params)"
    and "\<forall>p\<in>set params. snd p = None \<longrightarrow> fst p \<in> set (map fst input)"
    and "''session_context'' \<notin> set (map fst input)"
  shows "bind_args params input ctx = Inr (bound_args params input, ctx)"
proof -
  from assms(3) have "map_of input ''session_context'' = None" by (simp add: map_of_eq_None_iff)
  with assms show ?thesis by (auto simp: bind_args_def Let_def)
qed

lemma execute_tool_bound:
  "map_of reg name = Some (h, d) \<Longrightarrow> bind_args (sig h) input ctx = Inr (args, c) \<Longrightarrow>
   execute_tool sig invoke has_err reg name input ctx st =
     (case invoke h args c st of
        (Inl e, st') \<Rightarrow> (classify_exc name e, st')
      | (Inr r, st') \<Rightarrow> (Executed (\<not> has_err r) r, st'))"
  by (simp add: execute_tool_def)

section \<open>Properties\<close>

text \<open>Registration fails fast, with a \<open>ValueError\<close>, exactly when the definition
  lacks a name or an input schema or its name differs from the registry name.\<close>

theorem register_tool_validates:
  "(\<exists>reg'. register_tool n h d reg = Inr reg') \<longleftrightarrow> def_name d = Some n \<and> def_has_schema d"
  by (simp add: register_tool_Inr)

text \<open>C26: executing a name that is not registered answers \<open>tool_not_found\<close> with the
  registered names, runs no handler and leaves the state unchanged.\<close>

theorem execute_tool_not_found:
  assumes "name \<notin> set (list_tools reg)"
  shows "execute_tool sig invoke has_err reg name input ctx st = (Tool_not_found name (list_tools reg), st)"
proof -
  from assms have "map_of reg name = None" by (simp add: list_tools_def map_of_eq_None_iff)
  then show ?thesis by (simp add: execute_tool_def)
qed

theorem execute_tool_not_found_witness:
  "execute_tool (\<lambda>h. []) (\<lambda>h args c s. (Inr (0::nat), Suc s)) (\<lambda>r. False)
     [(''a'', (), \<lparr>def_name = Some ''a'', def_has_schema = True, def_props = [], def_required = []\<rparr>)]
     ''b'' [] None (7::nat) = (Tool_not_found ''b'' [''a''], 7)"
  using execute_tool_not_found [of "''b''" "[(''a'', (), \<lparr>def_name = Some ''a'', def_has_schema = True,
    def_props = [], def_required = []\<rparr>)]" "\<lambda>h. []" "\<lambda>h args c s. (Inr (0::nat), Suc s)" "\<lambda>r. False"
    "[]" None "7::nat"]
  by (simp add: list_tools_def)

text \<open>C27: executing a registered tool without an argument its handler requires answers
  \<open>invalid_input\<close>, runs no handler and leaves the state unchanged.\<close>

theorem execute_tool_missing_argument:
  assumes "map_of reg name = Some (h, d)" "(p, None) \<in> set (sig h)" "p \<notin> fst ` set input"
  shows "execute_tool sig invoke has_err reg name input ctx st = (Invalid_input name, st)"
  using assms bind_args_missing [OF assms(2,3)] by (simp add: execute_tool_def classify_exc_def)

theorem execute_tool_missing_argument_witness:
  "execute_tool (\<lambda>h. [(''x'', None)]) (\<lambda>h args c s. (Inr (0::nat), Suc s)) (\<lambda>r. False)
     [(''a'', (), \<lparr>def_name = Some ''a'', def_has_schema = True, def_props = [''x''], def_required = [''x'']\<rparr>)]
     ''a'' [] None (7::nat) = (Invalid_input ''a'', 7)"
  by (rule execute_tool_missing_argument [where h = "()" and p = "''x''"]) simp_all

end
