(* ===== verification/Tools.thy ===== *)
theory Tools
  imports Registry Module_Tools Certify Intake Artifact
begin

text \<open>
  The registry of the service (\<open>ToolRegistry._register_all_tools\<close> in
  \<open>tools/registry.py\<close>) instantiated with the eight handlers: the handler type is the
  datatype \<open>tool\<close>, \<open>tool_sig\<close> is each handler's Python signature,
  \<open>tool_schema\<close> the part of its \<open>TOOL_DEFINITION\<close> the registry and the model read,
  and \<open>tool_invoke\<close> runs the handler model on the bound arguments. The clock and the
  id the database generates for a new application are parameters of \<open>tool_invoke\<close>.
  The module-level registry of \<open>get_tool_registry\<close> is an explicit
  \<open>tool registry option\<close>.
\<close>

section \<open>The eight tools\<close>

datatype tool =
    T_query_application | T_create_application | T_upload_document | T_extract_fields
  | T_update_module | T_request_audit | T_certify_application | T_show_artifact

fun tool_name :: "tool \<Rightarrow> string" where
  "tool_name T_query_application = ''query_application''"
| "tool_name T_create_application = ''create_application''"
| "tool_name T_upload_document = ''upload_document''"
| "tool_name T_extract_fields = ''extract_fields''"
| "tool_name T_update_module = ''update_module''"
| "tool_name T_request_audit = ''request_audit''"
| "tool_name T_certify_application = ''certify_application''"
| "tool_name T_show_artifact = ''show_artifact''"

text \<open>The handlers' parameters in order, with their defaults (\<open>None\<close> for a parameter
  without one).\<close>

fun tool_sig :: "tool \<Rightarrow> (string \<times> jval option) list" where
  "tool_sig T_query_application =
     [(''application_id'', Some JNull), (''session_context'', Some JNull)]"
| "tool_sig T_create_application =
     [(''farmer_name'', Some JNull), (''farmer_email'', Some JNull), (''farmer_phone'', Some JNull),
      (''certification_type'', Some (JStr ''standard'')), (''notes'', Some JNull),
      (''session_context'', Some JNull)]"
| "tool_sig T_upload_document =
     [(''document_type'', None), (''application_id'', Some JNull), (''instructions'', Some JNull),
      (''session_context'', Some JNull)]"
| "tool_sig T_extract_fields =
     [(''document_id'', None), (''field_hints'', Some JNull), (''session_context'', Some JNull)]"
| "tool_sig T_update_module =
     [(''module_number'', None), (''field_id'', None), (''value'', None), (''application_id'', Some JNull),
      (''session_context'', Some JNull)]"
| "tool_sig T_request_audit =
     [(''reason'', None), (''application_id'', Some JNull), (''document_id'', Some JNull),
      (''field_ids'', Some JNull), (''session_context'', Some JNull)]"
| "tool_sig T_certify_application =
     [(''certification_confirmed'', None), (''application_id'', Some JNull), (''session_context'', Some JNull)]"
| "tool_sig T_show_artifact =
     [(''artifact_type'', None), (''artifact_id'', None), (''application_id'', Some JNull),
      (''session_context'', Some JNull)]"

text \<open>The \<open>input_schema\<close> of each tool's \<open>TOOL_DEFINITION\<close>: its properties with
  their types, in order, and its required list. Descriptions, enumerations and bounds
  are left out.\<close>

record input_schema =
  is_props :: "(string \<times> json_type) list"
  is_required :: "string list"

definition query_application_schema :: input_schema where
  "query_application_schema = \<lparr>is_props = [(''application_id'', JT_string)], is_required = []\<rparr>"

definition create_application_schema :: input_schema where
  "create_application_schema =
     \<lparr>is_props = [(''farmer_name'', JT_string), (''farmer_email'', JT_string), (''farmer_phone'', JT_string),
                 (''certification_type'', JT_string), (''notes'', JT_string)], is_required = []\<rparr>"

definition upload_document_schema :: input_schema where
  "upload_document_schema =
     \<lparr>is_props = [(''document_type'', JT_string), (''application_id'', JT_string), (''instructions'', JT_string)],
      is_required = [''document_type'']\<rparr>"

definition extract_fields_schema :: input_schema where
  "extract_fields_schema =
     \<lparr>is_props = [(''document_id'', JT_string), (''field_hints'', JT_array JT_string)],
      is_required = [''document_id'']\<rparr>"

definition update_module_schema :: input_schema where
  "update_module_schema =
     \<lparr>is_props = [(''application_id'', JT_string), (''module_number'', JT_integer), (''field_id'', JT_string),
                 (''value'', JT_string)],
      is_required = [''module_number'', ''field_id'', ''value'']\<rparr>"

definition request_audit_schema :: input_schema where
  "request_audit_schema =
     \<lparr>is_props = [(''application_id'', JT_string), (''document_id'', JT_string), (''field_ids'', JT_array JT_string),
                 (''reason'', JT_string)],
      is_required = [''reason'']\<rparr>"

definition certify_application_schema :: input_schema where
  "certify_application_schema =
     \<lparr>is_props = [(''application_id'', JT_string), (''certification_confirmed'', JT_boolean)],
      is_required = [''certification_confirmed'']\<rparr>"

definition show_artifact_schema :: input_schema where
  "show_artifact_schema =
     \<lparr>is_props = [(''artifact_type'', JT_string), (''artifact_id'', JT_string), (''application_id'', JT_string)],
      is_required = [''artifact_type'', ''artifact_id'']\<rparr>"

fun tool_input_schema :: "tool \<Rightarrow> input_schema" where
  "tool_input_schema T_query_application = query_application_schema"
| "tool_input_schema T_create_application = create_application_schema"
| "tool_input_schema T_upload_document = upload_document_schema"
| "tool_input_schema T_extract_fields = extract_fields_schema"
| "tool_input_schema T_update_module = update_module_schema"
| "tool_input_schema T_request_audit = request_audit_schema"
| "tool_input_schema T_certify_application = certify_application_schema"
| "tool_input_schema T_show_artifact = show_artifact_schema"

lemmas schema_defs = query_application_schema_def create_application_schema_def upload_document_schema_def
  extract_fields_schema_def update_module_schema_def request_audit_schema_def
  certify_application_schema_def show_artifact_schema_def

text \<open>Each \<open>TOOL_DEFINITION\<close> as the registry and the model read it: its name, its input
  schema's property names and its required list.\<close>

definition tool_schema :: "tool \<Rightarrow> tool_def" where
  "tool_schema t =
     \<lparr>def_name = Some (tool_name t), def_has_schema = True,
      def_props = map fst (is_props (tool_input_schema t)), def_required = is_required (tool_input_schema t)\<rparr>"

text \<open>\<open>await tool_handler(**tool_input, ...)\<close>: the handler applied to its bound
  parameters.\<close>

fun tool_invoke ::
  "string \<Rightarrow> string \<Rightarrow> tool \<Rightarrow> (string \<Rightarrow> jval) \<Rightarrow> session_ctx option \<Rightarrow> store \<Rightarrow> outcome" where
  "tool_invoke now nid T_query_application a c st = query_application (a ''application_id'') c st"
| "tool_invoke now nid T_create_application a c st =
     create_application (a ''farmer_name'') (a ''farmer_email'') (a ''farmer_phone'')
       (a ''certification_type'') (a ''notes'') c nid now st"
| "tool_invoke now nid T_upload_document a c st =
     upload_document (a ''document_type'') (a ''application_id'') (a ''instructions'') c st"
| "tool_invoke now nid T_extract_fields a c st = extract_fields (a ''document_id'') (a ''field_hints'') c st"
| "tool_invoke now nid T_update_module a c st =
     update_module (a ''module_number'') (a ''field_id'') (a ''value'') (a ''application_id'') c now st"
| "tool_invoke now nid T_request_audit a c st =
     request_audit (a ''reason'') (a ''application_id'') (a ''document_id'') (a ''field_ids'') c now st"
| "tool_invoke now nid T_certify_application a c st =
     certify_application (a ''certification_confirmed'') (a ''application_id'') c now st"
| "tool_invoke now nid T_show_artifact a c st =
     show_artifact (a ''artifact_type'') (a ''artifact_id'') (a ''application_id'') c st"

text \<open>The \<open>tools_to_register\<close> list of \<open>_register_all_tools\<close>, in its order.\<close>

definition all_tools :: "tool list" where
  "all_tools = [T_query_application, T_create_application, T_upload_document, T_extract_fields,
                T_update_module, T_request_audit, T_certify_application, T_show_artifact]"

definition tools_to_register :: "(string \<times> tool \<times> tool_def) list" where
  "tools_to_register = map (\<lambda>t. (tool_name t, t, tool_schema t)) all_tools"

text \<open>\<open>ToolRegistry()\<close>: registration of the list into an empty registry.\<close>

definition tool_registry :: "reg_error + tool registry" where
  "tool_registry = register_all tools_to_register []"

text \<open>The registry's \<open>execute_tool\<close> over the service's tools.\<close>

definition execute :: "string \<Rightarrow> string \<Rightarrow> tool registry \<Rightarrow> string \<Rightarrow> (string \<times> jval) list \<Rightarrow>
    session_ctx option \<Rightarrow> store \<Rightarrow> payload envelope \<times> store" where
  "execute now nid reg name input ctx st =
     execute_tool tool_sig (tool_invoke now nid) has_error reg name input ctx st"

text \<open>The module-level registry (\<open>_registry\<close>, \<open>get_tool_registry\<close>): built on first
  use and kept; a \<open>ValueError\<close> of the construction propagates and leaves it unset. The
  module functions \<open>get_all_tool_definitions\<close>, \<open>execute_tool\<close> and
  \<open>list_available_tools\<close> go through it.\<close>

definition get_tool_registry :: "tool registry option \<Rightarrow> (reg_error + tool registry) \<times> tool registry option" where
  "get_tool_registry g =
     (case g of
        Some r \<Rightarrow> (Inr r, g)
      | None \<Rightarrow> (case tool_registry of Inl e \<Rightarrow> (Inl e, g) | Inr r \<Rightarrow> (Inr r, Some r)))"

definition get_all_tool_definitions :: "tool registry option \<Rightarrow> (reg_error + tool_def list) \<times> tool registry option" where
  "get_all_tool_definitions g =
     (case get_tool_registry g of (Inl e, g') \<Rightarrow> (Inl e, g') | (Inr r, g') \<Rightarrow> (Inr (get_tool_definitions r), g'))"

definition list_available_tools :: "tool registry option \<Rightarrow> (reg_error + string list) \<times> tool registry option" where
  "list_available_tools g =
     (case get_tool_registry g of (Inl e, g') \<Rightarrow> (Inl e, g') | (Inr r, g') \<Rightarrow> (Inr (list_tools r), g'))"

definition execute_global :: "string \<Rightarrow> string \<Rightarrow> string \<Rightarrow> (string \<times> jval) list \<Rightarrow> session_ctx option \<Rightarrow>
    tool registry option \<times> store \<Rightarrow> (reg_error + payload envelope) \<times> tool registry option \<times> store" where
  "execute_global now nid name input ctx gs =
     (case get_tool_registry (fst gs) of
        (Inl e, g') \<Rightarrow> (Inl e, g', snd gs)
      | (Inr r, g') \<Rightarrow> (case execute now nid r name input ctx (snd gs) of (res, st') \<Rightarrow> (Inr res, g', st')))"

section \<open>Lemmas\<close>

lemma tool_schema_sig:
  "set (def_props (tool_schema t)) \<subseteq> set (map fst (tool_sig t))"
  "\<forall>p\<in>set (tool_sig t). snd p = None \<longrightarrow> fst p \<in> set (def_required (tool_schema t))"
  "''session_context'' \<notin> set (def_props (tool_schema t))"
  by (cases t; simp add: tool_schema_def schema_defs)+

lemma map_of_tools_to_register: "map_of tools_to_register (tool_name t) = Some (t, tool_schema t)"
  by (cases t) (simp_all add: tools_to_register_def all_tools_def)

lemma tool_input_binds:
  assumes "set (map fst input) \<subseteq> set (def_props (tool_schema t))"
    "set (def_required (tool_schema t)) \<subseteq> set (map fst input)"
  shows "bind_args (tool_sig t) input ctx = Inr (bound_args (tool_sig t) input, ctx)"
proof (rule bind_args_conforming)
  show "set (map fst input) \<subseteq> set (map fst (tool_sig t))" using assms(1) tool_schema_sig(1) by blast
  show "\<forall>p\<in>set (tool_sig t). snd p = None \<longrightarrow> fst p \<in> set (map fst input)"
    using assms(2) tool_schema_sig(2) by blast
  show "''session_context'' \<notin> set (map fst input)" using assms(1) tool_schema_sig(3) by blast
qed

lemma tool_registry_Inr: "tool_registry = Inr tools_to_register"
  by (simp add: tool_registry_def tools_to_register_def all_tools_def register_tool_def tool_schema_def)

text \<open>The module-level registry is the one \<open>ToolRegistry()\<close> builds, from the first
  call on: the module's \<open>execute_tool\<close> is the registry's on the service's tools, and
  the registry holds eight tools.\<close>

lemma get_tool_registry_built:
  "g = None \<or> g = Some tools_to_register \<Longrightarrow> get_tool_registry g = (Inr tools_to_register, Some tools_to_register)"
  by (auto simp: get_tool_registry_def tool_registry_Inr)

lemma execute_global_execute:
  assumes "g = None \<or> g = Some tools_to_register"
  shows "execute_global now nid name input ctx (g, st) =
    (Inr (fst (execute now nid tools_to_register name input ctx st)), Some tools_to_register,
     snd (execute now nid tools_to_register name input ctx st))"
  by (simp add: execute_global_def get_tool_registry_built [OF assms] split: prod.splits)

lemma get_tool_count_eight: "get_tool_count tools_to_register = 8"
  by (simp add: get_tool_count_def tools_to_register_def all_tools_def)

section \<open>Properties\<close>

text \<open>The registry is built without a \<open>ValueError\<close>, registering the eight tools in
  the listed order under distinct names; and each tool's advertised schema agrees with
  its handler's signature: the schema's name is the tool's name, its properties are the
  handler's parameters other than \<open>session_context\<close>, and its required list is the
  parameters without a default.\<close>

theorem tool_schema_matches_signature:
  "tool_registry = Inr tools_to_register
   \<and> list_tools tools_to_register = [''query_application'', ''create_application'', ''upload_document'',
       ''extract_fields'', ''update_module'', ''request_audit'', ''certify_application'', ''show_artifact'']
   \<and> distinct (list_tools tools_to_register)
   \<and> def_name (tool_schema t) = Some (tool_name t)
   \<and> set (def_props (tool_schema t)) = set (map fst (tool_sig t)) - {''session_context''}
   \<and> set (def_required (tool_schema t)) = {p. (p, None) \<in> set (tool_sig t)}"
proof -
  have "tool_registry = Inr tools_to_register
    \<and> list_tools tools_to_register = [''query_application'', ''create_application'', ''upload_document'',
       ''extract_fields'', ''update_module'', ''request_audit'', ''certify_application'', ''show_artifact'']
    \<and> distinct (list_tools tools_to_register)"
    by (simp add: tool_registry_Inr tools_to_register_def all_tools_def list_tools_def)
  moreover have "def_name (tool_schema t) = Some (tool_name t)
   \<and> set (def_props (tool_schema t)) = set (map fst (tool_sig t)) - {''session_context''}
   \<and> set (def_required (tool_schema t)) = {p. (p, None) \<in> set (tool_sig t)}"
    by (cases t) (auto simp: tool_schema_def schema_defs)
  ultimately show ?thesis by blast
qed

text \<open>C30: for every tool and every input that conforms to the tool's schema, executing
  through the registry is running the handler on the input's values (defaults for the
  rest) and the session context: a \<open>TypeError\<close> is reported as \<open>invalid_input\<close>,
  any other exception as \<open>execution_error\<close>, and a result is a success unless it is
  an error dictionary (a tool error or a rejected certification, the results that carry
  an \<open>error\<close> key).\<close>

theorem registry_executes_handler:
  assumes "set (map fst input) \<subseteq> set (def_props (tool_schema t))"
    "set (def_required (tool_schema t)) \<subseteq> set (map fst input)"
  shows "execute now nid tools_to_register (tool_name t) input ctx st =
    (case tool_invoke now nid t (bound_args (tool_sig t) input) ctx st of
       (Inl TypeError, st') \<Rightarrow> (Invalid_input (tool_name t), st')
     | (Inl OtherError, st') \<Rightarrow> (Execution_error (tool_name t), st')
     | (Inr r, st') \<Rightarrow>
         (Executed (case r of Tool_error e \<Rightarrow> False | Certify_rejected fs k s \<Rightarrow> False | _ \<Rightarrow> True) r, st'))"
proof -
  have "execute now nid tools_to_register (tool_name t) input ctx st =
    (case tool_invoke now nid t (bound_args (tool_sig t) input) ctx st of
       (Inl e, st') \<Rightarrow> (classify_exc (tool_name t) e, st')
     | (Inr r, st') \<Rightarrow> (Executed (\<not> has_error r) r, st'))"
    unfolding execute_def
    by (rule execute_tool_bound [where sig = tool_sig, OF map_of_tools_to_register tool_input_binds [OF assms]])
  then show ?thesis
    by (auto simp: classify_exc_def split: prod.splits sum.splits py_exc.splits payload.splits)
qed

theorem registry_executes_handler_witness:
  "fst (execute ''t1'' ''app9'' tools_to_register ''update_module''
          [(''module_number'', JInt 1), (''field_id'', JStr ''revenue''), (''value'', JStr ''9000'')]
          (demo_ctx ''app1'') demo_store)
   = Executed True (Module_updated ''revenue'' ''financial'' 1 None (JStr ''9000'') Proxy_entered)"
  using registry_executes_handler [of "[(''module_number'', JInt 1), (''field_id'', JStr ''revenue''),
      (''value'', JStr ''9000'')]" T_update_module "''t1''" "''app9''" "demo_ctx ''app1''" demo_store]
  by (simp add: bound_args_def update_module_def MODULE_NAMES_def find_row_def model_simps tool_schema_def schema_defs
      split: prod.splits)

end
