(* ===== verification/Typing.thy ===== *)
theory Typing
  imports Tools
begin

text \<open>
  Typed tool calls. The model is told each tool's input schema; an input is well typed
  for a tool when every key it gives is a property of the tool's schema and its value
  has the property's type. The theorem of this theory is the tool-call analogue of
  "well-typed programs do not go wrong": a well-typed call that gives the required
  properties is executed by the registry and its handler returns a result (which may
  be an error result) instead of raising, so the registry never reports
  \<open>invalid_input\<close> or \<open>execution_error\<close> for it. The exceptions the handler models
  can raise are the \<open>TypeError\<close> of \<open>update_module\<close> on a list or dictionary module
  number and the one of \<open>create_application\<close> on an email that is not a string; the
  schemas exclude both.
\<close>

definition typed_input :: "tool \<Rightarrow> (string \<times> jval) list \<Rightarrow> bool" where
  "typed_input t input \<longleftrightarrow>
     (\<forall>(k, v)\<in>set input. \<exists>ty. map_of (is_props (tool_input_schema t)) k = Some ty \<and> has_type v ty)"

section \<open>Handlers that never raise\<close>

lemma query_application_no_raise: "fst (query_application a c st) \<noteq> Inl e"
  by (auto simp: query_application_def Let_def split: sum.splits option.splits prod.splits if_splits)

lemma upload_document_no_raise: "fst (upload_document a b i c st) \<noteq> Inl e"
  by (auto simp: upload_document_def Let_def split: jval.splits sum.splits prod.splits if_splits)

lemma extract_fields_no_raise: "fst (extract_fields a b c st) \<noteq> Inl e"
  by (auto simp: extract_fields_def Let_def split: sum.splits option.splits prod.splits if_splits)

lemma certify_application_no_raise: "fst (certify_application a b c now st) \<noteq> Inl e"
  by (auto simp: certify_application_def Let_def split: sum.splits option.splits prod.splits if_splits)

lemma show_doc_no_raise: "fst (show_doc k a t st) \<noteq> Inl e"
  by (auto simp: show_doc_def Let_def split: sum.splits option.splits prod.splits if_splits)

lemma show_app_no_raise: "fst (show_app k a t u st) \<noteq> Inl e"
  by (auto simp: show_app_def Let_def split: sum.splits option.splits prod.splits if_splits)

lemma show_module_form_no_raise: "fst (show_module_form a t u st) \<noteq> Inl e"
  by (auto simp: show_module_form_def Let_def split: sum.splits option.splits prod.splits if_splits)

lemma show_artifact_no_raise: "fst (show_artifact a b i c st) \<noteq> Inl e"
  unfolding show_artifact_def
  by (auto simp: Let_def show_doc_no_raise show_app_no_raise show_module_form_no_raise
      split: option.splits artifact_kind.splits)

lemma request_audit_no_raise: "fst (request_audit r a d f c now st) \<noteq> Inl e"
  by (auto simp: request_audit_def Let_def split: sum.splits option.splits prod.splits if_splits)

section \<open>The two handlers that can raise\<close>

lemma update_module_raises: "fst (update_module mn f v a c now st) = Inl e \<Longrightarrow> int_key mn = Inl e"
  by (cases "int_key mn") (auto simp: update_module_def Let_def split: option.splits sum.splits prod.splits if_splits)

lemma create_in_db_no_raise: "fst (create_in_db u fe ct n nid now st) \<noteq> Inl e"
  by (auto simp: create_in_db_def split: sum.splits option.splits if_splits)

lemma create_application_raises:
  "fst (create_application fn fe fp ct n c nid now st) = Inl e \<Longrightarrow> py_truthy fe \<and> validate_email fe = Inl e"
  by (auto simp: create_application_def Let_def create_in_db_no_raise split: jval.splits sum.splits if_splits)

section \<open>Well-typed calls\<close>

lemma typed_input_lookup:
  assumes "typed_input t input" "map_of input k = Some v"
  shows "\<exists>ty. map_of (is_props (tool_input_schema t)) k = Some ty \<and> has_type v ty"
  using assms map_of_SomeD unfolding typed_input_def by fastforce

lemma typed_input_keys:
  "typed_input t input \<Longrightarrow> set (map fst input) \<subseteq> set (def_props (tool_schema t))"
  by (force simp: typed_input_def tool_schema_def dest: map_of_SomeD)

lemma has_type_JT_integer: "has_type v JT_integer \<Longrightarrow> \<exists>i. v = JInt i"
  by (cases v) auto

lemma has_type_JT_string: "has_type v JT_string \<Longrightarrow> \<exists>s. v = JStr s"
  by (cases v) auto

lemma invoke_update_module_no_raise:
  assumes "map_of input ''module_number'' = Some (JInt i)"
  shows "fst (tool_invoke now nid T_update_module (bound_args (tool_sig T_update_module) input) ctx st) \<noteq> Inl e"
proof
  assume "fst (tool_invoke now nid T_update_module (bound_args (tool_sig T_update_module) input) ctx st) = Inl e"
  then have "int_key (bound_args (tool_sig T_update_module) input ''module_number'') = Inl e"
    unfolding tool_invoke.simps by (rule update_module_raises)
  with assms show False by (simp add: bound_args_def)
qed

lemma invoke_create_application_no_raise:
  assumes "\<forall>v. map_of input ''farmer_email'' = Some v \<longrightarrow> (\<exists>s. v = JStr s)"
  shows "fst (tool_invoke now nid T_create_application (bound_args (tool_sig T_create_application) input) ctx st) \<noteq> Inl e"
proof
  assume "fst (tool_invoke now nid T_create_application (bound_args (tool_sig T_create_application) input) ctx st) = Inl e"
  then have "py_truthy (bound_args (tool_sig T_create_application) input ''farmer_email'')
      \<and> validate_email (bound_args (tool_sig T_create_application) input ''farmer_email'') = Inl e"
    unfolding tool_invoke.simps by (rule create_application_raises)
  with assms show False by (cases "map_of input ''farmer_email''") (auto simp: bound_args_def)
qed

lemma typed_invoke_update_module:
  assumes "typed_input t input" "set (def_required (tool_schema t)) \<subseteq> set (map fst input)" "t = T_update_module"
  shows "fst (tool_invoke now nid t (bound_args (tool_sig t) input) ctx st) \<noteq> Inl e"
proof -
  have "''module_number'' \<in> set (map fst input)"
    using assms(2,3) by (simp add: tool_schema_def update_module_schema_def)
  then obtain v where v: "map_of input ''module_number'' = Some v"
    by (cases "map_of input ''module_number''") (auto simp: map_of_eq_None_iff)
  from typed_input_lookup [OF assms(1) v] assms(3) have "has_type v JT_integer"
    by (simp add: update_module_schema_def)
  then obtain i where "v = JInt i" by (blast dest: has_type_JT_integer)
  with v have "map_of input ''module_number'' = Some (JInt i)" by simp
  then show ?thesis unfolding assms(3) by (rule invoke_update_module_no_raise)
qed

lemma typed_invoke_create_application:
  assumes "typed_input t input" "t = T_create_application"
  shows "fst (tool_invoke now nid t (bound_args (tool_sig t) input) ctx st) \<noteq> Inl e"
proof -
  have "\<forall>v. map_of input ''farmer_email'' = Some v \<longrightarrow> (\<exists>s. v = JStr s)"
  proof (intro allI impI)
    fix v assume v: "map_of input ''farmer_email'' = Some v"
    from typed_input_lookup [OF assms(1) v] assms(2) have "has_type v JT_string"
      by (simp add: create_application_schema_def)
    then show "\<exists>s. v = JStr s" by (rule has_type_JT_string)
  qed
  then show ?thesis unfolding assms(2) by (rule invoke_create_application_no_raise)
qed

lemma tool_invoke_no_raise:
  assumes "typed_input t input" "set (def_required (tool_schema t)) \<subseteq> set (map fst input)"
  shows "fst (tool_invoke now nid t (bound_args (tool_sig t) input) ctx st) \<noteq> Inl e"
proof (cases t)
  case T_update_module
  with assms show ?thesis by (rule typed_invoke_update_module)
next
  case T_create_application
  with assms(1) show ?thesis by (rule typed_invoke_create_application)
qed (simp_all only: tool_invoke.simps query_application_no_raise upload_document_no_raise
      extract_fields_no_raise request_audit_no_raise certify_application_no_raise show_artifact_no_raise
      not_False_eq_True)

section \<open>Properties\<close>

text \<open>C19: well-typed tool calls do not go wrong: for every tool, an input whose keys are
  properties of the tool's input schema, whose values have the declared types and which
  gives every required property is executed by the registry, and the handler returns a
  result dictionary, so the registry reports neither \<open>invalid_input\<close> nor
  \<open>execution_error\<close>.\<close>

theorem well_typed_call_executes:
  assumes "typed_input t input" "set (def_required (tool_schema t)) \<subseteq> set (map fst input)"
  shows "\<exists>ok r. fst (execute now nid tools_to_register (tool_name t) input ctx st) = Executed ok r"
proof -
  have "execute now nid tools_to_register (tool_name t) input ctx st =
    (case tool_invoke now nid t (bound_args (tool_sig t) input) ctx st of
       (Inl e, st') \<Rightarrow> (classify_exc (tool_name t) e, st')
     | (Inr r, st') \<Rightarrow> (Executed (\<not> has_error r) r, st'))"
    unfolding execute_def
    by (rule execute_tool_bound [where sig = tool_sig, OF map_of_tools_to_register
          tool_input_binds [OF typed_input_keys [OF assms(1)] assms(2)]])
  moreover have "\<forall>e. fst (tool_invoke now nid t (bound_args (tool_sig t) input) ctx st) \<noteq> Inl e"
    using tool_invoke_no_raise [OF assms] by blast
  ultimately show ?thesis by (auto split: prod.splits sum.splits)
qed

theorem well_typed_call_executes_witness:
  "typed_input T_create_application [(''farmer_name'', JStr ''Jane Roe''), (''certification_type'', JStr ''organic'')]
   \<and> (\<exists>ok r. fst (execute ''t1'' ''app9'' tools_to_register ''create_application''
        [(''farmer_name'', JStr ''Jane Roe''), (''certification_type'', JStr ''organic'')] None demo_store)
        = Executed ok r)"
proof -
  have ty: "typed_input T_create_application [(''farmer_name'', JStr ''Jane Roe''), (''certification_type'', JStr ''organic'')]"
    by (simp add: typed_input_def create_application_schema_def)
  have req: "set (def_required (tool_schema T_create_application)) \<subseteq>
      set (map fst [(''farmer_name'', JStr ''Jane Roe''), (''certification_type'', JStr ''organic'')])"
    by (simp add: tool_schema_def create_application_schema_def)
  from ty well_typed_call_executes [OF ty req, of "''t1''" "''app9''" None demo_store] show ?thesis
    by simp
qed

end
