(* ===== verification/History.thy ===== *)
theory History
  imports Prelude "HOL-Library.Sublist"
begin

text \<open>
  The conversation history manager (\<open>conversation/history.py\<close>, class
  \<open>ConversationHistory\<close>): formatting stored messages for the model, the
  character-count token estimate, truncation to a token budget that always keeps the
  most recent messages, validation of the user/assistant alternation, the preparation
  step that chains them, the per-session cache and the summary of old messages. The
  manager is built with its defaults everywhere (\<open>get_history_manager\<close>), so the token
  ratio is \<open>1 / 4\<close>: \<open>int(total_chars * 0.25)\<close> is exact in floating point and is
  \<open>total_chars div 4\<close>. The budget \<open>max_tokens\<close> is a parameter (default 150000).
\<close>

section \<open>Messages\<close>

text \<open>A stored message as the manager reads it: \<open>msg.get("role")\<close> (absent is
  \<open>None\<close>) and \<open>msg.get("content", "")\<close>.\<close>

record message =
  msg_role :: "string option"
  msg_content :: string

definition DEFAULT_MAX_TOKENS :: nat where
  "DEFAULT_MAX_TOKENS = 150000"

definition valid_role :: "string option \<Rightarrow> bool" where
  "valid_role r \<longleftrightarrow> r = Some ''user'' \<or> r = Some ''assistant''"

text \<open>\<open>format_for_claude\<close> (without metadata, as \<open>prepare_for_api\<close> calls it):
  messages with another role are skipped.\<close>

definition format_for_claude :: "message list \<Rightarrow> message list" where
  "format_for_claude ms = filter (\<lambda>m. valid_role (msg_role m)) ms"

definition estimate_tokens :: "message list \<Rightarrow> nat" where
  "estimate_tokens ms = sum_list (map (\<lambda>m. length (msg_content m)) ms) div 4"

section \<open>Truncation\<close>

text \<open>Python's slices \<open>xs[-k:]\<close> and \<open>xs[:-k]\<close> for \<open>k \<ge> 0\<close>; \<open>-0\<close> is \<open>0\<close>,
  so \<open>xs[-0:]\<close> is the whole list and \<open>xs[:-0]\<close> is empty.\<close>

definition py_tail :: "nat \<Rightarrow> 'a list \<Rightarrow> 'a list" where
  "py_tail k xs = (if k = 0 then xs else drop (length xs - k) xs)"

definition py_init :: "nat \<Rightarrow> 'a list \<Rightarrow> 'a list" where
  "py_init k xs = (if k = 0 then [] else take (length xs - k) xs)"

text \<open>The loop \<open>for msg in reversed(remaining_messages)\<close>: prepend the next older
  message while the estimate of the result stays within the budget, stop at the first
  one that would exceed it.\<close>

fun add_older :: "nat \<Rightarrow> message list \<Rightarrow> message list \<Rightarrow> message list" where
  "add_older mx [] acc = acc"
| "add_older mx (m # ms) acc =
     (if estimate_tokens (m # acc) \<le> mx then add_older mx ms (m # acc) else acc)"

definition truncate_to_fit :: "nat \<Rightarrow> message list \<Rightarrow> nat \<Rightarrow> message list" where
  "truncate_to_fit mx ms k =
     (if ms = [] then []
      else if estimate_tokens ms \<le> mx then ms
      else
        (let kept = (if length ms > k then py_tail k ms else ms);
             remaining = (if length ms > k then py_init k ms else []) in
         add_older mx (rev remaining) kept))"

section \<open>Alternation\<close>

datatype alt_error = Invalid_role nat "string option" | Non_alternating nat | Not_user_first

text \<open>The loop of \<open>validate_alternation\<close> over \<open>enumerate(messages)\<close>, with the
  previous role.\<close>

fun alt_scan :: "string option \<Rightarrow> nat \<Rightarrow> message list \<Rightarrow> alt_error option" where
  "alt_scan prev i [] = None"
| "alt_scan prev i (m # ms) =
     (if \<not> valid_role (msg_role m) then Some (Invalid_role i (msg_role m))
      else if prev \<noteq> None \<and> msg_role m = prev then Some (Non_alternating i)
      else alt_scan (msg_role m) (Suc i) ms)"

definition validate_alternation :: "message list \<Rightarrow> alt_error option" where
  "validate_alternation ms =
     (if ms = [] then None
      else (case alt_scan None 0 ms of
              Some e \<Rightarrow> Some e
            | None \<Rightarrow> if msg_role (hd ms) \<noteq> Some ''user'' then Some Not_user_first else None))"

text \<open>The shape the model's API requires, the reference for \<open>validate_alternation\<close>:
  the roles are user, assistant, user, ... from the first message on.\<close>

definition alternating :: "message list \<Rightarrow> bool" where
  "alternating ms \<longleftrightarrow> (\<forall>i<length ms. msg_role (ms ! i) = Some (if even i then ''user'' else ''assistant''))"

text \<open>\<open>prepare_for_api\<close>: truncate (with the default window of 10), format, append the
  new user message when it is a non-empty string, validate; a violation raises
  \<open>ValueError\<close> (the value \<open>Inl\<close>).\<close>

definition prepare_for_api :: "nat \<Rightarrow> message list \<Rightarrow> string option \<Rightarrow> bool \<Rightarrow> alt_error + message list" where
  "prepare_for_api mx ms new_user_message auto_truncate =
     (let ms1 = (if auto_truncate then truncate_to_fit mx ms 10 else ms);
          f = format_for_claude ms1;
          f2 = (case new_user_message of
                  Some s \<Rightarrow> if s \<noteq> [] then f @ [\<lparr>msg_role = Some ''user'', msg_content = s\<rparr>] else f
                | None \<Rightarrow> f) in
      case validate_alternation f2 of Some e \<Rightarrow> Inl e | None \<Rightarrow> Inr f2)"

section \<open>Cache and summary\<close>

text \<open>The per-session cache \<open>_cache\<close>. \<open>clear_cache\<close> tests its argument's truth:
  an empty session id clears every session.\<close>

type_synonym hist_cache = "string \<rightharpoonup> message list"

definition cache_history :: "string \<Rightarrow> message list \<Rightarrow> hist_cache \<Rightarrow> hist_cache" where
  "cache_history sid ms c = c(sid \<mapsto> ms)"

definition get_cached_history :: "hist_cache \<Rightarrow> string \<Rightarrow> message list option" where
  "get_cached_history c sid = c sid"

definition clear_cache :: "string option \<Rightarrow> hist_cache \<Rightarrow> hist_cache" where
  "clear_cache sid c = (case sid of Some s \<Rightarrow> if s \<noteq> [] then c(s := None) else Map.empty | None \<Rightarrow> Map.empty)"

text \<open>\<open>summarize_old_messages\<close>: beyond the threshold, the older slice becomes a summary
  (its length, the number of user messages, the rest counted as assistant messages,
  and the first 200 characters of its contents joined by spaces).\<close>

record summary =
  sum_count :: nat
  sum_user :: nat
  sum_assistant :: nat
  sum_topics :: string

definition summarize_old_messages :: "message list \<Rightarrow> nat \<Rightarrow> summary option \<times> message list" where
  "summarize_old_messages ms t =
     (if length ms \<le> t then (None, ms)
      else
        (let old = py_init t ms; recent = py_tail t ms;
             users = length (filter (\<lambda>m. msg_role m = Some ''user'') old) in
         (Some \<lparr>sum_count = length old, sum_user = users, sum_assistant = length old - users,
                sum_topics = take 200 (py_join '' '' (map msg_content old))\<rparr>, recent)))"

section \<open>Sample data\<close>

text \<open>An alternating history of twelve messages whose first message alone is eight
  characters long and the others empty.\<close>

definition hist12 :: "message list" where
  "hist12 = map (\<lambda>i. \<lparr>msg_role = Some (if even i then ''user'' else ''assistant''),
                        msg_content = (if i = 0 then ''xxxxxxxx'' else [])\<rparr>) [0..<12]"

section \<open>Lemmas\<close>

lemma py_init_tail: "py_init k xs @ py_tail k xs = xs"
  by (simp add: py_init_def py_tail_def)

lemma add_older_shape: "\<exists>j\<le>length xs. add_older mx xs acc = rev (take j xs) @ acc"
proof (induction xs arbitrary: acc)
  case Nil
  then show ?case by simp
next
  case (Cons m ms)
  show ?case
  proof (cases "estimate_tokens (m # acc) \<le> mx")
    case True
    from Cons.IH [of "m # acc"] obtain j where "j \<le> length ms"
      "add_older mx ms (m # acc) = rev (take j ms) @ m # acc" by blast
    with True show ?thesis by (intro exI [of _ "Suc j"]) simp
  next
    case False
    then show ?thesis by (intro exI [of _ 0]) simp
  qed
qed

lemma add_older_budget: "estimate_tokens acc \<le> mx \<Longrightarrow> estimate_tokens (add_older mx xs acc) \<le> mx"
  by (induction xs arbitrary: acc) auto

lemma add_older_stops:
  "length (add_older mx xs acc) < length xs + length acc \<Longrightarrow>
   mx < estimate_tokens (xs ! (length (add_older mx xs acc) - length acc) # add_older mx xs acc)"
proof (induction xs arbitrary: acc)
  case Nil
  then show ?case by simp
next
  case (Cons m ms)
  show ?case
  proof (cases "estimate_tokens (m # acc) \<le> mx")
    case True
    have "length (add_older mx ms (m # acc)) \<ge> length (m # acc)"
      using add_older_shape [of ms mx "m # acc"] by auto
    with True Cons.prems Cons.IH [of "m # acc"] show ?thesis
      by (simp add: nth_Cons' Suc_diff_le)
  next
    case False
    then show ?thesis by simp
  qed
qed

lemma rev_take_rev: "rev (take j (rev xs)) = drop (length xs - j) xs"
  by (simp add: rev_take)

lemma truncate_kept: "ms \<noteq> [] \<Longrightarrow> (if length ms > k then py_tail k ms else ms) = py_tail k ms"
  by (auto simp: py_tail_def)

lemma truncate_to_fit_shape:
  assumes "ms \<noteq> []" "mx < estimate_tokens ms"
  shows "\<exists>j\<le>length ms - length (py_tail k ms).
           truncate_to_fit mx ms k = drop (length ms - length (py_tail k ms) - j) (py_init k ms) @ py_tail k ms"
proof -
  let ?rem = "if length ms > k then py_init k ms else []"
  have rem: "?rem = py_init k ms" using assms(1) by (auto simp: py_init_def py_tail_def)
  have len: "length (py_init k ms) = length ms - length (py_tail k ms)"
    using py_init_tail [of k ms] by (metis add_diff_cancel_right' length_append)
  obtain j where "j \<le> length (rev (py_init k ms))"
    "add_older mx (rev (py_init k ms)) (py_tail k ms) = rev (take j (rev (py_init k ms))) @ py_tail k ms"
    using add_older_shape by blast
  with assms len rem show ?thesis
    by (intro exI [of _ j]) (simp add: truncate_to_fit_def truncate_kept rev_take_rev)
qed

lemma truncate_to_fit_cases:
  "truncate_to_fit mx ms k = ms \<or>
   (ms \<noteq> [] \<and> mx < estimate_tokens ms \<and> truncate_to_fit mx ms k = add_older mx (rev (py_init k ms)) (py_tail k ms))"
  by (cases "ms = []") (auto simp: truncate_to_fit_def truncate_kept py_init_def py_tail_def)

lemma alt_scan_None:
  "alt_scan prev i ms = None \<longleftrightarrow>
     list_all (\<lambda>m. valid_role (msg_role m)) ms
   \<and> successively (\<lambda>x y. msg_role x \<noteq> msg_role y) ms
   \<and> (ms \<noteq> [] \<and> prev \<noteq> None \<longrightarrow> msg_role (hd ms) \<noteq> prev)"
proof (induction ms arbitrary: prev i)
  case Nil
  then show ?case by simp
next
  case (Cons m ms)
  have v: "valid_role (msg_role m) \<Longrightarrow> msg_role m \<noteq> None" by (auto simp: valid_role_def)
  show ?case
    using Cons.IH [of "msg_role m" "Suc i"] v by (auto simp: successively_Cons)
qed

lemma alternating_iff:
  "alternating ms \<longleftrightarrow> ms = [] \<or>
     (list_all (\<lambda>m. valid_role (msg_role m)) ms
    \<and> successively (\<lambda>x y. msg_role x \<noteq> msg_role y) ms
    \<and> msg_role (hd ms) = Some ''user'')"
  (is "_ \<longleftrightarrow> ?r")
proof
  assume "alternating ms"
  then show ?r
    unfolding alternating_def successively_conv_nth list_all_length
    by (cases ms) (auto simp: valid_role_def hd_conv_nth)
next
  assume r: ?r
  show "alternating ms" unfolding alternating_def
  proof (intro allI impI)
    fix i assume "i < length ms"
    then show "msg_role (ms ! i) = Some (if even i then ''user'' else ''assistant'')"
    proof (induction i)
      case 0
      with r show ?case by (auto simp: hd_conv_nth)
    next
      case (Suc i)
      with r have "valid_role (msg_role (ms ! Suc i))" "msg_role (ms ! i) \<noteq> msg_role (ms ! Suc i)"
        by (auto simp: list_all_length successively_conv_nth)
      with Suc show ?case by (auto simp: valid_role_def)
    qed
  qed
qed

lemma validate_alternation_None_alternating: "validate_alternation ms = None \<Longrightarrow> alternating ms"
proof (cases "ms = []")
  case True
  then show ?thesis by (simp add: alternating_def)
next
  case False
  assume v: "validate_alternation ms = None"
  with False have "alt_scan None 0 ms = None" "msg_role (hd ms) = Some ''user''"
    by (auto simp: validate_alternation_def split: option.splits if_splits)
  with alt_scan_None [of None 0 ms] show ?thesis by (simp add: alternating_iff)
qed

lemma estimate_tokens_Cons_mono: "estimate_tokens acc \<le> estimate_tokens (m # acc)"
  by (simp add: estimate_tokens_def div_le_mono)

lemma estimate_tokens_append: "estimate_tokens ys \<le> estimate_tokens (xs @ ys)"
  by (simp add: estimate_tokens_def div_le_mono)

lemma add_older_over:
  assumes "mx < estimate_tokens acc" shows "add_older mx xs acc = acc"
proof (cases xs)
  case (Cons a l)
  have "estimate_tokens acc \<le> estimate_tokens (a # acc)" by (rule estimate_tokens_Cons_mono)
  with assms Cons show ?thesis by simp
qed simp

lemma summarize_old_messages_split:
  assumes "summarize_old_messages ms t = (Some s, recent)"
  shows "py_init t ms @ recent = ms \<and> sum_count s + length recent = length ms
    \<and> sum_user s + sum_assistant s = sum_count s \<and> length recent = (if t = 0 then length ms else t)"
proof -
  from assms have t: "t < length ms" and r: "recent = py_tail t ms"
    and s: "s = \<lparr>sum_count = length (py_init t ms),
                sum_user = length (filter (\<lambda>m. msg_role m = Some ''user'') (py_init t ms)),
                sum_assistant = length (py_init t ms) - length (filter (\<lambda>m. msg_role m = Some ''user'') (py_init t ms)),
                sum_topics = take 200 (py_join '' '' (map msg_content (py_init t ms)))\<rparr>"
    by (auto simp: summarize_old_messages_def Let_def split: if_splits)
  have "length (filter (\<lambda>m. msg_role m = Some ''user'') (py_init t ms)) \<le> length (py_init t ms)"
    by (rule length_filter_le)
  with t r s py_init_tail [of t ms] show ?thesis by (auto simp: py_init_def py_tail_def)
qed

lemma summarize_old_messages_split_witness:
  "fst (summarize_old_messages [\<lparr>msg_role = Some ''user'', msg_content = ''a''\<rparr>,
      \<lparr>msg_role = Some ''assistant'', msg_content = ''b''\<rparr>, \<lparr>msg_role = Some ''user'', msg_content = ''c''\<rparr>] 2)
     = Some \<lparr>sum_count = 1, sum_user = 1, sum_assistant = 0, sum_topics = ''a''\<rparr>
   \<and> length (snd (summarize_old_messages [\<lparr>msg_role = Some ''user'', msg_content = ''a''\<rparr>,
      \<lparr>msg_role = Some ''assistant'', msg_content = ''b''\<rparr>, \<lparr>msg_role = Some ''user'', msg_content = ''c''\<rparr>] 2)) = 2"
proof -
  let ?ms = "[\<lparr>msg_role = Some ''user'', msg_content = ''a''\<rparr>,
      \<lparr>msg_role = Some ''assistant'', msg_content = ''b''\<rparr>, \<lparr>msg_role = Some ''user'', msg_content = ''c''\<rparr>]"
  have f: "fst (summarize_old_messages ?ms 2) = Some \<lparr>sum_count = 1, sum_user = 1, sum_assistant = 0, sum_topics = ''a''\<rparr>"
    by (simp add: summarize_old_messages_def py_init_def)
  then have "summarize_old_messages ?ms 2 = (Some \<lparr>sum_count = 1, sum_user = 1, sum_assistant = 0, sum_topics = ''a''\<rparr>,
               snd (summarize_old_messages ?ms 2))" by (metis prod.collapse)
  from summarize_old_messages_split [OF this] f show ?thesis by simp
qed

section \<open>Properties\<close>

text \<open>C31: the truncated history is a contiguous suffix of the history and contains its last k messages verbatim (specification, truncation boundary (a) and (c)).\<close>

theorem truncate_to_fit_suffix:
  "suffix (py_tail k ms) (truncate_to_fit mx ms k) \<and> suffix (truncate_to_fit mx ms k) ms"
proof (cases "ms \<noteq> [] \<and> mx < estimate_tokens ms")
  case True
  then obtain j where r: "truncate_to_fit mx ms k =
      drop (length ms - length (py_tail k ms) - j) (py_init k ms) @ py_tail k ms"
    using truncate_to_fit_shape by blast
  have "suffix (drop (length ms - length (py_tail k ms) - j) (py_init k ms) @ py_tail k ms)
               (py_init k ms @ py_tail k ms)"
    by (metis append_take_drop_id append.assoc suffix_def)
  moreover have "suffix (py_tail k ms) (drop (length ms - length (py_tail k ms) - j) (py_init k ms) @ py_tail k ms)"
    by (simp add: suffix_def)
  ultimately show ?thesis unfolding r py_init_tail by simp
next
  case False
  then have "truncate_to_fit mx ms k = ms" by (auto simp: truncate_to_fit_def)
  then show ?thesis by (simp add: py_tail_def suffix_drop)
qed

text \<open>C32: when the last k messages fit the token budget, the truncated history fits it too.\<close>

theorem truncate_to_fit_budget:
  assumes "estimate_tokens (py_tail k ms) \<le> mx"
  shows "estimate_tokens (truncate_to_fit mx ms k) \<le> mx"
proof (cases "ms \<noteq> [] \<and> mx < estimate_tokens ms")
  case True
  then have "truncate_to_fit mx ms k = add_older mx (rev (py_init k ms)) (py_tail k ms)"
    by (simp add: truncate_to_fit_def truncate_kept py_init_def py_tail_def)
  with add_older_budget [OF assms] show ?thesis by simp
next
  case False
  then show ?thesis by (auto simp: truncate_to_fit_def estimate_tokens_def)
qed

theorem truncate_to_fit_budget_witness: "estimate_tokens (truncate_to_fit 1 hist12 10) \<le> 1"
  by (rule truncate_to_fit_budget) (simp add: hist12_def estimate_tokens_def py_tail_def upt_conv_Cons)

text \<open>C33: when the last k messages alone exceed the budget, truncation returns exactly them, over the budget: the window is kept unconditionally, so the specification's hard ceiling (truncation boundary (b)) does not hold.\<close>

theorem truncate_to_fit_window_over_budget:
  assumes "ms \<noteq> []" "mx < estimate_tokens (py_tail k ms)"
  shows "truncate_to_fit mx ms k = py_tail k ms"
proof -
  have "estimate_tokens (py_tail k ms) \<le> estimate_tokens ms"
    using estimate_tokens_append [of "py_tail k ms" "py_init k ms"] by (simp add: py_init_tail)
  with assms have "mx < estimate_tokens ms" by simp
  with assms(1) have "truncate_to_fit mx ms k = add_older mx (rev (py_init k ms)) (py_tail k ms)"
    by (simp add: truncate_to_fit_def truncate_kept py_init_def py_tail_def)
  with add_older_over [OF assms(2)] show ?thesis by simp
qed

theorem truncate_to_fit_window_over_budget_witness:
  "truncate_to_fit 1 [\<lparr>msg_role = Some ''user'', msg_content = ''abcdefgh''\<rparr>] 10
     = [\<lparr>msg_role = Some ''user'', msg_content = ''abcdefgh''\<rparr>]
   \<and> 1 < estimate_tokens [\<lparr>msg_role = Some ''user'', msg_content = ''abcdefgh''\<rparr>]"
  using truncate_to_fit_window_over_budget [of "[\<lparr>msg_role = Some ''user'', msg_content = ''abcdefgh''\<rparr>]" 1 10]
  by (simp add: estimate_tokens_def py_tail_def)

text \<open>C34: truncation drops older messages only as far as it must: when a message is dropped, adding the newest dropped message back would exceed the budget.\<close>

theorem truncate_to_fit_greedy:
  assumes "length (truncate_to_fit mx ms k) < length ms"
  shows "mx < estimate_tokens (ms ! (length ms - Suc (length (truncate_to_fit mx ms k))) # truncate_to_fit mx ms k)"
proof -
  let ?pre = "py_init k ms" and ?t = "py_tail k ms" and ?r = "truncate_to_fit mx ms k"
  from assms truncate_to_fit_cases [of mx ms k] have r: "?r = add_older mx (rev ?pre) ?t" by auto
  have len: "length ms = length ?pre + length ?t" using py_init_tail [of k ms] by (metis length_append)
  have lt: "length ?t \<le> length ?r" using add_older_shape [of "rev ?pre" mx ?t] r by auto
  have lr: "length ?r < length (rev ?pre) + length ?t" using assms len by simp
  from add_older_stops [OF lr [unfolded r]] have
    "mx < estimate_tokens (rev ?pre ! (length ?r - length ?t) # ?r)" by (simp add: r)
  moreover have "rev ?pre ! (length ?r - length ?t) = ms ! (length ms - Suc (length ?r))"
  proof -
    have i: "length ?r - length ?t < length ?pre" using lr lt by simp
    have idx: "length ?pre - Suc (length ?r - length ?t) = length ms - Suc (length ?r)"
      using len lt i by simp
    have "rev ?pre ! (length ?r - length ?t) = ?pre ! (length ?pre - Suc (length ?r - length ?t))"
      using i by (simp add: rev_nth)
    also have "\<dots> = (?pre @ ?t) ! (length ms - Suc (length ?r))"
      using i idx by (simp add: nth_append)
    also have "\<dots> = ms ! (length ms - Suc (length ?r))" by (simp only: py_init_tail)
    finally show ?thesis .
  qed
  ultimately show ?thesis by simp
qed

theorem truncate_to_fit_greedy_witness:
  "length (truncate_to_fit 1 hist12 10) = 11 \<and> 1 < estimate_tokens (hist12 ! 0 # truncate_to_fit 1 hist12 10)"
proof -
  have l: "length (truncate_to_fit 1 hist12 10) = 11"
    by (simp add: hist12_def truncate_to_fit_def estimate_tokens_def py_tail_def py_init_def upt_conv_Cons)
  with truncate_to_fit_greedy [of 1 hist12 10] show ?thesis by (simp add: hist12_def)
qed

text \<open>C35: validate\_alternation accepts a message list exactly when its roles are user, assistant, user, ... from the first message on.\<close>

theorem validate_alternation_iff: "validate_alternation ms = None \<longleftrightarrow> alternating ms"
proof (cases "ms = []")
  case True
  then show ?thesis by (simp add: validate_alternation_def alternating_def)
next
  case False
  have "alt_scan None 0 ms = None \<longleftrightarrow>
     list_all (\<lambda>m. valid_role (msg_role m)) ms \<and> successively (\<lambda>x y. msg_role x \<noteq> msg_role y) ms"
    using alt_scan_None [of None 0 ms] by simp
  with False show ?thesis
    by (cases "alt_scan None 0 ms") (auto simp: validate_alternation_def alternating_iff)
qed

text \<open>C36: every list prepare\_for\_api returns strictly alternates starting with user and ends with the new user message when one is given.\<close>

theorem prepare_for_api_alternates:
  assumes "prepare_for_api mx ms new auto = Inr f"
  shows "alternating f \<and> (\<forall>s. new = Some s \<and> s \<noteq> [] \<longrightarrow> last f = \<lparr>msg_role = Some ''user'', msg_content = s\<rparr>)"
proof -
  from assms have v: "validate_alternation f = None"
    and f: "f = (case new of Some s \<Rightarrow> if s \<noteq> [] then format_for_claude (if auto then truncate_to_fit mx ms 10 else ms)
                                          @ [\<lparr>msg_role = Some ''user'', msg_content = s\<rparr>]
                                   else format_for_claude (if auto then truncate_to_fit mx ms 10 else ms)
                | None \<Rightarrow> format_for_claude (if auto then truncate_to_fit mx ms 10 else ms))"
    by (auto simp: prepare_for_api_def Let_def split: option.splits)
  from validate_alternation_None_alternating [OF v] f show ?thesis by auto
qed

theorem prepare_for_api_alternates_witness:
  "prepare_for_api DEFAULT_MAX_TOKENS
     [\<lparr>msg_role = Some ''user'', msg_content = ''hello''\<rparr>, \<lparr>msg_role = Some ''assistant'', msg_content = ''hi''\<rparr>]
     (Some ''next'') True
   = Inr [\<lparr>msg_role = Some ''user'', msg_content = ''hello''\<rparr>, \<lparr>msg_role = Some ''assistant'', msg_content = ''hi''\<rparr>,
          \<lparr>msg_role = Some ''user'', msg_content = ''next''\<rparr>]
   \<and> alternating [\<lparr>msg_role = Some ''user'', msg_content = ''hello''\<rparr>, \<lparr>msg_role = Some ''assistant'', msg_content = ''hi''\<rparr>,
          \<lparr>msg_role = Some ''user'', msg_content = ''next''\<rparr>]"
proof -
  have e: "prepare_for_api DEFAULT_MAX_TOKENS
     [\<lparr>msg_role = Some ''user'', msg_content = ''hello''\<rparr>, \<lparr>msg_role = Some ''assistant'', msg_content = ''hi''\<rparr>]
     (Some ''next'') True
   = Inr [\<lparr>msg_role = Some ''user'', msg_content = ''hello''\<rparr>, \<lparr>msg_role = Some ''assistant'', msg_content = ''hi''\<rparr>,
          \<lparr>msg_role = Some ''user'', msg_content = ''next''\<rparr>]"
    by (simp add: prepare_for_api_def truncate_to_fit_def estimate_tokens_def DEFAULT_MAX_TOKENS_def
          format_for_claude_def valid_role_def validate_alternation_def)
  with prepare_for_api_alternates [OF e] show ?thesis by simp
qed

text \<open>Truncation ignores the alternation: a valid twelve-message history is accepted without truncation but rejected with Not\_user\_first once truncation keeps an odd number of messages.\<close>

theorem prepare_for_api_rejects_truncated_history:
  "alternating hist12 \<and> prepare_for_api 1 hist12 (Some ''hi'') False \<noteq> Inl Not_user_first
   \<and> prepare_for_api 1 hist12 (Some ''hi'') True = Inl Not_user_first"
proof -
  have "alternating hist12" by (simp add: alternating_def hist12_def)
  moreover have "prepare_for_api 1 hist12 (Some ''hi'') False \<noteq> Inl Not_user_first
    \<and> prepare_for_api 1 hist12 (Some ''hi'') True = Inl Not_user_first"
  by (simp add: hist12_def prepare_for_api_def truncate_to_fit_def estimate_tokens_def
        py_tail_def py_init_def format_for_claude_def valid_role_def validate_alternation_def
        upt_conv_Cons)
  ultimately show ?thesis by blast
qed

end
