(* ===== verification/Orchestrator.thy ===== *)
theory Orchestrator
  imports Prelude
begin

text \<open>
  The model client (\<open>claude/client.py\<close>, class \<open>ClaudeClient\<close>): the request body
  \<open>send_message\<close> and \<open>stream_message\<close> build, the tool loop
  \<open>execute_with_tools\<close> with its placeholder \<open>_execute_tool\<close>, and the
  server-sent-event line filter of \<open>stream_message\<close>. The vendor API is a parameter
  \<open>api\<close>: \<open>api i rq\<close> is the answer to the \<open>i\<close>-th call of a run with request body
  \<open>rq\<close>, \<open>None\<close> when the HTTP status is an error (\<open>raise_for_status\<close> raises). Python's
  \<open>str()\<close> of a tool input dictionary is the parameter \<open>repr\<close>.
\<close>

section \<open>Responses and requests\<close>

text \<open>A content block of a response, as the client reads it: \<open>{"type": "text"}\<close>,
  \<open>{"type": "tool_use"}\<close> with its optional \<open>id\<close>, \<open>name\<close> and \<open>input\<close>, or
  another type.\<close>

datatype block =
    Text_block string
  | Tool_use_block "string option" "string option" "jval option"
  | Other_block string

record response =
  stop_reason :: "string option"
  resp_content :: "block list"

text \<open>A tool result \<open>{"type": "tool_result", "tool_use_id": ..., "content": ...}\<close>.\<close>

record tool_result =
  tr_id :: "string option"
  tr_content :: string

text \<open>The content of a message the client sends: the user's text, the blocks of an
  assistant response, or the list of tool results.\<close>

datatype msg_content = Str_content string | Blocks_content "block list" | Results_content "tool_result list"

record claude_client =
  cl_model :: string
  cl_max_tokens :: nat
  cl_temperature :: rat

definition DEFAULT_MODEL :: string where
  "DEFAULT_MODEL = ''claude-sonnet-4-5''"

definition DEFAULT_CLIENT_MAX_TOKENS :: nat where
  "DEFAULT_CLIENT_MAX_TOKENS = 4096"

text \<open>\<open>ClaudeClient()\<close> with the defaults: the key is the argument or else the
  environment variable; no key raises \<open>ValueError\<close> (the value \<open>None\<close>).\<close>

definition init_client :: "string option \<Rightarrow> string option \<Rightarrow> claude_client option" where
  "init_client api_key env_key =
     (let key = (case api_key of Some k \<Rightarrow> if k \<noteq> [] then Some k else env_key | None \<Rightarrow> env_key) in
      if key = None \<or> key = Some [] then None
      else Some \<lparr>cl_model = DEFAULT_MODEL, cl_max_tokens = DEFAULT_CLIENT_MAX_TOKENS, cl_temperature = 1\<rparr>)"

text \<open>The JSON body posted to \<open>/v1/messages\<close>.\<close>

record api_request =
  req_model :: string
  req_max_tokens :: nat
  req_messages :: "(string \<times> msg_content) list"
  req_system :: "string option"
  req_tools :: "jval list option"
  req_temperature :: rat
  req_stream :: bool

text \<open>\<open>send_message\<close>: one user message; the system prompt and the tools only when
  they are truthy; a \<open>max_tokens\<close> keyword argument overrides the client's.\<close>

definition send_request ::
  "claude_client \<Rightarrow> msg_content \<Rightarrow> string option \<Rightarrow> jval list option \<Rightarrow> nat option \<Rightarrow> api_request" where
  "send_request c message system tools max_tokens =
     \<lparr>req_model = cl_model c,
      req_max_tokens = (case max_tokens of Some n \<Rightarrow> n | None \<Rightarrow> cl_max_tokens c),
      req_messages = [(''user'', message)],
      req_system = (case system of Some s \<Rightarrow> if s \<noteq> [] then Some s else None | None \<Rightarrow> None),
      req_tools = (case tools of Some ts \<Rightarrow> if ts \<noteq> [] then Some ts else None | None \<Rightarrow> None),
      req_temperature = cl_temperature c, req_stream = False\<rparr>"

text \<open>\<open>stream_message\<close>: the same body with \<open>"stream": true\<close>.\<close>

definition stream_request :: "claude_client \<Rightarrow> string \<Rightarrow> string option \<Rightarrow> jval list option \<Rightarrow> api_request" where
  "stream_request c message system tools =
     (send_request c (Str_content message) system tools None)\<lparr>req_stream := True\<rparr>"

section \<open>The tool loop\<close>

text \<open>\<open>_execute_tool\<close>: a placeholder that formats the call; no handler runs.\<close>

definition execute_tool_placeholder :: "(jval \<Rightarrow> string) \<Rightarrow> string option \<Rightarrow> jval option \<Rightarrow> string" where
  "execute_tool_placeholder repr name input =
     ''Tool '' @ (case name of Some n \<Rightarrow> n | None \<Rightarrow> ''None'') @ '' executed with input: ''
     @ repr (case input of Some v \<Rightarrow> v | None \<Rightarrow> JObj [])"

text \<open>The tool results of a response: one per \<open>tool_use\<close> block, in order.\<close>

fun tool_results :: "(jval \<Rightarrow> string) \<Rightarrow> block list \<Rightarrow> tool_result list" where
  "tool_results repr [] = []"
| "tool_results repr (Tool_use_block bid name input # bs) =
     \<lparr>tr_id = bid, tr_content = execute_tool_placeholder repr name input\<rparr> # tool_results repr bs"
| "tool_results repr (Text_block t # bs) = tool_results repr bs"
| "tool_results repr (Other_block ty # bs) = tool_results repr bs"

text \<open>Exceptions that leave \<open>execute_with_tools\<close>: the HTTP status error of
  \<open>raise_for_status\<close> and the \<open>RuntimeError\<close> of the iteration cap.\<close>

datatype client_exc = Http_status_error | Runtime_error nat

text \<open>The loop \<open>for iteration in range(max_iterations)\<close>, from call \<open>i\<close> with
  \<open>k\<close> iterations left and the conversation \<open>msgs\<close>; it returns the outcome and the
  requests it sent, in order. Each request carries \<open>messages[-1]["content"]\<close> only.\<close>

fun tool_loop ::
  "(nat \<Rightarrow> api_request \<Rightarrow> response option) \<Rightarrow> (jval \<Rightarrow> string) \<Rightarrow> claude_client \<Rightarrow> jval list \<Rightarrow>
   string option \<Rightarrow> nat \<Rightarrow> nat \<Rightarrow> nat \<Rightarrow> (string \<times> msg_content) list \<Rightarrow>
   (client_exc + response) \<times> api_request list" where
  "tool_loop api repr c tools system n i 0 msgs = (Inl (Runtime_error n), [])"
| "tool_loop api repr c tools system n i (Suc k) msgs =
     (let rq = send_request c (snd (last msgs)) system (Some tools) None in
      case api i rq of
        None \<Rightarrow> (Inl Http_status_error, [rq])
      | Some r \<Rightarrow>
          if stop_reason r = Some ''tool_use'' then
            (let msgs' = msgs @ [(''assistant'', Blocks_content (resp_content r)),
                                 (''user'', Results_content (tool_results repr (resp_content r)))];
                 (res, rqs) = tool_loop api repr c tools system n (Suc i) k msgs' in
             (res, rq # rqs))
          else (Inr r, [rq]))"

definition execute_with_tools ::
  "(nat \<Rightarrow> api_request \<Rightarrow> response option) \<Rightarrow> (jval \<Rightarrow> string) \<Rightarrow> claude_client \<Rightarrow> string \<Rightarrow>
   jval list \<Rightarrow> string option \<Rightarrow> nat \<Rightarrow> (client_exc + response) \<times> api_request list" where
  "execute_with_tools api repr c message tools system max_iterations =
     tool_loop api repr c tools system max_iterations 0 max_iterations [(''user'', Str_content message)]"

section \<open>Streaming\<close>

text \<open>The line filter of \<open>stream_message\<close>: blank lines and comment lines are
  skipped, a \<open>data: \<close> line yields its payload, \<open>[DONE]\<close> ends the stream, other
  lines are ignored.\<close>

fun sse_data :: "string list \<Rightarrow> string list" where
  "sse_data [] = []"
| "sse_data (l # ls) =
     (if py_strip l = [] then sse_data ls
      else if take 1 l = '':'' then sse_data ls
      else if take 6 l = ''data: '' then
        (if drop 6 l = ''[DONE]'' then [] else drop 6 l # sse_data ls)
      else sse_data ls)"

section \<open>Sample data\<close>

text \<open>A client built with the defaults, a model that asks for one tool and then
  answers, and a model that always asks for a tool.\<close>

definition demo_client :: claude_client where
  "demo_client = \<lparr>cl_model = DEFAULT_MODEL, cl_max_tokens = DEFAULT_CLIENT_MAX_TOKENS, cl_temperature = 1\<rparr>"

definition demo_api :: "nat \<Rightarrow> api_request \<Rightarrow> response option" where
  "demo_api i rq =
     (if i = 0 then Some \<lparr>stop_reason = Some ''tool_use'',
                           resp_content = [Text_block ''Checking.'',
                             Tool_use_block (Some ''tu1'') (Some ''query_application'') None]\<rparr>
      else Some \<lparr>stop_reason = Some ''end_turn'', resp_content = [Text_block ''Done.'']\<rparr>)"

definition tool_use_api :: "nat \<Rightarrow> api_request \<Rightarrow> response option" where
  "tool_use_api i rq =
     Some \<lparr>stop_reason = Some ''tool_use'', resp_content = [Tool_use_block (Some ''tu'') (Some ''query_application'') None]\<rparr>"

section \<open>Lemmas\<close>

lemma tool_loop_Suc_cases:
  "tool_loop api repr c tools system n i (Suc k) msgs = (res, rqs) \<Longrightarrow>
   \<exists>rqs'. rqs = send_request c (snd (last msgs)) system (Some tools) None # rqs'
     \<and> (api i (send_request c (snd (last msgs)) system (Some tools) None) = None \<and> res = Inl Http_status_error \<and> rqs' = []
      \<or> (\<exists>r. api i (send_request c (snd (last msgs)) system (Some tools) None) = Some r
           \<and> stop_reason r \<noteq> Some ''tool_use'' \<and> res = Inr r \<and> rqs' = [])
      \<or> (\<exists>r. api i (send_request c (snd (last msgs)) system (Some tools) None) = Some r
           \<and> stop_reason r = Some ''tool_use''
           \<and> tool_loop api repr c tools system n (Suc i) k
               (msgs @ [(''assistant'', Blocks_content (resp_content r)),
                        (''user'', Results_content (tool_results repr (resp_content r)))]) = (res, rqs')))"
  by (auto simp: Let_def split: option.splits if_splits prod.splits)

lemma tool_loop_outcome:
  "tool_loop api repr c tools system n i k msgs = (res, rqs) \<Longrightarrow>
   length rqs \<le> k
   \<and> (\<forall>j. Suc j < length rqs \<longrightarrow> (\<exists>r. api (i + j) (rqs ! j) = Some r \<and> stop_reason r = Some ''tool_use''))
   \<and> (case res of
        Inr r \<Rightarrow> rqs \<noteq> [] \<and> api (i + length rqs - 1) (last rqs) = Some r \<and> stop_reason r \<noteq> Some ''tool_use''
      | Inl Http_status_error \<Rightarrow> rqs \<noteq> [] \<and> api (i + length rqs - 1) (last rqs) = None
      | Inl (Runtime_error m) \<Rightarrow> m = n \<and> length rqs = k
          \<and> (rqs \<noteq> [] \<longrightarrow> (\<exists>r. api (i + k - 1) (last rqs) = Some r \<and> stop_reason r = Some ''tool_use'')))"
proof (induction k arbitrary: i msgs res rqs)
  case 0
  then show ?case by auto
next
  case (Suc k)
  let ?rq = "send_request c (snd (last msgs)) system (Some tools) None"
  from tool_loop_Suc_cases [OF Suc.prems] obtain rqs' where rqs: "rqs = ?rq # rqs'"
    and cases: "api i ?rq = None \<and> res = Inl Http_status_error \<and> rqs' = []
      \<or> (\<exists>r. api i ?rq = Some r \<and> stop_reason r \<noteq> Some ''tool_use'' \<and> res = Inr r \<and> rqs' = [])
      \<or> (\<exists>r. api i ?rq = Some r \<and> stop_reason r = Some ''tool_use''
           \<and> tool_loop api repr c tools system n (Suc i) k
               (msgs @ [(''assistant'', Blocks_content (resp_content r)),
                        (''user'', Results_content (tool_results repr (resp_content r)))]) = (res, rqs'))"
    by blast
  from cases show ?case
  proof (elim disjE exE conjE)
    fix r assume r: "api i ?rq = Some r" "stop_reason r = Some ''tool_use''"
      and rec: "tool_loop api repr c tools system n (Suc i) k
               (msgs @ [(''assistant'', Blocks_content (resp_content r)),
                        (''user'', Results_content (tool_results repr (resp_content r)))]) = (res, rqs')"
    note IH = Suc.IH [OF rec]
    have steps: "\<forall>j. Suc j < length rqs \<longrightarrow> (\<exists>r. api (i + j) (rqs ! j) = Some r \<and> stop_reason r = Some ''tool_use'')"
    proof (intro allI impI)
      fix j assume "Suc j < length rqs"
      with IH r rqs show "\<exists>r. api (i + j) (rqs ! j) = Some r \<and> stop_reason r = Some ''tool_use''"
        by (cases j) auto
    qed
    show ?thesis
      using IH r rqs steps by (auto split: sum.splits client_exc.splits simp: last_ConsR)
  qed (use rqs in simp_all)
qed

lemma tool_loop_requests:
  "tool_loop api repr c tools system n i k msgs = (res, rqs) \<Longrightarrow> j < length rqs \<Longrightarrow>
   rqs ! j = send_request c (case j of 0 \<Rightarrow> snd (last msgs)
                 | Suc j' \<Rightarrow> Results_content (tool_results repr (resp_content (the (api (i + j') (rqs ! j'))))))
               system (Some tools) None"
proof (induction k arbitrary: i msgs res rqs j)
  case 0
  then show ?case by simp
next
  case (Suc k)
  let ?rq = "send_request c (snd (last msgs)) system (Some tools) None"
  from tool_loop_Suc_cases [OF Suc.prems(1)] obtain rqs' where rqs: "rqs = ?rq # rqs'"
    and cases: "api i ?rq = None \<and> res = Inl Http_status_error \<and> rqs' = []
      \<or> (\<exists>r. api i ?rq = Some r \<and> stop_reason r \<noteq> Some ''tool_use'' \<and> res = Inr r \<and> rqs' = [])
      \<or> (\<exists>r. api i ?rq = Some r \<and> stop_reason r = Some ''tool_use''
           \<and> tool_loop api repr c tools system n (Suc i) k
               (msgs @ [(''assistant'', Blocks_content (resp_content r)),
                        (''user'', Results_content (tool_results repr (resp_content r)))]) = (res, rqs'))"
    by blast
  show ?case
  proof (cases j)
    case 0
    with rqs show ?thesis by simp
  next
    case (Suc j')
    with cases Suc.prems(2) rqs obtain r where r: "api i ?rq = Some r"
      and rec: "tool_loop api repr c tools system n (Suc i) k
               (msgs @ [(''assistant'', Blocks_content (resp_content r)),
                        (''user'', Results_content (tool_results repr (resp_content r)))]) = (res, rqs')"
      by auto
    have "j' < length rqs'" using Suc.prems(2) rqs Suc by simp
    from Suc.IH [OF rec this] r rqs Suc show ?thesis by (cases j') auto
  qed
qed

lemma sse_data_roundtrip:
  "(\<forall>d\<in>set ds. d \<noteq> ''[DONE]'') \<Longrightarrow> sse_data (map (\<lambda>d. ''data: '' @ d) ds @ ''data: [DONE]'' # rest) = ds"
  by (induction ds) (simp_all add: py_strip_def py_space_def)

section \<open>Properties\<close>

text \<open>C38: the tool loop always ends, after at most max\_iterations calls of the model: it
  continues only on a tool\_use reply, and it ends with the first reply that is not
  tool\_use, with the HTTP error of a failed call, or with RuntimeError after
  max\_iterations tool\_use replies.\<close>

theorem execute_with_tools_terminates:
  assumes "execute_with_tools api repr c message tools system n = (res, rqs)"
  shows "length rqs \<le> n
   \<and> (\<forall>j. Suc j < length rqs \<longrightarrow> (\<exists>r. api j (rqs ! j) = Some r \<and> stop_reason r = Some ''tool_use''))
   \<and> (case res of
        Inr r \<Rightarrow> rqs \<noteq> [] \<and> api (length rqs - 1) (last rqs) = Some r \<and> stop_reason r \<noteq> Some ''tool_use''
      | Inl Http_status_error \<Rightarrow> rqs \<noteq> [] \<and> api (length rqs - 1) (last rqs) = None
      | Inl (Runtime_error m) \<Rightarrow> m = n \<and> length rqs = n
          \<and> (rqs \<noteq> [] \<longrightarrow> (\<exists>r. api (n - 1) (last rqs) = Some r \<and> stop_reason r = Some ''tool_use'')))"
  using tool_loop_outcome [OF assms [unfolded execute_with_tools_def]]
  by (simp split: sum.splits client_exc.splits)

theorem execute_with_tools_terminates_witness:
  "fst (execute_with_tools tool_use_api (\<lambda>v. ''{}'') demo_client ''hi'' [] None 5) = Inl (Runtime_error 5)
   \<and> length (snd (execute_with_tools tool_use_api (\<lambda>v. ''{}'') demo_client ''hi'' [] None 5)) = 5"
proof -
  have f: "fst (execute_with_tools tool_use_api (\<lambda>v. ''{}'') demo_client ''hi'' [] None 5) = Inl (Runtime_error 5)"
    by (simp add: execute_with_tools_def tool_use_api_def numeral_eq_Suc split: prod.splits)
  from execute_with_tools_terminates [of tool_use_api "\<lambda>v. ''{}''" demo_client "''hi''" "[]" None 5
      "fst (execute_with_tools tool_use_api (\<lambda>v. ''{}'') demo_client ''hi'' [] None 5)"
      "snd (execute_with_tools tool_use_api (\<lambda>v. ''{}'') demo_client ''hi'' [] None 5)", OF surjective_pairing] f
  show ?thesis by simp
qed

text \<open>C39: every request of the tool loop carries a single user message: the first
  carries the user's message, each later one only the tool results of the previous
  reply, so neither the user's message nor the assistant's tool\_use blocks reach the
  model again (the specification sends the accumulated message list).\<close>

theorem execute_with_tools_sends_last_message_only:
  assumes "execute_with_tools api repr c message tools system n = (res, rqs)" "j < length rqs"
  shows "req_messages (rqs ! j) = [(''user'', case j of 0 \<Rightarrow> Str_content message
            | Suc j' \<Rightarrow> Results_content (tool_results repr (resp_content (the (api j' (rqs ! j'))))))]"
  using tool_loop_requests [OF assms(1) [unfolded execute_with_tools_def] assms(2)]
  by (cases j) (simp_all add: send_request_def)

theorem execute_with_tools_sends_last_message_only_witness:
  "length (snd (execute_with_tools demo_api (\<lambda>v. ''{}'') demo_client ''Is app1 complete?'' [] None 5)) = 2
   \<and> req_messages (snd (execute_with_tools demo_api (\<lambda>v. ''{}'') demo_client ''Is app1 complete?'' [] None 5) ! 1)
     = [(''user'', Results_content [\<lparr>tr_id = Some ''tu1'',
          tr_content = ''Tool query_application executed with input: {}''\<rparr>])]"
proof -
  have l: "length (snd (execute_with_tools demo_api (\<lambda>v. ''{}'') demo_client ''Is app1 complete?'' [] None 5)) = 2"
    by (simp add: execute_with_tools_def demo_api_def numeral_eq_Suc split: prod.splits)
  from execute_with_tools_sends_last_message_only [of demo_api "\<lambda>v. ''{}''" demo_client "''Is app1 complete?''" "[]" None 5
      "fst (execute_with_tools demo_api (\<lambda>v. ''{}'') demo_client ''Is app1 complete?'' [] None 5)"
      "snd (execute_with_tools demo_api (\<lambda>v. ''{}'') demo_client ''Is app1 complete?'' [] None 5)" 1,
      OF surjective_pairing] l
  show ?thesis by (simp add: demo_api_def execute_tool_placeholder_def)
qed

end
