(* ===== verification/Chat.thy ===== *)
theory Chat
  imports Orchestrator
begin

text \<open>
  Chat sessions and their messages: the session and message operations of
  \<open>database/connection.py\<close> (class \<open>DatabaseClient\<close>), the session title helpers of
  \<open>utils/title_generator.py\<close>, the session endpoints of \<open>routers/sessions.py\<close> and
  the chat endpoint of \<open>routers/chat.py\<close>, which composes them with the model client.
  The tables \<open>agfin_ai_bot_sessions\<close> and \<open>agfin_ai_bot_messages\<close> are one record
  \<open>chat_db\<close>; \<open>now()\<close> is the clock \<open>db_clock\<close>, which every write statement
  advances (each statement commits on its own, so each one runs at a later time), and
  message ids are the counter \<open>next_msg_id\<close>. Rows with equal sort keys come in
  storage order. The system prompt builder is the parameter \<open>prompt\<close>. Both routers
  declare the messages route; the one \<open>main.py\<close> includes first serves it.
\<close>

section \<open>Store\<close>

record session_row =
  s_user :: string
  s_app :: "string option"
  s_title :: string
  s_mode :: "string option"
  s_created :: nat
  s_updated :: nat

record chat_msg =
  cm_id :: nat
  cm_session :: string
  cm_role :: string
  cm_content :: string
  cm_created :: nat

record chat_db =
  chat_sessions :: "(string \<times> session_row) list"
  chat_msgs :: "chat_msg list"
  db_clock :: nat
  next_msg_id :: nat

section \<open>Database client\<close>

definition get_session :: "chat_db \<Rightarrow> string \<Rightarrow> session_row option" where
  "get_session db sid = map_of (chat_sessions db) sid"

text \<open>\<open>ORDER BY created_at ASC LIMIT $2\<close>: the oldest \<open>limit\<close> messages.\<close>

definition get_session_messages :: "chat_db \<Rightarrow> string \<Rightarrow> nat \<Rightarrow> chat_msg list" where
  "get_session_messages db sid limit =
     take limit (sort_key cm_created (filter (\<lambda>m. cm_session m = sid) (chat_msgs db)))"

definition save_message :: "string \<Rightarrow> string \<Rightarrow> string \<Rightarrow> chat_db \<Rightarrow> nat \<times> chat_db" where
  "save_message sid role content db =
     (next_msg_id db,
      db\<lparr>chat_msgs := chat_msgs db @ [\<lparr>cm_id = next_msg_id db, cm_session = sid, cm_role = role,
                                        cm_content = content, cm_created = db_clock db\<rparr>],
         db_clock := Suc (db_clock db), next_msg_id := Suc (next_msg_id db)\<rparr>)"

definition create_session ::
  "string \<Rightarrow> string \<Rightarrow> string \<Rightarrow> string option \<Rightarrow> string option \<Rightarrow> chat_db \<Rightarrow> string \<times> chat_db" where
  "create_session sid user_id title application_id workflow_mode db =
     (sid, db\<lparr>chat_sessions := chat_sessions db @ [(sid, \<lparr>s_user = user_id, s_app = application_id,
                 s_title = title, s_mode = workflow_mode, s_created = db_clock db, s_updated = db_clock db\<rparr>)],
              db_clock := Suc (db_clock db)\<rparr>)"

definition update_message :: "nat \<Rightarrow> string \<Rightarrow> chat_db \<Rightarrow> bool \<times> chat_db" where
  "update_message mid content db =
     (if \<exists>m\<in>set (chat_msgs db). cm_id m = mid
      then (True, db\<lparr>chat_msgs := map (\<lambda>m. if cm_id m = mid then m\<lparr>cm_content := content\<rparr> else m) (chat_msgs db),
                     db_clock := Suc (db_clock db)\<rparr>)
      else (False, db))"

text \<open>\<open>delete_messages_after\<close>: the timestamp of the message in the session, then the
  deletion of the session's later messages.\<close>

definition delete_messages_after :: "string \<Rightarrow> nat \<Rightarrow> chat_db \<Rightarrow> nat \<times> chat_db" where
  "delete_messages_after sid mid db =
     (case find (\<lambda>m. cm_id m = mid \<and> cm_session m = sid) (chat_msgs db) of
        None \<Rightarrow> (0, db)
      | Some m \<Rightarrow>
          (length (filter (\<lambda>x. cm_session x = sid \<and> cm_created m < cm_created x) (chat_msgs db)),
           db\<lparr>chat_msgs := filter (\<lambda>x. \<not> (cm_session x = sid \<and> cm_created m < cm_created x)) (chat_msgs db),
              db_clock := Suc (db_clock db)\<rparr>))"

section \<open>Titles\<close>

text \<open>Python's \<open>str.split()\<close> (runs of whitespace separate, empty words dropped) and
  \<open>str.rfind\<close> of one character (\<open>-1\<close> when absent).\<close>

fun split_ws :: "string \<Rightarrow> string \<Rightarrow> string list" where
  "split_ws w [] = [w]"
| "split_ws w (c # cs) = (if py_space c then w # split_ws [] cs else split_ws (w @ [c]) cs)"

definition py_split :: "string \<Rightarrow> string list" where
  "py_split s = filter (\<lambda>w. w \<noteq> []) (split_ws [] s)"

fun rfind_from :: "char \<Rightarrow> string \<Rightarrow> nat \<Rightarrow> int \<Rightarrow> int" where
  "rfind_from c [] i r = r"
| "rfind_from c (x # xs) i r = rfind_from c xs (Suc i) (if x = c then int i else r)"

definition py_rfind :: "char \<Rightarrow> string \<Rightarrow> int" where
  "py_rfind c s = rfind_from c s 0 (-1)"

definition DEFAULT_TITLE :: string where
  "DEFAULT_TITLE = ''New Conversation''"

text \<open>\<open>create_fallback_title\<close> with its default \<open>max_length = 50\<close>, the only one its
  caller uses: the whitespace-normalised message, or its first 47 characters cut back
  to the last space when that space is past position 25, followed by \<open>...\<close>.\<close>

definition create_fallback_title :: "string \<Rightarrow> string" where
  "create_fallback_title user_message =
     (let clean = py_join '' '' (py_split user_message) in
      if length clean \<le> 50 then clean
      else
        (let truncated = take 47 clean;
             last_space = py_rfind CHR '' '' truncated in
         (if last_space > 25 then take (nat last_space) truncated else truncated) @ ''...''))"

text \<open>\<open>s.strip(chars)\<close>.\<close>

definition py_strip_chars :: "char list \<Rightarrow> string \<Rightarrow> string" where
  "py_strip_chars cs s = rev (dropWhile (\<lambda>c. c \<in> set cs) (rev (dropWhile (\<lambda>c. c \<in> set cs) s)))"

text \<open>The concatenated text blocks of a reply.\<close>

fun text_of :: "block list \<Rightarrow> string" where
  "text_of [] = []"
| "text_of (Text_block t # bs) = t @ text_of bs"
| "text_of (Tool_use_block i n v # bs) = text_of bs"
| "text_of (Other_block ty # bs) = text_of bs"

text \<open>\<open>TITLE_PROMPT.format(...)\<close> with both inputs cut to 500 characters.\<close>

definition title_prompt :: "string \<Rightarrow> string \<Rightarrow> string" where
  "title_prompt user_message assistant_response =
     ''Generate a brief, descriptive title (5-8 words max) for this conversation based on the first exchange.''
     @ nl @ ''The title should:'' @ nl @ ''- Capture the main topic or intent''
     @ nl @ ''- Include relevant names, entities, or specifics if mentioned''
     @ nl @ ''- Be concise and scannable for a sidebar list'' @ nl @ ''- NOT include quotes around the title''
     @ nl @ ''- NOT start with \"Title:\" or similar prefixes'' @ nl @ nl @ ''Examples of good titles:''
     @ nl @ ''- \"John Smith Farm Loan Application\"'' @ nl @ ''- \"Corn Yield Documentation Review\"''
     @ nl @ ''- \"Missing Tax Records Follow-up\"'' @ nl @ ''- \"2024 Operating Budget Questions\"''
     @ nl @ nl @ ''USER MESSAGE:'' @ nl @ take 500 user_message @ nl @ nl @ ''ASSISTANT RESPONSE:''
     @ nl @ take 500 assistant_response @ nl @ nl @ ''Generate only the title, nothing else:''"

text \<open>\<open>generate_session_title\<close> (default \<open>max_length = 50\<close>): one call of the model
  with \<open>max_tokens=50\<close>; an HTTP error is re-raised (the value \<open>None\<close>).\<close>

definition generate_session_title ::
  "(nat \<Rightarrow> api_request \<Rightarrow> response option) \<Rightarrow> claude_client \<Rightarrow> string \<Rightarrow> string \<Rightarrow> string option" where
  "generate_session_title api c user_message assistant_response =
     (case api 0 (send_request c (Str_content (title_prompt user_message assistant_response))
                    (Some ''You are a title generator. Output only the title, nothing else.'') None (Some 50)) of
        None \<Rightarrow> None
      | Some r \<Rightarrow>
          (let t = py_strip_chars (''\"'' @ [CHR 0x27]) (py_strip (text_of (resp_content r)));
               t' = (if length t > 50 then take 47 t @ ''...'' else t) in
           Some (if t' = [] then DEFAULT_TITLE else t')))"

section \<open>Session endpoints\<close>

text \<open>The HTTP errors the endpoints answer: not found, a request the validation of
  FastAPI refuses, and an internal error.\<close>

datatype http_status = Http_404 | Http_422 | Http_500

text \<open>\<open>GET /sessions\<close>: the user's sessions, most recently updated first, with the
  offset and limit applied, and their total count.\<close>

definition list_sessions ::
  "string \<Rightarrow> int \<Rightarrow> int \<Rightarrow> chat_db \<Rightarrow> http_status + (string \<times> session_row) list \<times> nat" where
  "list_sessions user_id limit offset db =
     (if limit < 1 \<or> 100 < limit \<or> offset < 0 then Inl Http_422
      else
        (let rows = filter (\<lambda>(i, r). s_user r = user_id) (chat_sessions db) in
         Inr (take (nat limit) (drop (nat offset) (sort_key (\<lambda>(i, r). - int (s_updated r)) rows)), length rows)))"

text \<open>\<open>POST /sessions\<close>, with \<open>sid\<close> the fresh id the database generates.\<close>

definition create_session_endpoint ::
  "string \<Rightarrow> string \<Rightarrow> string \<Rightarrow> string option \<Rightarrow> string option \<Rightarrow> chat_db \<Rightarrow>
   (http_status + string \<times> session_row) \<times> chat_db" where
  "create_session_endpoint sid user_id title application_id workflow_mode db =
     (let (s, db') = create_session sid user_id title application_id workflow_mode db in
      case get_session db' s of None \<Rightarrow> (Inl Http_500, db') | Some r \<Rightarrow> (Inr (s, r), db'))"

definition get_session_endpoint :: "string \<Rightarrow> chat_db \<Rightarrow> http_status + session_row" where
  "get_session_endpoint sid db = (case get_session db sid of None \<Rightarrow> Inl Http_404 | Some r \<Rightarrow> Inr r)"






text \<open>\<open>PATCH /sessions/{id}\<close>: the given fields and \<open>updated_at\<close>; without a field the
  session is returned as it is.\<close>

definition update_session ::
  "string \<Rightarrow> string option \<Rightarrow> string option \<Rightarrow> chat_db \<Rightarrow> (http_status + session_row) \<times> chat_db" where
  "update_session sid title workflow_mode db =
     (case get_session db sid of
        None \<Rightarrow> (Inl Http_404, db)
      | Some r \<Rightarrow>
          if title = None \<and> workflow_mode = None then (Inr r, db)
          else
            (let r' = r\<lparr>s_title := (case title of Some t \<Rightarrow> t | None \<Rightarrow> s_title r),
                        s_mode := (case workflow_mode of Some w \<Rightarrow> Some w | None \<Rightarrow> s_mode r),
                        s_updated := db_clock db\<rparr> in
             (Inr r', db\<lparr>chat_sessions := AList.update sid r' (chat_sessions db),
                         db_clock := Suc (db_clock db)\<rparr>)))"

text \<open>\<open>POST /sessions/{id}/generate-title\<close>: a session whose title is not the default
  keeps it; otherwise the generated title, or the fallback when generation raises, is
  written. The flag tells whether the title was generated.\<close>

definition generate_and_apply_title ::
  "(nat \<Rightarrow> api_request \<Rightarrow> response option) \<Rightarrow> claude_client \<Rightarrow> string \<Rightarrow> string \<Rightarrow> string \<Rightarrow> chat_db \<Rightarrow>
   (http_status + string \<times> bool) \<times> chat_db" where
  "generate_and_apply_title api c sid user_message assistant_response db =
     (if user_message = [] \<or> assistant_response = [] then (Inl Http_422, db)
      else case get_session db sid of
        None \<Rightarrow> (Inl Http_404, db)
      | Some r \<Rightarrow>
          if s_title r \<noteq> DEFAULT_TITLE then (Inr (s_title r, False), db)
          else
            (let (title, generated) =
                   (case generate_session_title api c user_message assistant_response of
                      Some t \<Rightarrow> (t, True)
                    | None \<Rightarrow> (create_fallback_title user_message, False)) in
             (Inr (title, generated),
              db\<lparr>chat_sessions := AList.update sid (r\<lparr>s_title := title, s_updated := db_clock db\<rparr>) (chat_sessions db),
                 db_clock := Suc (db_clock db)\<rparr>)))"

text \<open>\<open>DELETE /sessions/{id}\<close>: the session and, by the cascade, its messages.\<close>

definition delete_session :: "string \<Rightarrow> chat_db \<Rightarrow> http_status option \<times> chat_db" where
  "delete_session sid db =
     (case get_session db sid of
        None \<Rightarrow> (Some Http_404, db)
      | Some r \<Rightarrow> (None, db\<lparr>chat_sessions := AList.delete sid (chat_sessions db),
                            chat_msgs := filter (\<lambda>m. cm_session m \<noteq> sid) (chat_msgs db),
                            db_clock := Suc (db_clock db)\<rparr>))"

section \<open>Chat endpoint\<close>

record chat_response =
  cr_message :: string
  cr_session :: string
  cr_user_message_id :: nat
  cr_assistant_message_id :: nat
  cr_tool_calls :: "(string option \<times> jval option \<times> string option) list option"

text \<open>The tool calls the endpoint reports: name, input and id of each \<open>tool_use\<close>
  block of the final reply.\<close>

fun tool_calls_of :: "block list \<Rightarrow> (string option \<times> jval option \<times> string option) list" where
  "tool_calls_of [] = []"
| "tool_calls_of (Tool_use_block bid name input # bs) = (name, input, bid) # tool_calls_of bs"
| "tool_calls_of (Text_block t # bs) = tool_calls_of bs"
| "tool_calls_of (Other_block ty # bs) = tool_calls_of bs"

text \<open>\<open>str.upper()\<close> on ASCII letters (the roles are \<open>user\<close> and \<open>assistant\<close>).\<close>

definition py_upper :: "string \<Rightarrow> string" where
  "py_upper s = map (\<lambda>c. if CHR ''a'' \<le> c \<and> c \<le> CHR ''z'' then char_of (of_char c - 32 :: nat) else c) s"

definition conversation_context :: "(string \<times> string) list \<Rightarrow> string" where
  "conversation_context ms = py_join (nl @ nl) (map (\<lambda>(r, t). py_upper r @ '': '' @ t) ms)"

text \<open>The model's part of \<open>chat\<close>: with tools, the tool loop on the conversation
  written out as one text; without, one call with the new message alone. \<open>None\<close> is an
  exception (answered with status 500).\<close>

definition chat_reply ::
  "(nat \<Rightarrow> api_request \<Rightarrow> response option) \<Rightarrow> (jval \<Rightarrow> string) \<Rightarrow> claude_client \<Rightarrow> string \<Rightarrow>
   (string \<times> string) list \<Rightarrow> string \<Rightarrow> jval list option \<Rightarrow>
   (string \<times> (string option \<times> jval option \<times> string option) list option) option" where
  "chat_reply api repr c system_prompt messages message tools =
     (if tools \<noteq> None \<and> tools \<noteq> Some [] then
        (case fst (execute_with_tools api repr c (conversation_context messages) (the tools) (Some system_prompt) 5) of
           Inl e \<Rightarrow> None
         | Inr r \<Rightarrow>
             (let t = text_of (resp_content r) in
              Some (if t = [] then ''I processed your request with the available tools.'' else t,
                    Some (tool_calls_of (resp_content r)))))
      else
        (case api 0 (send_request c (Str_content message) (Some system_prompt) None None) of
           None \<Rightarrow> None
         | Some r \<Rightarrow>
             (let t = text_of (resp_content r) in
              Some (if t = [] then ''I'm sorry, I didn't generate a response. Please try again.'' else t, None))))"

text \<open>\<open>POST /chat\<close>: the session, its first fifty messages, the system prompt from
  the session's mode and application, the model's reply, then the user message and the
  reply saved in that order.\<close>

definition chat ::
  "(nat \<Rightarrow> api_request \<Rightarrow> response option) \<Rightarrow> (jval \<Rightarrow> string) \<Rightarrow> claude_client \<Rightarrow>
   (string option \<Rightarrow> string option \<Rightarrow> jval list option \<Rightarrow> string) \<Rightarrow>
   string \<Rightarrow> string \<Rightarrow> jval list option \<Rightarrow> chat_db \<Rightarrow> (http_status + chat_response) \<times> chat_db" where
  "chat api repr c prompt message session_id tools db =
     (if message = [] then (Inl Http_422, db)
      else case get_session db session_id of
        None \<Rightarrow> (Inl Http_404, db)
      | Some s \<Rightarrow>
          (let history = get_session_messages db session_id 50;
               system_prompt = prompt (s_mode s) (s_app s) tools;
               messages = map (\<lambda>m. (cm_role m, cm_content m)) history @ [(''user'', message)] in
           case chat_reply api repr c system_prompt messages message tools of
             None \<Rightarrow> (Inl Http_500, db)
           | Some (reply, calls) \<Rightarrow>
               (let (uid, db1) = save_message session_id ''user'' message db;
                    (aid, db2) = save_message session_id ''assistant'' reply db1 in
                (Inr \<lparr>cr_message = reply, cr_session = session_id, cr_user_message_id = uid,
                      cr_assistant_message_id = aid, cr_tool_calls = calls\<rparr>, db2))))"

section \<open>Store invariant\<close>

text \<open>Messages are stored in strictly increasing creation time, every timestamp and
  id is below the clock and the id counter, message ids are unique and so are session
  ids.\<close>

definition chat_db_inv :: "chat_db \<Rightarrow> bool" where
  "chat_db_inv db \<longleftrightarrow>
     sorted_wrt (<) (map cm_created (chat_msgs db))
   \<and> (\<forall>m\<in>set (chat_msgs db). cm_created m < db_clock db \<and> cm_id m < next_msg_id db)
   \<and> distinct (map cm_id (chat_msgs db))
   \<and> distinct (map fst (chat_sessions db))"

section \<open>Sample data\<close>

definition demo_chat_db :: chat_db where
  "demo_chat_db =
     \<lparr>chat_sessions = [(''s1'', \<lparr>s_user = ''u1'', s_app = Some ''app1'', s_title = DEFAULT_TITLE,
                                s_mode = None, s_created = 0, s_updated = 0\<rparr>)],
      chat_msgs = [], db_clock = 1, next_msg_id = 0\<rparr>"

section \<open>Lemmas\<close>

lemma save_message_inv [inv_intros]:
  "chat_db_inv db \<Longrightarrow> chat_db_inv (snd (save_message sid role content db))"
  by (auto simp: chat_db_inv_def save_message_def sorted_wrt_append)

lemma save_message_msgs:
  "chat_msgs (snd (save_message sid role content db)) = chat_msgs db @
     [\<lparr>cm_id = next_msg_id db, cm_session = sid, cm_role = role, cm_content = content, cm_created = db_clock db\<rparr>]"
  "chat_sessions (snd (save_message sid role content db)) = chat_sessions db"
  "db_clock (snd (save_message sid role content db)) = Suc (db_clock db)"
  "next_msg_id (snd (save_message sid role content db)) = Suc (next_msg_id db)"
  "fst (save_message sid role content db) = next_msg_id db"
  by (simp_all add: save_message_def)

lemma rfind_from_bound: "r < int (i + length s) \<Longrightarrow> rfind_from c s i r < int (i + length s)"
proof (induction s arbitrary: i r)
  case (Cons x xs)
  have "(if x = c then int i else r) < int (Suc i + length xs)" using Cons.prems by simp
  from Cons.IH [OF this] show ?case by simp
qed simp

lemma create_fallback_title_length: "length (create_fallback_title m) \<le> 50"
proof -
  have "py_rfind CHR '' '' (take 47 xs) \<le> int (length (take 47 xs))" for xs
    using rfind_from_bound [of "-1" 0 "take 47 xs" "CHR '' ''"] by (simp add: py_rfind_def)
  then show ?thesis by (auto simp: create_fallback_title_def Let_def)
qed

lemma generate_session_title_length:
  "generate_session_title api c u a = Some t \<Longrightarrow> length t \<le> 50"
  by (auto simp: generate_session_title_def DEFAULT_TITLE_def Let_def split: option.splits if_splits)

lemma chat_cases:
  assumes "chat api repr c prompt message sid tools db = (res, db')"
  shows "(db' = db \<and> (\<exists>e. res = Inl e))
    \<or> (\<exists>s reply calls. message \<noteq> [] \<and> get_session db sid = Some s
         \<and> chat_reply api repr c (prompt (s_mode s) (s_app s) tools)
              (map (\<lambda>m. (cm_role m, cm_content m)) (get_session_messages db sid 50) @ [(''user'', message)])
              message tools = Some (reply, calls)
         \<and> res = Inr \<lparr>cr_message = reply, cr_session = sid, cr_user_message_id = next_msg_id db,
                      cr_assistant_message_id = Suc (next_msg_id db), cr_tool_calls = calls\<rparr>
         \<and> db' = snd (save_message sid ''assistant'' reply (snd (save_message sid ''user'' message db))))"
  using assms by (auto simp: chat_def Let_def save_message_def split: option.splits if_splits prod.splits)

lemma chat_inv [inv_intros]:
  "chat_db_inv db \<Longrightarrow> chat api repr c prompt message sid tools db = (res, db') \<Longrightarrow> chat_db_inv db'"
  by (auto simp: chat_def Let_def case_prod_unfold save_message_inv split: if_splits option.splits)

text \<open>A reply of the chat endpoint is the model's answer for the session.\<close>

lemma chat_reply_Inr:
  assumes "chat api repr c prompt message sid tools db = (Inr r, db')"
  shows "\<exists>s. get_session db sid = Some s
    \<and> chat_reply api repr c (prompt (s_mode s) (s_app s) tools)
         (map (\<lambda>m. (cm_role m, cm_content m)) (get_session_messages db sid 50) @ [(''user'', message)])
         message tools = Some (cr_message r, cr_tool_calls r)"
proof -
  from assms obtain s where s: "get_session db sid = Some s" and m: "message \<noteq> []"
    by (cases "get_session db sid") (auto simp: chat_def split: if_splits)
  show ?thesis
  proof (cases "chat_reply api repr c (prompt (s_mode s) (s_app s) tools)
      (map (\<lambda>m. (cm_role m, cm_content m)) (get_session_messages db sid 50) @ [(''user'', message)]) message tools")
    case None
    with assms s m show ?thesis by (simp add: chat_def Let_def)
  next
    case (Some rc)
    with assms s m show ?thesis by (cases rc) (auto simp: chat_def Let_def case_prod_unfold)
  qed
qed




section \<open>Properties\<close>

text \<open>C24: the history the chat and stream endpoints load is the oldest messages of
  the session: under the store invariant, \<open>get_session_messages(sid, n)\<close> returns the
  first \<open>n\<close> messages of the session in creation order, so once a session has more
  than fifty messages the newest ones are never loaded.\<close>

theorem get_session_messages_oldest:
  assumes "chat_db_inv db"
  shows "get_session_messages db sid n = take n (filter (\<lambda>m. cm_session m = sid) (chat_msgs db))"
proof -
  have "sorted (map cm_created (chat_msgs db))"
    using assms by (simp add: chat_db_inv_def strict_sorted_iff)
  then have "sorted (map cm_created (filter (\<lambda>m. cm_session m = sid) (chat_msgs db)))"
    by (rule sorted_filter)
  then show ?thesis by (simp add: get_session_messages_def sort_key_id_if_sorted)
qed

theorem get_session_messages_oldest_witness:
  "chat_db_inv (demo_chat_db\<lparr>chat_msgs := [\<lparr>cm_id = 0, cm_session = ''s1'', cm_role = ''user'', cm_content = ''first'', cm_created = 1\<rparr>,
                                        \<lparr>cm_id = 1, cm_session = ''s1'', cm_role = ''user'', cm_content = ''second'', cm_created = 2\<rparr>],
                            db_clock := 3, next_msg_id := 2\<rparr>)
   \<and> get_session_messages (demo_chat_db\<lparr>chat_msgs := [\<lparr>cm_id = 0, cm_session = ''s1'', cm_role = ''user'', cm_content = ''first'', cm_created = 1\<rparr>,
                                        \<lparr>cm_id = 1, cm_session = ''s1'', cm_role = ''user'', cm_content = ''second'', cm_created = 2\<rparr>],
                            db_clock := 3, next_msg_id := 2\<rparr>) ''s1'' 1
     = [\<lparr>cm_id = 0, cm_session = ''s1'', cm_role = ''user'', cm_content = ''first'', cm_created = 1\<rparr>]"
proof -
  have inv: "chat_db_inv (demo_chat_db\<lparr>chat_msgs := [\<lparr>cm_id = 0, cm_session = ''s1'', cm_role = ''user'', cm_content = ''first'', cm_created = 1\<rparr>,
                                        \<lparr>cm_id = 1, cm_session = ''s1'', cm_role = ''user'', cm_content = ''second'', cm_created = 2\<rparr>],
                            db_clock := 3, next_msg_id := 2\<rparr>)"
    by (simp add: chat_db_inv_def demo_chat_db_def)
  from get_session_messages_oldest [OF inv, of "''s1''" 1] inv show ?thesis by simp
qed

text \<open>C40: the chat endpoint persists the exchange once, after the model has answered:
  a reply appends exactly the user message and then the reply to the session, with
  the ids it reports and consecutive timestamps, and touches no session; every error,
  the model's included, leaves the store unchanged.\<close>

theorem chat_persists_exchange:
  assumes "chat api repr c prompt message sid tools db = (res, db')"
  shows "case res of
      Inr r \<Rightarrow> cr_session r = sid \<and> chat_sessions db' = chat_sessions db
        \<and> chat_msgs db' = chat_msgs db @
            [\<lparr>cm_id = cr_user_message_id r, cm_session = sid, cm_role = ''user'', cm_content = message,
              cm_created = db_clock db\<rparr>,
             \<lparr>cm_id = cr_assistant_message_id r, cm_session = sid, cm_role = ''assistant'',
              cm_content = cr_message r, cm_created = Suc (db_clock db)\<rparr>]
    | Inl e \<Rightarrow> db' = db"
  using chat_cases [OF assms] by (auto simp: save_message_msgs)

theorem chat_persists_exchange_witness:
  "fst (chat demo_api (\<lambda>v. ''{}'') demo_client (\<lambda>w a t. ''You help farmers.'') ''Hello'' ''s1'' None demo_chat_db)
     = Inr \<lparr>cr_message = ''Checking.'', cr_session = ''s1'', cr_user_message_id = 0, cr_assistant_message_id = 1,
          cr_tool_calls = None\<rparr>
   \<and> chat_msgs (snd (chat demo_api (\<lambda>v. ''{}'') demo_client (\<lambda>w a t. ''You help farmers.'') ''Hello'' ''s1'' None demo_chat_db))
     = [\<lparr>cm_id = 0, cm_session = ''s1'', cm_role = ''user'', cm_content = ''Hello'', cm_created = 1\<rparr>,
        \<lparr>cm_id = 1, cm_session = ''s1'', cm_role = ''assistant'', cm_content = ''Checking.'', cm_created = 2\<rparr>]"
proof -
  have f: "fst (chat demo_api (\<lambda>v. ''{}'') demo_client (\<lambda>w a t. ''You help farmers.'') ''Hello'' ''s1'' None demo_chat_db)
     = Inr \<lparr>cr_message = ''Checking.'', cr_session = ''s1'', cr_user_message_id = 0, cr_assistant_message_id = 1,
          cr_tool_calls = None\<rparr>"
    by (simp add: chat_def chat_reply_def demo_api_def demo_chat_db_def get_session_def save_message_def
          get_session_messages_def split: prod.splits)
  from chat_persists_exchange [of demo_api "\<lambda>v. ''{}''" demo_client "\<lambda>w a t. ''You help farmers.''" "''Hello''"
      "''s1''" None demo_chat_db, OF surjective_pairing] f show ?thesis
    by (simp add: demo_chat_db_def)
qed

end
