(* ===== verification/Stream.thy ===== *)
theory Stream
  imports Chat
begin

text \<open>
  The streaming chat endpoint (\<open>routers/stream.py\<close>): \<open>stream_chat\<close> checks the
  request and the session and loads the history; the generator \<open>generate_stream\<close>
  streams one model call, forwards its events, accumulates the text and the tool
  calls, then saves the exchange and ends with a \<open>complete\<close> event, or ends with one
  \<open>error\<close> event when anything raises. The streamed HTTP response is the parameter
  \<open>stream\<close>: the lines it delivers and whether reading raises after them.
  \<open>json.loads\<close> is the parameter \<open>parse\<close> (\<open>None\<close> for a \<open>JSONDecodeError\<close>);
  an event is its name and its data, written out by \<open>json.dumps\<close> in
  \<open>event: name\ndata: ...\n\n\<close>; an error event carries the exception.
\<close>

section \<open>Events\<close>

datatype stream_exc = Attribute_error | Type_error | Http_stream_error

datatype sse_event = Sse_event string jval | Sse_error stream_exc

datatype stream_outcome = Stream_ends "string list" | Stream_fails "string list"

text \<open>\<open>v.get(k, d)\<close>: a dictionary's value or the default; any other JSON value has
  no \<open>get\<close> and raises \<open>AttributeError\<close>.\<close>

fun py_get :: "jval \<Rightarrow> string \<Rightarrow> jval \<Rightarrow> stream_exc + jval" where
  "py_get (JObj kvs) k d = Inr (case map_of kvs k of Some v \<Rightarrow> v | None \<Rightarrow> d)"
| "py_get v k d = Inl Attribute_error"

definition forwarded_events :: "string list" where
  "forwarded_events = [''message_start'', ''content_block_start'', ''content_block_stop'', ''message_delta'', ''message_stop'']"

text \<open>A \<open>content_block_delta\<close> chunk: a text delta is added to the response (a
  non-string text raises \<open>TypeError\<close> there) and sent as a \<open>token\<close> event.\<close>

definition delta_events :: "jval \<Rightarrow> stream_exc + sse_event list \<times> string" where
  "delta_events chunk =
     (case py_get chunk ''delta'' (JObj []) of
        Inl e \<Rightarrow> Inl e
      | Inr delta \<Rightarrow>
          (case py_get delta ''type'' JNull of
             Inl e \<Rightarrow> Inl e
           | Inr dt \<Rightarrow>
               if dt = JStr ''text_delta'' then
                 (case py_get delta ''text'' (JStr []) of
                    Inl e \<Rightarrow> Inl e
                  | Inr (JStr t) \<Rightarrow> Inr ([Sse_event ''token'' (JObj [(''text'', JStr t)])], t)
                  | Inr v \<Rightarrow> Inl Type_error)
               else Inr ([], [])))"

text \<open>The loop over a chunk's \<open>content\<close> list: each \<open>tool_use\<close> block is counted
  and forwarded; a block without \<open>get\<close> raises after the events before it.\<close>

fun block_events :: "jval list \<Rightarrow> sse_event list \<times> stream_exc option \<times> nat" where
  "block_events [] = ([], None, 0)"
| "block_events (b # bs) =
     (case py_get b ''type'' JNull of
        Inl e \<Rightarrow> ([], Some e, 0)
      | Inr ty \<Rightarrow>
          if ty = JStr ''tool_use'' then
            (let (evs, err, k) = block_events bs in (Sse_event ''tool_use'' b # evs, err, Suc k))
          else block_events bs)"

text \<open>The events a chunk's \<open>type\<close> yields, with the text it adds.\<close>

definition type_events :: "jval \<Rightarrow> jval \<Rightarrow> stream_exc + sse_event list \<times> string" where
  "type_events chunk ty =
     (case ty of
        JStr s \<Rightarrow> if s \<in> set forwarded_events then Inr ([Sse_event s chunk], [])
                 else if s = ''content_block_delta'' then delta_events chunk
                 else Inr ([], [])
      | _ \<Rightarrow> Inr ([], []))"

text \<open>\<open>if isinstance(content, list)\<close>: the loop over the blocks.\<close>

definition content_events :: "jval \<Rightarrow> sse_event list \<times> stream_exc option \<times> nat" where
  "content_events content = (case content of JList bs \<Rightarrow> block_events bs | _ \<Rightarrow> ([], None, 0))"

text \<open>One parsed chunk: the events it yields, the exception it raises, the text it adds
  and the tool calls it counts.\<close>

definition chunk_events :: "jval \<Rightarrow> sse_event list \<times> stream_exc option \<times> string \<times> nat" where
  "chunk_events chunk =
     (case py_get chunk ''type'' JNull of
        Inl e \<Rightarrow> ([], Some e, [], 0)
      | Inr ty \<Rightarrow>
          (case type_events chunk ty of
             Inl e \<Rightarrow> ([], Some e, [], 0)
           | Inr (evs, t) \<Rightarrow>
               (case py_get chunk ''content'' (JList []) of
                  Inl e \<Rightarrow> (evs, Some e, t, 0)
                | Inr content \<Rightarrow> (let (evs2, err, k) = content_events content in (evs @ evs2, err, t, k)))))"

text \<open>The loop over the data lines: an unparsable chunk is skipped, the first
  exception ends the loop.\<close>

fun stream_chunks :: "(string \<Rightarrow> jval option) \<Rightarrow> string list \<Rightarrow> sse_event list \<times> stream_exc option \<times> string \<times> nat" where
  "stream_chunks parse [] = ([], None, [], 0)"
| "stream_chunks parse (d # ds) =
     (case parse d of
        None \<Rightarrow> stream_chunks parse ds
      | Some chunk \<Rightarrow>
          (let (evs, err, t, k) = chunk_events chunk in
           if err \<noteq> None then (evs, err, t, k)
           else (let (evs', err', t', k') = stream_chunks parse ds in (evs @ evs', err', t @ t', k + k'))))"

text \<open>Whether \<open>stream_message\<close> stops at a \<open>[DONE]\<close> line before the end of the
  lines, and so never reads on to a failure after them.\<close>

definition sse_done :: "string list \<Rightarrow> bool" where
  "sse_done ls \<longleftrightarrow> (\<exists>l\<in>set ls. py_strip l \<noteq> [] \<and> take 1 l \<noteq> '':'' \<and> take 6 l = ''data: '' \<and> drop 6 l = ''[DONE]'')"

section \<open>The endpoint\<close>

definition stream_context :: "chat_msg list \<Rightarrow> string \<Rightarrow> string" where
  "stream_context history message =
     py_join (nl @ nl) (map (\<lambda>m. py_upper (cm_role m) @ '': '' @ cm_content m) history) @ nl @ nl @ ''USER: '' @ message"

definition generate_stream ::
  "(api_request \<Rightarrow> stream_outcome) \<Rightarrow> (string \<Rightarrow> jval option) \<Rightarrow> claude_client \<Rightarrow>
   (string option \<Rightarrow> string option \<Rightarrow> jval list option \<Rightarrow> string) \<Rightarrow>
   string \<Rightarrow> string \<Rightarrow> jval list option \<Rightarrow> session_row \<Rightarrow> chat_msg list \<Rightarrow> chat_db \<Rightarrow> sse_event list \<times> chat_db" where
  "generate_stream stream parse c prompt message sid tools s history db =
     (let system_prompt = prompt (s_mode s) (s_app s) tools;
          (lines, fails) = (case stream (stream_request c (stream_context history message) (Some system_prompt) tools) of
                              Stream_ends ls \<Rightarrow> (ls, False) | Stream_fails ls \<Rightarrow> (ls, \<not> sse_done ls));
          (evs, err, full, k) = stream_chunks parse (sse_data lines) in
      case err of
        Some e \<Rightarrow> (evs @ [Sse_error e], db)
      | None \<Rightarrow>
          if fails then (evs @ [Sse_error Http_stream_error], db)
          else
            (let (uid, db1) = save_message sid ''user'' message db;
                 (aid, db2) = save_message sid ''assistant'' (if full = [] then ''(no text response)'' else full) db1 in
             (evs @ [Sse_event ''complete'' (JObj [(''user_message_id'', JStr (py_str_int (int uid))),
                       (''assistant_message_id'', JStr (py_str_int (int aid))), (''tool_calls'', JInt (int k)),
                       (''complete'', JBool True)])], db2)))"

definition stream_chat ::
  "(api_request \<Rightarrow> stream_outcome) \<Rightarrow> (string \<Rightarrow> jval option) \<Rightarrow> claude_client \<Rightarrow>
   (string option \<Rightarrow> string option \<Rightarrow> jval list option \<Rightarrow> string) \<Rightarrow>
   string \<Rightarrow> string \<Rightarrow> jval list option \<Rightarrow> chat_db \<Rightarrow> (http_status + sse_event list) \<times> chat_db" where
  "stream_chat stream parse c prompt message sid tools db =
     (if message = [] then (Inl Http_422, db)
      else case get_session db sid of
        None \<Rightarrow> (Inl Http_404, db)
      | Some s \<Rightarrow>
          (let (evs, db') = generate_stream stream parse c prompt message sid tools s (get_session_messages db sid 50) db in
           (Inr evs, db')))"

text \<open>The events that end the stream: \<open>complete\<close> and \<open>error\<close>.\<close>

fun terminal_event :: "sse_event \<Rightarrow> bool" where
  "terminal_event (Sse_error e) = True"
| "terminal_event (Sse_event n v) = (n = ''complete'')"

section \<open>Lemmas\<close>

lemma block_events_not_terminal: "e \<in> set (fst (block_events bs)) \<Longrightarrow> \<not> terminal_event e"
  by (induction bs rule: block_events.induct) (auto split: sum.splits prod.splits if_splits)

lemma type_events_not_terminal:
  "type_events chunk ty = Inr (evs, t) \<Longrightarrow> \<forall>e\<in>set evs. \<not> terminal_event e"
  by (auto simp: type_events_def delta_events_def forwarded_events_def
      split: jval.splits if_splits sum.splits)

lemma content_events_not_terminal:
  "content_events c = (evs, err, k) \<Longrightarrow> \<forall>e\<in>set evs. \<not> terminal_event e"
  using block_events_not_terminal [of _ "case c of JList bs \<Rightarrow> bs | _ \<Rightarrow> []"]
  by (cases c) (auto simp: content_events_def)

lemma chunk_events_not_terminal:
  "chunk_events chunk = (evs, err, t, k) \<Longrightarrow> \<forall>e\<in>set evs. \<not> terminal_event e"
  unfolding chunk_events_def
  by (auto split: sum.splits prod.splits; metis type_events_not_terminal content_events_not_terminal)

lemma stream_chunks_not_terminal: "\<forall>e\<in>set (fst (stream_chunks parse ds)). \<not> terminal_event e"
proof (induction ds)
  case (Cons d ds)
  show ?case
  proof (cases "parse d")
    case (Some chunk)
    obtain evs err t k where ce: "chunk_events chunk = (evs, err, t, k)" by (metis prod_cases4)
    have "\<forall>e\<in>set evs. \<not> terminal_event e" using chunk_events_not_terminal [OF ce] .
    with Cons.IH Some ce show ?thesis by (auto split: prod.splits)
  qed (use Cons.IH in simp)
qed simp

section \<open>Properties\<close>

text \<open>C28: every stream the endpoint opens ends, whatever the model sends and wherever
  reading fails: the events end with exactly one terminal event, \<open>complete\<close> or
  \<open>error\<close>, and none comes before it; the exchange is saved, user message first,
  exactly when that event is \<open>complete\<close>, and otherwise the store is unchanged.\<close>

lemma generate_stream_ends_once:
  assumes "generate_stream stream parse c prompt message sid tools s history db = (evs, db')"
  shows "\<exists>pre t. evs = pre @ [t] \<and> terminal_event t \<and> (\<forall>e\<in>set pre. \<not> terminal_event e)
    \<and> ((\<exists>e. t = Sse_error e) \<and> db' = db
       \<or> (\<exists>v reply. t = Sse_event ''complete'' v \<and> chat_msgs db' = chat_msgs db @
              [\<lparr>cm_id = next_msg_id db, cm_session = sid, cm_role = ''user'', cm_content = message,
                 cm_created = db_clock db\<rparr>,
               \<lparr>cm_id = Suc (next_msg_id db), cm_session = sid, cm_role = ''assistant'', cm_content = reply,
                 cm_created = Suc (db_clock db)\<rparr>]))"
proof -
  obtain lines fails where lf: "(case stream (stream_request c (stream_context history message)
        (Some (prompt (s_mode s) (s_app s) tools)) tools) of
          Stream_ends ls \<Rightarrow> (ls, False) | Stream_fails ls \<Rightarrow> (ls, \<not> sse_done ls)) = (lines, fails)"
    by (metis surj_pair)
  obtain evs0 err full k where sc: "stream_chunks parse (sse_data lines) = (evs0, err, full, k)"
    by (metis prod_cases4)
  have nt: "\<forall>e\<in>set evs0. \<not> terminal_event e"
    using stream_chunks_not_terminal [of parse "sse_data lines"] sc by simp
  show ?thesis
    using assms nt unfolding generate_stream_def Let_def lf
    by (auto simp: sc save_message_def split: option.splits if_splits)
qed

theorem generate_stream_ends_once_witness:
  "terminal_event (last (fst (generate_stream (\<lambda>rq. Stream_fails [''data: a''])
      (\<lambda>d. Some (JObj [(''type'', JStr ''content_block_delta''),
                       (''delta'', JObj [(''type'', JStr ''text_delta''), (''text'', JStr ''Hi'')])]))
      demo_client (\<lambda>w a t. ''sys'') ''Hello'' ''s1'' None
      \<lparr>s_user = ''u1'', s_app = None, s_title = DEFAULT_TITLE, s_mode = None, s_created = 0, s_updated = 0\<rparr>
      [] demo_chat_db)))"
proof -
  from generate_stream_ends_once [of "\<lambda>rq. Stream_fails [''data: a'']"
      "\<lambda>d. Some (JObj [(''type'', JStr ''content_block_delta''),
                       (''delta'', JObj [(''type'', JStr ''text_delta''), (''text'', JStr ''Hi'')])])"
      demo_client "\<lambda>w a t. ''sys''" "''Hello''" "''s1''" None
      "\<lparr>s_user = ''u1'', s_app = None, s_title = DEFAULT_TITLE, s_mode = None, s_created = 0, s_updated = 0\<rparr>"
      "[]" demo_chat_db, OF surjective_pairing]
  obtain pre t where "fst (generate_stream (\<lambda>rq. Stream_fails [''data: a''])
      (\<lambda>d. Some (JObj [(''type'', JStr ''content_block_delta''),
                       (''delta'', JObj [(''type'', JStr ''text_delta''), (''text'', JStr ''Hi'')])]))
      demo_client (\<lambda>w a t. ''sys'') ''Hello'' ''s1'' None
      \<lparr>s_user = ''u1'', s_app = None, s_title = DEFAULT_TITLE, s_mode = None, s_created = 0, s_updated = 0\<rparr>
      [] demo_chat_db) = pre @ [t]" "terminal_event t" by blast
  then show ?thesis by simp
qed

end
