(* ===== verification/Memory.thy ===== *)
theory Memory
  imports Prelude
begin

text \<open>
  The vector memory client (\<open>memory/mem0_client.py\<close>). The process environment is a
  map from variable names to values, read by \<open>os.getenv\<close>. \<open>Mem0Client.__init__\<close>
  is a function from the environment and the optional arguments to the client record or
  the \<open>ValueError\<close> it raises; the memory methods are stubs returning fixed
  dictionaries, modelled as the JSON values they return; the module-level client of
  \<open>get_client\<close> and \<open>reset_client\<close> is an explicit state \<open>mem0_client option\<close>. The
  theory proves by rule induction over sequences of calls that the cached client is
  always the one the constructor builds for its user in the current environment, and
  shows that a call without a user id is answered with the previous user's client.
\<close>

type_synonym env = "string \<rightharpoonup> string"

text \<open>\<open>os.getenv(v)\<close> tested for truth, and \<open>os.getenv(v, d)\<close>.\<close>

definition env_truthy :: "env \<Rightarrow> string \<Rightarrow> bool" where
  "env_truthy env v \<longleftrightarrow> (case env v of Some s \<Rightarrow> s \<noteq> [] | None \<Rightarrow> False)"

definition getenv_default :: "env \<Rightarrow> string \<Rightarrow> string \<Rightarrow> string" where
  "getenv_default env v d = (case env v of Some s \<Rightarrow> s | None \<Rightarrow> d)"

text \<open>An optional string tested for truth (\<open>None\<close> and the empty string are false), and
  \<open>arg or os.getenv(v)\<close>.\<close>

definition opt_truthy :: "string option \<Rightarrow> bool" where
  "opt_truthy a \<longleftrightarrow> (case a of Some s \<Rightarrow> s \<noteq> [] | None \<Rightarrow> False)"

definition arg_or_env :: "env \<Rightarrow> string option \<Rightarrow> string \<Rightarrow> string option" where
  "arg_or_env env a v = (if opt_truthy a then a else env v)"

section \<open>The client\<close>

definition EMBEDDING_MODEL :: string where
  "EMBEDDING_MODEL = ''text-embedding-3-small''"

definition EMBEDDING_DIMENSIONS :: nat where
  "EMBEDDING_DIMENSIONS = 1536"

record db_config =
  db_host :: string
  db_port :: int
  db_user :: string
  db_password :: string
  db_database :: string

text \<open>The attributes \<open>__init__\<close> sets. The similarity threshold, a float no method
  reads, is left out.\<close>

record mem0_client =
  m_user_id :: string
  m_supabase_url :: "string option"
  m_supabase_key :: "string option"
  m_openai_api_key :: string
  m_db_config :: db_config
  m_embedding_model :: string
  m_embedding_dimensions :: nat

text \<open>\<open>Mem0Client(user_id, supabase_url, supabase_key, openai_api_key)\<close>: the user id
  defaults to \<open>default\<close>, each key to its environment variable; a missing OpenAI key
  raises \<open>ValueError\<close>, and so does \<open>int()\<close> of a port that is not an integer.\<close>

definition mem0_init ::
  "env \<Rightarrow> string option \<Rightarrow> string option \<Rightarrow> string option \<Rightarrow> string option \<Rightarrow> py_exc + mem0_client" where
  "mem0_init env user_id supabase_url supabase_key openai_api_key =
     (let uid = (if opt_truthy user_id then the user_id else ''default'');
          url = arg_or_env env supabase_url ''SUPABASE_URL'';
          key = arg_or_env env supabase_key ''SUPABASE_KEY'';
          okey = arg_or_env env openai_api_key ''OPENAI_API_KEY'' in
      if \<not> opt_truthy okey then Inl OtherError
      else let host = getenv_default env ''PGVECTOR_HOST'' ''host.docker.internal'' in
        case parse_py_int (getenv_default env ''PGVECTOR_PORT'' ''5433'') of
          None \<Rightarrow> Inl OtherError
        | Some port \<Rightarrow> Inr \<lparr>m_user_id = uid, m_supabase_url = url, m_supabase_key = key,
            m_openai_api_key = the okey,
            m_db_config = \<lparr>db_host = host, db_port = port,
              db_user = getenv_default env ''PGVECTOR_USER'' ''postgres'',
              db_password = getenv_default env ''PGVECTOR_PASSWORD'' ''postgres'',
              db_database = getenv_default env ''PGVECTOR_DATABASE'' ''postgres''\<rparr>,
            m_embedding_model = EMBEDDING_MODEL, m_embedding_dimensions = EMBEDDING_DIMENSIONS\<rparr>)"

section \<open>The memory methods\<close>

text \<open>The methods ignore the client and the database: \<open>add\<close> returns a fresh id (the
  parameter \<open>uuid\<close>, \<open>str(uuid.uuid4())\<close>) with status \<open>stub\<close>, \<open>search\<close> one fixed
  example, \<open>get_all\<close> and \<open>get_history\<close> nothing. The score \<open>0.85\<close> of the example
  is kept as its text.\<close>

definition mem0_add :: "mem0_client \<Rightarrow> string \<Rightarrow> jval \<Rightarrow> string \<Rightarrow> jval" where
  "mem0_add c content metadata uuid =
     JObj [(''id'', JStr uuid), (''status'', JStr ''stub''),
           (''message'', JStr ''Memory API stub - requires Python 3.9+ with mem0ai for full implementation'')]"

definition mem0_search :: "mem0_client \<Rightarrow> string \<Rightarrow> int \<Rightarrow> jval \<Rightarrow> jval list" where
  "mem0_search c query limit filters =
     [JObj [(''id'', JStr ''stub_mem_1''), (''memory'', JStr ''Example memory (stub)''),
            (''score'', JStr ''0.85''), (''metadata'', JObj []),
            (''message'', JStr ''Stub implementation - requires Python 3.9+ with mem0ai'')]]"

definition mem0_get_all :: "mem0_client \<Rightarrow> int \<Rightarrow> jval list" where
  "mem0_get_all c limit = []"

definition mem0_update :: "mem0_client \<Rightarrow> string \<Rightarrow> string \<Rightarrow> jval" where
  "mem0_update c memory_id content =
     JObj [(''id'', JStr memory_id), (''status'', JStr ''stub''),
           (''message'', JStr ''Update stub - requires Python 3.9+ with mem0ai'')]"

definition mem0_delete :: "mem0_client \<Rightarrow> string \<Rightarrow> jval" where
  "mem0_delete c memory_id =
     JObj [(''id'', JStr memory_id), (''status'', JStr ''deleted''),
           (''message'', JStr ''Delete stub - requires Python 3.9+ with mem0ai'')]"

definition mem0_delete_all :: "mem0_client \<Rightarrow> jval" where
  "mem0_delete_all c =
     JObj [(''status'', JStr ''deleted''), (''count'', JInt 0),
           (''message'', JStr ''Delete all stub - requires Python 3.9+ with mem0ai'')]"

definition mem0_get_history :: "mem0_client \<Rightarrow> string \<Rightarrow> jval list" where
  "mem0_get_history c memory_id = []"

section \<open>The module-level client\<close>

text \<open>\<open>get_client(user_id)\<close>: a new client when none is cached or a truthy user id
  differs from the cached client's; otherwise the cached one. When the constructor
  raises, the exception propagates and the cache keeps its value. \<open>reset_client()\<close>
  empties the cache.\<close>

definition get_client :: "env \<Rightarrow> string option \<Rightarrow> mem0_client option \<Rightarrow> (py_exc + mem0_client) \<times> mem0_client option" where
  "get_client env user_id st =
     (case st of
        Some c \<Rightarrow> if \<not> (opt_truthy user_id \<and> m_user_id c \<noteq> the user_id) then (Inr c, st)
                  else (case mem0_init env user_id None None None of Inl e \<Rightarrow> (Inl e, st) | Inr c' \<Rightarrow> (Inr c', Some c'))
      | None \<Rightarrow> (case mem0_init env user_id None None None of Inl e \<Rightarrow> (Inl e, st) | Inr c' \<Rightarrow> (Inr c', Some c')))"

definition reset_client :: "mem0_client option \<Rightarrow> mem0_client option" where
  "reset_client st = None"

text \<open>A caller's use of the module: \<open>get_client(user_id)\<close> followed by one method
  call on the client it returns, or \<open>reset_client()\<close>.\<close>

datatype mem_call =
    Add "string option" string jval string
  | Search "string option" string int jval
  | Get_all "string option" int
  | Update "string option" string string
  | Delete "string option" string
  | Delete_all "string option"
  | Get_history "string option" string
  | Reset

fun call_user :: "mem_call \<Rightarrow> string option" where
  "call_user (Add u _ _ _) = u"
| "call_user (Search u _ _ _) = u"
| "call_user (Get_all u _) = u"
| "call_user (Update u _ _) = u"
| "call_user (Delete u _) = u"
| "call_user (Delete_all u) = u"
| "call_user (Get_history u _) = u"
| "call_user Reset = None"

fun call_method :: "mem_call \<Rightarrow> mem0_client \<Rightarrow> jval" where
  "call_method (Add _ content md uuid) c = mem0_add c content md uuid"
| "call_method (Search _ q l f) c = JList (mem0_search c q l f)"
| "call_method (Get_all _ l) c = JList (mem0_get_all c l)"
| "call_method (Update _ i content) c = mem0_update c i content"
| "call_method (Delete _ i) c = mem0_delete c i"
| "call_method (Delete_all _) c = mem0_delete_all c"
| "call_method (Get_history _ i) c = JList (mem0_get_history c i)"
| "call_method Reset c = JNull"

definition mem_step :: "env \<Rightarrow> mem_call \<Rightarrow> mem0_client option \<Rightarrow> (py_exc + jval) \<times> mem0_client option" where
  "mem_step env call st =
     (if call = Reset then (Inr JNull, reset_client st)
      else case get_client env (call_user call) st of
             (Inl e, st') \<Rightarrow> (Inl e, st')
           | (Inr c, st') \<Rightarrow> (Inr (call_method call c), st'))"

text \<open>The caches reachable from the empty one at import by any sequence of calls.\<close>

inductive mem_reach :: "env \<Rightarrow> mem0_client option \<Rightarrow> bool" for env where
  mem_reach_init: "mem_reach env None"
| mem_reach_step: "mem_reach env st \<Longrightarrow> mem_reach env (snd (mem_step env call st))"

text \<open>The cache invariant: a cached client is the one the constructor builds, in the
  current environment, for the user id it holds.\<close>

definition client_inv :: "env \<Rightarrow> mem0_client option \<Rightarrow> bool" where
  "client_inv env st \<longleftrightarrow> (case st of None \<Rightarrow> True | Some c \<Rightarrow> mem0_init env (Some (m_user_id c)) None None None = Inr c)"

section \<open>Lemmas\<close>

lemma mem0_init_Inr:
  assumes "mem0_init env u a b k = Inr c"
  shows "(if opt_truthy u then Some (m_user_id c) = u else m_user_id c = ''default'') \<and> m_user_id c \<noteq> []"
  using assms by (auto simp: mem0_init_def Let_def opt_truthy_def split: if_splits option.splits)

lemma mem0_init_ok_iff:
  "(\<exists>c. mem0_init env u a b k = Inr c) \<longleftrightarrow>
     opt_truthy (arg_or_env env k ''OPENAI_API_KEY'')
     \<and> parse_py_int (getenv_default env ''PGVECTOR_PORT'' ''5433'') \<noteq> None"
  by (auto simp: mem0_init_def Let_def split: option.splits)

lemma mem0_init_own_user:
  assumes "mem0_init env u None None None = Inr c"
  shows "mem0_init env (Some (m_user_id c)) None None None = Inr c"
proof (cases "opt_truthy u")
  case True
  with mem0_init_Inr [OF assms] have "Some (m_user_id c) = u" by simp
  with assms show ?thesis by simp
next
  case False
  with mem0_init_Inr [OF assms] have "m_user_id c = ''default''" by simp
  with False assms show ?thesis
    by (auto simp: mem0_init_def Let_def opt_truthy_def split: if_splits option.splits)
qed

lemma get_client_Inr:
  assumes "get_client env u st = (Inr c, st')"
  shows "st' = Some c \<and> (opt_truthy u \<longrightarrow> Some (m_user_id c) = u)"
  using assms mem0_init_Inr [of env u None None None]
  by (auto simp: get_client_def opt_truthy_def split: option.splits if_splits sum.splits)

lemma get_client_inv:
  assumes "client_inv env st"
  shows "client_inv env (snd (get_client env u st))"
  using assms mem0_init_own_user [of env u]
  by (auto simp: get_client_def client_inv_def split: option.splits sum.splits)

lemma mem_step_inv:
  "client_inv env st \<Longrightarrow> client_inv env (snd (mem_step env call st))"
  using get_client_inv [of env st "call_user call"]
  by (auto simp: mem_step_def reset_client_def client_inv_def split: prod.splits sum.splits)

lemma get_client_idem:
  assumes "get_client env u st = (Inr c, st')"
  shows "get_client env u st' = (Inr c, st')"
  using get_client_Inr [OF assms] by (auto simp: get_client_def opt_truthy_def)

lemma mem_add_not_stored:
  assumes "mem_step env (Add u content md i) st = (Inr r, st')"
  shows "mem_step env (Get_all u l) st' = (Inr (JList []), st')"
proof -
  obtain c where c: "get_client env u st = (Inr c, st')"
    using assms by (auto simp: mem_step_def split: prod.splits sum.splits)
  from get_client_idem [OF c] show ?thesis by (simp add: mem_step_def mem0_get_all_def)
qed

section \<open>Properties\<close>

text \<open>By induction over every sequence of calls from the empty cache at import, a
  cached client is the client the constructor builds, in the current environment, for
  the user id it holds.\<close>

lemma mem_reach_client_inv: "mem_reach env st \<Longrightarrow> client_inv env st"
proof (induction rule: mem_reach.induct)
  case mem_reach_init
  then show ?case by (simp add: client_inv_def)
next
  case (mem_reach_step st call)
  from mem_reach_step.IH show ?case by (rule mem_step_inv)
qed

text \<open>C10: \<open>get_client(u)\<close> for a non-empty user id answers a client of that user and
  caches it: whatever was cached before, the cache then holds the client, and the next
  \<open>get_client(u)\<close> returns the same client without building a new one.\<close>

theorem get_client_caches:
  assumes "u \<noteq> []" "get_client env (Some u) st = (Inr c, st')"
  shows "m_user_id c = u \<and> st' = Some c \<and> get_client env (Some u) st' = (Inr c, st')"
  using assms(1) get_client_Inr [OF assms(2)] get_client_idem [OF assms(2)] by (simp add: opt_truthy_def)

theorem get_client_caches_witness:
  "\<exists>c st'. get_client [''OPENAI_API_KEY'' \<mapsto> ''sk-o''] (Some ''bob'') (snd (get_client [''OPENAI_API_KEY'' \<mapsto> ''sk-o''] (Some ''alice'') None))
       = (Inr c, st')
     \<and> m_user_id c = ''bob'' \<and> st' = Some c"
proof -
  obtain c st' where g: "get_client [''OPENAI_API_KEY'' \<mapsto> ''sk-o''] (Some ''bob'')
      (snd (get_client [''OPENAI_API_KEY'' \<mapsto> ''sk-o''] (Some ''alice'') None)) = (Inr c, st')"
    by (simp add: get_client_def mem0_init_def opt_truthy_def arg_or_env_def getenv_default_def
        parse_py_int_def py_strip_def py_space_def py_digit_def)
  with get_client_caches [OF _ g] show ?thesis by blast
qed

text \<open>C25: the memory client does not isolate users: once a user's client is cached,
  \<open>get_client()\<close> without a user id (or with an empty one) returns that user's client
  instead of one for the default user, so its memories would go to the last user.\<close>

theorem get_client_default_reuses:
  assumes "u \<noteq> []" "get_client env (Some u) None = (Inr c, st)"
  shows "get_client env None st = (Inr c, st) \<and> m_user_id c = u"
  using assms(1) get_client_Inr [OF assms(2)] by (auto simp: get_client_def opt_truthy_def)

theorem get_client_default_reuses_witness:
  "\<exists>c st. get_client [''OPENAI_API_KEY'' \<mapsto> ''sk-o''] (Some ''alice'') None = (Inr c, st)
     \<and> get_client [''OPENAI_API_KEY'' \<mapsto> ''sk-o''] None st = (Inr c, st) \<and> m_user_id c = ''alice''"
proof -
  obtain c st where g: "get_client [''OPENAI_API_KEY'' \<mapsto> ''sk-o''] (Some ''alice'') None = (Inr c, st)"
    by (simp add: get_client_def mem0_init_def opt_truthy_def arg_or_env_def getenv_default_def
        parse_py_int_def py_strip_def py_space_def py_digit_def)
  with get_client_default_reuses [OF _ g] show ?thesis by blast
qed

end
