(* ===== verification/Prompt.thy ===== *)
theory Prompt
  imports Prelude Memory
begin

text \<open>
  The system prompt builder (\<open>prompts/system_prompt.py\<close>) and the wrapper of
  \<open>routers/chat.py\<close> that the chat and stream endpoints call. The prompt is the list
  \<open>prompt_parts\<close> of the source joined with newlines; the f-strings format values with
  Python's \<open>str()\<close>, modelled with \<open>repr()\<close> for containers, and the lookups
  (\<open>.get\<close>, \<open>in\<close>, subscripts and iteration) raise on the types that have no such
  operation, so the builder returns \<open>py_exc + string\<close>. The clock is the parameter
  \<open>stamp\<close>, the text \<open>strftime\<close> renders.
\<close>

section \<open>Python's \<open>str()\<close> and \<open>repr()\<close> of JSON values\<close>

text \<open>\<open>repr()\<close> of a \<open>str\<close>: single quotes unless the text holds a single quote and
  no double quote; the quote, the backslash, tab, newline and carriage return are
  escaped, other characters that are not printable (below \<open>0x20\<close>, \<open>0x7f\<close> to
  \<open>0xa0\<close>, and \<open>0xad\<close>) become \<open>\xhh\<close>. Characters are the code points below 256.\<close>

definition hex_digit :: "nat \<Rightarrow> char" where
  "hex_digit n = (if n < 10 then char_of (48 + n) else char_of (87 + n))"

definition py_printable :: "char \<Rightarrow> bool" where
  "py_printable c \<longleftrightarrow> (let n = of_char c :: nat in \<not> (n < 32 \<or> (127 \<le> n \<and> n \<le> 160) \<or> n = 173))"

definition repr_quote :: "string \<Rightarrow> char" where
  "repr_quote s = (if CHR 0x27 \<in> set s \<and> CHR 0x22 \<notin> set s then CHR 0x22 else CHR 0x27)"

definition repr_char :: "char \<Rightarrow> char \<Rightarrow> string" where
  "repr_char q c =
     (if c = q \<or> c = CHR 0x5C then [CHR 0x5C, c]
      else if c = CHR 0x09 then [CHR 0x5C, CHR ''t'']
      else if c = CHR 0x0A then [CHR 0x5C, CHR ''n'']
      else if c = CHR 0x0D then [CHR 0x5C, CHR ''r'']
      else if py_printable c then [c]
      else [CHR 0x5C, CHR ''x'', hex_digit (of_char c div 16), hex_digit (of_char c mod 16)])"

definition repr_str :: "string \<Rightarrow> string" where
  "repr_str s = (let q = repr_quote s in q # concat (map (repr_char q) s) @ [q])"

fun py_repr :: "jval \<Rightarrow> string" where
  "py_repr JNull = ''None''"
| "py_repr (JBool b) = (if b then ''True'' else ''False'')"
| "py_repr (JInt i) = py_str_int i"
| "py_repr (JStr s) = repr_str s"
| "py_repr (JList xs) = ''['' @ py_join '', '' (map py_repr xs) @ '']''"
| "py_repr (JObj kvs) = ''{'' @ py_join '', '' (map (\<lambda>(k, v). repr_str k @ '': '' @ py_repr v) kvs) @ ''}''"

text \<open>\<open>str(v)\<close>, which an f-string field \<open>{v}\<close> renders: a string is itself, every
  other value its \<open>repr()\<close>.\<close>

fun py_str :: "jval \<Rightarrow> string" where
  "py_str (JStr s) = s"
| "py_str v = py_repr v"

section \<open>Dictionary operations\<close>

text \<open>\<open>d.get(k, default)\<close> on a dictionary, and on any value (\<open>AttributeError\<close> when
  it is not a dictionary).\<close>

definition dict_get :: "(string \<times> jval) list \<Rightarrow> string \<Rightarrow> jval \<Rightarrow> jval" where
  "dict_get kvs k d = (case map_of kvs k of Some v \<Rightarrow> v | None \<Rightarrow> d)"

fun obj_get :: "jval \<Rightarrow> string \<Rightarrow> jval \<Rightarrow> py_exc + jval" where
  "obj_get (JObj kvs) k d = Inr (dict_get kvs k d)"
| "obj_get v k d = Inl OtherError"

text \<open>\<open>k in s\<close> for strings, \<open>k in v\<close> for a string \<open>k\<close> (keys of a dictionary,
  items of a list, substrings of a string; a \<open>TypeError\<close> for the other types), and
  \<open>v[k]\<close> (\<open>KeyError\<close> for a missing key, \<open>TypeError\<close> for a string index into a list
  or string or any other type).\<close>

fun py_in_str :: "string \<Rightarrow> string \<Rightarrow> bool" where
  "py_in_str k [] \<longleftrightarrow> k = []"
| "py_in_str k (c # cs) \<longleftrightarrow> take (length k) (c # cs) = k \<or> py_in_str k cs"

fun py_contains :: "jval \<Rightarrow> string \<Rightarrow> py_exc + bool" where
  "py_contains (JObj kvs) k = Inr (k \<in> set (map fst kvs))"
| "py_contains (JList xs) k = Inr (JStr k \<in> set xs)"
| "py_contains (JStr s) k = Inr (py_in_str k s)"
| "py_contains v k = Inl TypeError"

fun py_subscript :: "jval \<Rightarrow> string \<Rightarrow> py_exc + jval" where
  "py_subscript (JObj kvs) k = (case map_of kvs k of Some v \<Rightarrow> Inr v | None \<Rightarrow> Inl OtherError)"
| "py_subscript v k = Inl TypeError"

text \<open>\<open>for x in xs: ... x.get(...)\<close> building one line per item: every item must be a
  dictionary.\<close>

fun map_objs :: "((string \<times> jval) list \<Rightarrow> string) \<Rightarrow> jval list \<Rightarrow> py_exc + string list" where
  "map_objs f [] = Inr []"
| "map_objs f (JObj kvs # xs) = (case map_objs f xs of Inl e \<Rightarrow> Inl e | Inr ls \<Rightarrow> Inr (f kvs # ls))"
| "map_objs f (x # xs) = Inl OtherError"

section \<open>The prompt text\<close>

text \<open>The module constants; a triple-quoted literal is its lines joined with newlines.
  \<open>INSTRUCTIONS\<close> is the literal of the final instructions.\<close>

definition BASE_PERSONA :: string where
  "BASE_PERSONA = py_join nl
     [''You are AgFin AI, an expert assistant for agricultural finance certification.'',
      '''',
      ''Your role is to help users navigate the complex world of agricultural finance compliance and certification, including:'',
      ''- SOC 1/2/3 certifications (Service Organization Control)'',
      ''- DFARS compliance (Defense Federal Acquisition Regulation Supplement)'',
      ''- OSCERC standards (Open Source Cybersecurity Evaluation and Risk Control)'',
      '''',
      ''You provide intelligent assistance with:'',
      ''- Understanding certification requirements and processes'',
      ''- Completing application forms with accuracy and compliance'',
      ''- Reviewing and organizing compliance documents'',
      ''- Preparing for audits and assessments'',
      ''- Answering questions about agricultural finance regulations'',
      '''',
      ''Your capabilities:'',
      ''- Access to the user's certification application data'',
      ''- Document search and analysis (OCR-extracted content)'',
      ''- Long-term memory of user preferences and context'',
      ''- Tool execution for data retrieval and analysis'',
      '''',
      ''Guidelines for interaction:'',
      ''- Be professional, accurate, and helpful'',
      ''- When uncertain, ask clarifying questions rather than guessing'',
      ''- Cite specific regulations or requirements when possible'',
      ''- Break down complex processes into manageable steps'',
      ''- Maintain confidentiality and data security awareness'']"

definition WORKFLOW_GUIDANCE :: "(string \<times> string) list" where
  "WORKFLOW_GUIDANCE =
    [(''general_help'',
       py_join nl
        ['''',
         ''Current mode: General Help'',
         ''- Answer questions about the certification process'',
         ''- Provide guidance on next steps'',
         ''- Help navigate the application portal'',
         '''']),
     (''document_review'',
       py_join nl
        ['''',
         ''Current mode: Document Review'',
         ''- Focus on analyzing uploaded compliance documents'',
         ''- Identify missing or incomplete documentation'',
         ''- Suggest document organization strategies'',
         ''- Flag potential compliance issues'',
         '''']),
     (''field_completion'',
       py_join nl
        ['''',
         ''Current mode: Field Completion Assistant'',
         ''- Help accurately complete application form fields'',
         ''- Provide examples and guidance for complex fields'',
         ''- Validate input against requirements'',
         ''- Suggest corrections for common errors'',
         '''']),
     (''audit_preparation'',
       py_join nl
        ['''',
         ''Current mode: Audit Preparation'',
         ''- Guide audit readiness activities'',
         ''- Review documentation completeness'',
         ''- Identify potential audit questions'',
         ''- Suggest remediation for gaps'',
         ''''])]"

definition INSTRUCTIONS :: string where
  "INSTRUCTIONS = py_join nl
     ['''',
      ''- Provide clear, actionable guidance'',
      ''- Use tools when you need specific data'',
      ''- Ask for clarification if the user's request is ambiguous'',
      ''- Keep responses focused and relevant to agricultural finance certification'',
      ''- Maintain a professional yet approachable tone'',
      '''']"

text \<open>\<open>get_workflow_modes()\<close> and \<open>validate_workflow_mode(mode)\<close>.\<close>

definition get_workflow_modes :: "string list" where
  "get_workflow_modes = map fst WORKFLOW_GUIDANCE"

definition validate_workflow_mode :: "string \<Rightarrow> bool" where
  "validate_workflow_mode mode \<longleftrightarrow> mode \<in> set (map fst WORKFLOW_GUIDANCE)"

section \<open>The builder\<close>

text \<open>The workflow section: present for a truthy mode that is a key of
  \<open>WORKFLOW_GUIDANCE\<close>.\<close>

definition workflow_parts :: "string option \<Rightarrow> string list" where
  "workflow_parts workflow_mode =
     (case workflow_mode of
        Some m \<Rightarrow> if m \<noteq> [] then (case map_of WORKFLOW_GUIDANCE m of
                                    Some g \<Rightarrow> [nl @ ''## Current Workflow'', g] | None \<Rightarrow> [])
                  else []
      | None \<Rightarrow> [])"

text \<open>The application section of a non-empty context: id, certification type and status
  (each \<open>unknown\<close> when missing), the progress line when the context has
  \<open>completion_percentage\<close>, and one line per module when it has \<open>modules\<close>.\<close>

definition app_block :: "jval \<Rightarrow> jval \<Rightarrow> jval \<Rightarrow> string" where
  "app_block app_id cert_type app_status =
     py_join nl ['''', ''The user is currently working on:'', ''- Application ID: '' @ py_str app_id,
                 ''- Certification Type: '' @ py_str cert_type, ''- Status: '' @ py_str app_status, '''']"

definition module_line :: "(string \<times> jval) list \<Rightarrow> string" where
  "module_line m = ''  - '' @ py_str (dict_get m ''name'' (JStr ''Unknown'')) @ '': ''
     @ py_str (dict_get m ''status'' (JStr ''pending''))"

definition app_context_parts :: "(string \<times> jval) list \<Rightarrow> py_exc + string list" where
  "app_context_parts ctx =
     (let head = [nl @ ''## Current Application Context'',
                  app_block (dict_get ctx ''id'' (JStr ''unknown'')) (dict_get ctx ''certification_type'' (JStr ''unknown''))
                            (dict_get ctx ''status'' (JStr ''unknown''))];
          progress = (case map_of ctx ''completion_percentage'' of
                        Some c \<Rightarrow> [''- Progress: '' @ py_str c @ ''% complete'' @ nl] | None \<Rightarrow> [])
      in case map_of ctx ''modules'' of
           None \<Rightarrow> Inr (head @ progress)
         | Some modules \<Rightarrow>
             (case py_items modules of
                Inl e \<Rightarrow> Inl e
              | Inr ms \<Rightarrow> (case map_objs module_line ms of
                             Inl e \<Rightarrow> Inl e
                           | Inr ls \<Rightarrow> Inr (head @ progress @ [nl @ ''Module completion status:''] @ ls))))"

text \<open>The memories section of a non-empty list: the first five, numbered from 1.\<close>

fun enum_lines :: "nat \<Rightarrow> string list \<Rightarrow> string list" where
  "enum_lines i [] = []"
| "enum_lines i (m # ms) = (py_str_int (int i) @ ''. '' @ m) # enum_lines (Suc i) ms"

definition memory_parts :: "string list \<Rightarrow> string list" where
  "memory_parts ms =
     [nl @ ''## Relevant Context from Previous Conversations'',
      nl @ ''The following information from past interactions may be relevant:'']
     @ enum_lines 1 (take 5 ms)
     @ [nl @ ''Use this context to provide more personalized assistance.'']"

definition memory_section :: "string list option \<Rightarrow> string list" where
  "memory_section user_memories =
     (case user_memories of Some ms \<Rightarrow> if ms \<noteq> [] then memory_parts ms else [] | None \<Rightarrow> [])"

text \<open>The tools section of a non-empty list: one line per tool definition.\<close>

definition tool_line :: "(string \<times> jval) list \<Rightarrow> string" where
  "tool_line t = nl @ ''- **'' @ py_str (dict_get t ''name'' (JStr ''unknown'')) @ ''**: ''
     @ py_str (dict_get t ''description'' (JStr ''No description''))"

definition tool_parts :: "jval list \<Rightarrow> py_exc + string list" where
  "tool_parts ts =
     (case map_objs tool_line ts of
        Inl e \<Rightarrow> Inl e
      | Inr ls \<Rightarrow> Inr ([nl @ ''## Available Tools'', nl @ ''You have access to the following tools:''] @ ls
                     @ [nl @ ''Use these tools when needed to provide accurate, data-driven assistance.'']))"

text \<open>The preferences section of a non-empty user info: present when its
  \<open>preferences\<close> value is truthy, with a line for each of the two keys it contains.\<close>

definition pref_line :: "jval \<Rightarrow> string \<Rightarrow> string \<Rightarrow> py_exc + string list" where
  "pref_line prefs k label =
     (case py_contains prefs k of
        Inl e \<Rightarrow> Inl e
      | Inr False \<Rightarrow> Inr []
      | Inr True \<Rightarrow> (case py_subscript prefs k of Inl e \<Rightarrow> Inl e | Inr v \<Rightarrow> Inr [label @ py_str v]))"

definition pref_parts :: "(string \<times> jval) list \<Rightarrow> py_exc + string list" where
  "pref_parts user_info =
     (let prefs = dict_get user_info ''preferences'' (JObj []) in
      if \<not> py_truthy prefs then Inr []
      else case pref_line prefs ''communication_style'' ''- Preferred communication style: '' of
             Inl e \<Rightarrow> Inl e
           | Inr l1 \<Rightarrow> (case pref_line prefs ''expertise_level'' ''- User expertise level: '' of
                          Inl e \<Rightarrow> Inl e
                        | Inr l2 \<Rightarrow> Inr ([nl @ ''## User Preferences''] @ l1 @ l2)))"

text \<open>An optional section: \<open>if x:\<close> on an optional list or dictionary.\<close>

definition opt_section :: "'a list option \<Rightarrow> ('a list \<Rightarrow> py_exc + string list) \<Rightarrow> py_exc + string list" where
  "opt_section x f = (case x of Some xs \<Rightarrow> if xs \<noteq> [] then f xs else Inr [] | None \<Rightarrow> Inr [])"

text \<open>The list \<open>prompt_parts\<close> of \<open>build_system_prompt\<close>, and the prompt: the parts
  joined with newlines.\<close>

definition prompt_parts ::
  "string option \<Rightarrow> (string \<times> jval) list option \<Rightarrow> string list option \<Rightarrow> jval list option \<Rightarrow>
   (string \<times> jval) list option \<Rightarrow> string \<Rightarrow> py_exc + string list" where
  "prompt_parts workflow_mode application_context user_memories available_tools user_info stamp =
     (case opt_section application_context app_context_parts of
        Inl e \<Rightarrow> Inl e
      | Inr p2 \<Rightarrow>
          (case opt_section available_tools tool_parts of
             Inl e \<Rightarrow> Inl e
           | Inr p4 \<Rightarrow>
               (case opt_section user_info pref_parts of
                  Inl e \<Rightarrow> Inl e
                | Inr p5 \<Rightarrow>
                    Inr ([BASE_PERSONA] @ workflow_parts workflow_mode @ p2
                         @ memory_section user_memories
                         @ p4 @ p5
                         @ [nl @ ''## Session Context'', ''Current date/time: '' @ stamp,
                            nl @ ''## Instructions'', INSTRUCTIONS]))))"

definition build_system_prompt ::
  "string option \<Rightarrow> (string \<times> jval) list option \<Rightarrow> string list option \<Rightarrow> jval list option \<Rightarrow>
   (string \<times> jval) list option \<Rightarrow> string \<Rightarrow> py_exc + string" where
  "build_system_prompt workflow_mode application_context user_memories available_tools user_info stamp =
     (case prompt_parts workflow_mode application_context user_memories available_tools user_info stamp of
        Inl e \<Rightarrow> Inl e
      | Inr ps \<Rightarrow> Inr (py_join nl ps))"

text \<open>\<open>build_tool_description(tool_definition)\<close>: the name and description, then one
  line per property of the input schema, marked required when the schema's
  \<open>required\<close> value contains it.\<close>

definition param_line :: "string \<Rightarrow> (string \<times> jval) list \<Rightarrow> bool \<Rightarrow> string" where
  "param_line param_name param_info required =
     nl @ ''    - '' @ param_name @ '' ('' @ py_str (dict_get param_info ''type'' (JStr ''any'')) @ '')''
     @ (if required then '' (required)'' else '' (optional)'') @ '': ''
     @ py_str (dict_get param_info ''description'' (JStr ''''))"

fun param_lines :: "jval \<Rightarrow> (string \<times> jval) list \<Rightarrow> py_exc + string list" where
  "param_lines schema [] = Inr []"
| "param_lines schema ((pn, JObj info) # ps) =
     (case obj_get schema ''required'' (JList []) of
        Inl e \<Rightarrow> Inl e
      | Inr req \<Rightarrow>
          (case py_contains req pn of
             Inl e \<Rightarrow> Inl e
           | Inr r \<Rightarrow>
               (case param_lines schema ps of
                  Inl e \<Rightarrow> Inl e
                | Inr ls \<Rightarrow> Inr (param_line pn info r # ls))))"
| "param_lines schema ((pn, info) # ps) = Inl OtherError"

definition build_tool_description :: "(string \<times> jval) list \<Rightarrow> py_exc + string" where
  "build_tool_description tool_definition =
     (let name = dict_get tool_definition ''name'' (JStr ''unknown'');
          description = dict_get tool_definition ''description'' (JStr ''No description'');
          schema = dict_get tool_definition ''input_schema'' (JObj []);
          head = ''**'' @ py_str name @ ''**'' @ nl @ py_str description in
      case obj_get schema ''properties'' (JObj []) of
        Inl e \<Rightarrow> Inl e
      | Inr params \<Rightarrow>
          if \<not> py_truthy params then Inr head
          else (case params of
                  JObj ps \<Rightarrow> (case param_lines schema ps of
                                Inl e \<Rightarrow> Inl e
                              | Inr ls \<Rightarrow> Inr (head @ nl @ ''  Parameters:'' @ concat ls))
                | _ \<Rightarrow> Inl OtherError))"

section \<open>The routers' prompt\<close>

text \<open>The chat and stream endpoints pass the session's workflow mode, the context
  \<open>{"id": application_id}\<close> when the session has a truthy application id, and the
  request's tools (a list of dictionaries, as the request model validates); the chat
  endpoint calls the builder through the wrapper \<open>build_system_prompt\<close> of
  \<open>routers/chat.py\<close>, which passes neither memories nor user info.\<close>

definition session_app_context :: "string option \<Rightarrow> (string \<times> jval) list option" where
  "session_app_context app = (case app of Some a \<Rightarrow> if a \<noteq> [] then Some [(''id'', JStr a)] else None | None \<Rightarrow> None)"

definition chat_build_system_prompt ::
  "string \<Rightarrow> string option \<Rightarrow> (string \<times> jval) list option \<Rightarrow> jval list option \<Rightarrow> py_exc + string" where
  "chat_build_system_prompt stamp workflow_mode application_context tools =
     build_system_prompt workflow_mode application_context None tools None stamp"

definition router_prompt :: "string \<Rightarrow> string option \<Rightarrow> string option \<Rightarrow> jval list option \<Rightarrow> py_exc + string" where
  "router_prompt stamp workflow_mode app tools = chat_build_system_prompt stamp workflow_mode (session_app_context app) tools"

text \<open>The request model's validation of \<open>tools: Optional[List[Dict[str, Any]]]\<close>.\<close>

definition request_tools_ok :: "jval list option \<Rightarrow> bool" where
  "request_tools_ok tools \<longleftrightarrow> (case tools of None \<Rightarrow> True | Some ts \<Rightarrow> list_all (\<lambda>t. case t of JObj kvs \<Rightarrow> True | _ \<Rightarrow> False) ts)"

section \<open>Lemmas\<close>

lemma py_in_str_iff: "py_in_str k s \<longleftrightarrow> (\<exists>a b. s = a @ k @ b)"
proof (induction s)
  case Nil
  then show ?case by simp
next
  case (Cons c cs)
  have "take (length k) (c # cs) = k \<longleftrightarrow> (\<exists>b. c # cs = k @ b)"
    by (metis append_eq_conv_conj)
  moreover have "(\<exists>a b. c # cs = a @ k @ b) \<longleftrightarrow> (\<exists>b. c # cs = k @ b) \<or> (\<exists>a b. cs = a @ k @ b)"
    by (auto simp: Cons_eq_append_conv)
  ultimately show ?case using Cons.IH by simp
qed

lemma py_join_member:
  "x \<in> set ps \<Longrightarrow> \<exists>a b. py_join sep ps = a @ x @ b"
proof (induction sep ps rule: py_join.induct)
  case (2 sep y)
  then have "py_join sep [y] = [] @ x @ []" by simp
  then show ?case by blast
next
  case (3 sep x1 x2 xs)
  then show ?case by (auto simp del: py_join.simps(3) simp: py_join.simps(3)) (metis append.assoc)+
qed simp

lemma py_in_str_join: "py_in_str k x \<Longrightarrow> x \<in> set ps \<Longrightarrow> py_in_str k (py_join sep ps)"
  using py_join_member [of x ps sep] unfolding py_in_str_iff by (metis append.assoc)

lemma map_objs_Inr:
  "list_all (\<lambda>t. case t of JObj kvs \<Rightarrow> True | _ \<Rightarrow> False) ts \<Longrightarrow> \<exists>ls. map_objs f ts = Inr ls"
proof (induction ts)
  case (Cons t ts)
  then show ?case by (cases t) auto
qed simp

lemma py_in_str_refl [simp]: "py_in_str k k"
  unfolding py_in_str_iff by (metis append.left_neutral append_Nil2)

lemma py_in_str_part: "x \<in> set ps \<Longrightarrow> py_in_str x (py_join sep ps)"
  by (rule py_in_str_join [OF py_in_str_refl])

lemma opt_section_tools:
  "request_tools_ok tools \<Longrightarrow> \<exists>p4. opt_section tools tool_parts = Inr p4"
  using map_objs_Inr [of _ tool_line]
  by (fastforce simp: request_tools_ok_def opt_section_def tool_parts_def split: option.splits)

lemma app_context_parts_id:
  "app_context_parts [(''id'', JStr a)] =
     Inr [nl @ ''## Current Application Context'', app_block (JStr a) (JStr ''unknown'') (JStr ''unknown'')]"
  by (simp add: app_context_parts_def dict_get_def)

lemma session_app_context_parts:
  "\<exists>p2. opt_section (session_app_context a) app_context_parts = Inr p2"
  by (auto simp: opt_section_def session_app_context_def app_context_parts_def Let_def split: option.splits)

lemma router_prompt_parts:
  assumes "request_tools_ok tools"
  obtains ps p2 where "opt_section (session_app_context a) app_context_parts = Inr p2"
    "router_prompt stamp m a tools = Inr (py_join nl ps)" "set p2 \<subseteq> set ps"
proof -
  from opt_section_tools [OF assms] obtain p4 where p4: "opt_section tools tool_parts = Inr p4" ..
  from session_app_context_parts obtain p2 where p2: "opt_section (session_app_context a) app_context_parts = Inr p2" ..
  have p5: "opt_section (None :: (string \<times> jval) list option) pref_parts = Inr []"
    by (simp add: opt_section_def)
  let ?ps = "[BASE_PERSONA] @ workflow_parts m @ p2 @ memory_section None @ p4 @ []
    @ [nl @ ''## Session Context'', ''Current date/time: '' @ stamp, nl @ ''## Instructions'', INSTRUCTIONS]"
  have "router_prompt stamp m a tools = Inr (py_join nl ?ps)"
    unfolding router_prompt_def chat_build_system_prompt_def build_system_prompt_def prompt_parts_def p2 p4 p5
    by simp
  moreover have "set p2 \<subseteq> set ?ps" by auto
  ultimately show ?thesis by (rule that [OF p2])
qed

text \<open>The routers' prompt never raises on a validated request.\<close>

lemma router_prompt_Inr: "request_tools_ok tools \<Longrightarrow> \<exists>p. router_prompt stamp m a tools = Inr p"
  by (rule router_prompt_parts [of tools a stamp m]) blast+

lemma workflow_parts_iff: "workflow_parts (Some m) \<noteq> [] \<longleftrightarrow> validate_workflow_mode m"
proof (cases "m = []")
  case True
  then show ?thesis by (simp add: workflow_parts_def validate_workflow_mode_def WORKFLOW_GUIDANCE_def)
next
  case False
  then show ?thesis
    by (auto simp: workflow_parts_def validate_workflow_mode_def map_of_eq_None_iff
        dest: map_of_SomeD intro: rev_image_eqI split: option.splits)
qed

lemma enum_lines_length [simp]: "length (enum_lines i ms) = length ms"
  by (induction i ms rule: enum_lines.induct) auto

lemma enum_lines_nth: "j < length ms \<Longrightarrow> enum_lines i ms ! j = py_str_int (int (i + j)) @ ''. '' @ ms ! j"
proof (induction i ms arbitrary: j rule: enum_lines.induct)
  case (2 i m ms)
  then show ?case by (cases j) auto
qed simp

lemma py_in_str_trans: "py_in_str x y \<Longrightarrow> py_in_str y z \<Longrightarrow> py_in_str x z"
  unfolding py_in_str_iff by (metis append.assoc)

lemma app_block_lines:
  "py_in_str (''- Application ID: '' @ py_str i) (app_block i c s)
   \<and> py_in_str (''- Certification Type: '' @ py_str c) (app_block i c s)
   \<and> py_in_str (''- Status: '' @ py_str s) (app_block i c s)"
  unfolding app_block_def by (intro conjI py_in_str_part) simp_all

text \<open>The builder raises on a context whose \<open>modules\<close> is not iterable and on
  preferences given as a list that holds one of the keys.\<close>

lemma build_system_prompt_raises:
  "build_system_prompt None (Some [(''modules'', JInt 3)]) None None None stamp = Inl TypeError
   \<and> build_system_prompt None None None None
       (Some [(''preferences'', JList [JStr ''communication_style''])]) stamp = Inl TypeError"
  by (simp add: build_system_prompt_def prompt_parts_def opt_section_def app_context_parts_def
      pref_parts_def pref_line_def dict_get_def)

text \<open>The parameter lines of a schema whose properties are dictionaries and whose
  \<open>required\<close> value is a list of names.\<close>

lemma param_lines_required:
  "map_of sch ''required'' = Some (JList (map JStr req)) \<Longrightarrow>
   param_lines (JObj sch) (map (\<lambda>(pn, info). (pn, JObj info)) qs)
     = Inr (map (\<lambda>(pn, info). param_line pn info (pn \<in> set req)) qs)"
  by (induction qs) (auto simp: dict_get_def image_iff)

text \<open>C23: \<open>build_tool_description\<close> of a tool definition whose input schema has
  dictionary properties and a list of required names is the name and description
  followed by one line per property, in the schema's order, with its type and
  description, marked required exactly when the schema's \<open>required\<close> list names it and
  optional otherwise.\<close>

theorem build_tool_description_required:
  assumes "map_of td ''input_schema'' = Some (JObj sch)"
    "map_of sch ''properties'' = Some (JObj (map (\<lambda>(pn, info). (pn, JObj info)) qs))" "qs \<noteq> []"
    "map_of sch ''required'' = Some (JList (map JStr req))"
  shows "build_tool_description td =
    Inr (''**'' @ py_str (dict_get td ''name'' (JStr ''unknown'')) @ ''**'' @ nl
         @ py_str (dict_get td ''description'' (JStr ''No description'')) @ nl @ ''  Parameters:''
         @ concat (map (\<lambda>(pn, info). param_line pn info (pn \<in> set req)) qs))"
  using assms param_lines_required [OF assms(4), of qs]
  by (simp add: build_tool_description_def dict_get_def Let_def)

theorem build_tool_description_required_witness:
  "build_tool_description
     [(''name'', JStr ''query_application''), (''description'', JStr ''Read an application''),
      (''input_schema'', JObj [(''properties'', JObj [(''application_id'', JObj [(''type'', JStr ''string'')]),
                                                       (''verbose'', JObj [(''type'', JStr ''boolean'')])]),
                               (''required'', JList [JStr ''application_id''])])]
   = Inr (''**query_application**'' @ nl @ ''Read an application'' @ nl @ ''  Parameters:''
          @ nl @ ''    - application_id (string) (required): ''
          @ nl @ ''    - verbose (boolean) (optional): '')"
  using build_tool_description_required
    [of "[(''name'', JStr ''query_application''), (''description'', JStr ''Read an application''),
      (''input_schema'', JObj [(''properties'', JObj [(''application_id'', JObj [(''type'', JStr ''string'')]),
                                                       (''verbose'', JObj [(''type'', JStr ''boolean'')])]),
                               (''required'', JList [JStr ''application_id''])])]"
        "[(''properties'', JObj [(''application_id'', JObj [(''type'', JStr ''string'')]),
                                 (''verbose'', JObj [(''type'', JStr ''boolean'')])]),
          (''required'', JList [JStr ''application_id''])]"
        "[(''application_id'', [(''type'', JStr ''string'')]), (''verbose'', [(''type'', JStr ''boolean'')])]"
        "[''application_id'']"]
  by (simp add: param_line_def dict_get_def)

section \<open>Properties\<close>

text \<open>C37: the prompt the chat and stream endpoints build for a session linked to an
  application never raises for a validated request, and it names the application but
  reports its certification type and status as unknown: the routers inject only the
  application id, so the prompt's application context is never filled in.\<close>

theorem router_prompt_reports_unknown_status:
  assumes "request_tools_ok tools" "a \<noteq> []"
  shows "\<exists>p. router_prompt stamp m (Some a) tools = Inr p
    \<and> py_in_str (''- Application ID: '' @ a) p
    \<and> py_in_str ''- Certification Type: unknown'' p \<and> py_in_str ''- Status: unknown'' p"
proof -
  from assms(1) obtain ps p2 where p2: "opt_section (session_app_context (Some a)) app_context_parts = Inr p2"
    and r: "router_prompt stamp m (Some a) tools = Inr (py_join nl ps)" and sub: "set p2 \<subseteq> set ps"
    by (rule router_prompt_parts)
  from p2 assms(2) have "p2 = [nl @ ''## Current Application Context'', app_block (JStr a) (JStr ''unknown'') (JStr ''unknown'')]"
    by (simp add: session_app_context_def opt_section_def app_context_parts_id)
  with sub have "py_in_str (app_block (JStr a) (JStr ''unknown'') (JStr ''unknown'')) (py_join nl ps)"
    by (simp add: py_in_str_part)
  with app_block_lines [of "JStr a" "JStr ''unknown''" "JStr ''unknown''"] r show ?thesis
    by (auto intro: py_in_str_trans)
qed

theorem router_prompt_reports_unknown_status_witness:
  "request_tools_ok (Some [JObj [(''name'', JStr ''query_application'')]])
   \<and> (\<exists>p. router_prompt ''2026-01-01 09:00 UTC'' (Some ''document_review'') (Some ''app1'')
           (Some [JObj [(''name'', JStr ''query_application'')]]) = Inr p
         \<and> py_in_str ''- Application ID: app1'' p \<and> py_in_str ''- Status: unknown'' p)"
proof -
  have t: "request_tools_ok (Some [JObj [(''name'', JStr ''query_application'')]])"
    by (simp add: request_tools_ok_def)
  from router_prompt_reports_unknown_status [OF t, of "''app1''" "''2026-01-01 09:00 UTC''" "Some ''document_review''"]
  show ?thesis using t by auto
qed

end
