(* ===== verification/Health.thy ===== *)
theory Health
  imports Orchestrator Memory
begin

text \<open>
  The health endpoints (\<open>routers/health.py\<close>), over the process environment of
  \<open>Memory\<close>, whose client constructor the memory check runs. The database probe (connecting
  and counting the session table) is the parameter \<open>probe\<close>. Each check returns its
  status and whether its service is configured; the endpoints aggregate the statuses.
  The checks catch every exception themselves, so the \<open>return_exceptions\<close> branch of
  \<open>asyncio.gather\<close> is never taken.
\<close>

datatype check_status = Check_ok | Check_warning | Check_error

record check_result =
  chk_status :: check_status
  chk_configured :: bool

text \<open>\<open>check_anthropic_api\<close>: the key must be set and start with \<open>sk-ant-\<close>; the client
  is then constructed, which does not contact the API.\<close>

definition check_anthropic_api :: "env \<Rightarrow> check_result" where
  "check_anthropic_api env =
     (case env ''ANTHROPIC_API_KEY'' of
        None \<Rightarrow> \<lparr>chk_status = Check_error, chk_configured = False\<rparr>
      | Some k \<Rightarrow>
          if k = [] then \<lparr>chk_status = Check_error, chk_configured = False\<rparr>
          else if take 7 k \<noteq> ''sk-ant-'' then \<lparr>chk_status = Check_warning, chk_configured = True\<rparr>
          else (case init_client (Some k) None of
                  None \<Rightarrow> \<lparr>chk_status = Check_error, chk_configured = True\<rparr>
                | Some c \<Rightarrow> \<lparr>chk_status = Check_ok, chk_configured = True\<rparr>))"

text \<open>The outcome of the database probe: \<open>connect()\<close> or the query raises, the pool
  is missing, or the count of tables named \<open>agfin_ai_bot_sessions\<close>.\<close>

datatype db_probe = Probe_raises | Probe_no_pool | Probe_count int

definition check_database :: "env \<Rightarrow> db_probe \<Rightarrow> check_result" where
  "check_database env probe =
     (if \<not> env_truthy env ''DATABASE_URL'' then \<lparr>chk_status = Check_error, chk_configured = False\<rparr>
      else case probe of
        Probe_raises \<Rightarrow> \<lparr>chk_status = Check_error, chk_configured = True\<rparr>
      | Probe_no_pool \<Rightarrow> \<lparr>chk_status = Check_error, chk_configured = True\<rparr>
      | Probe_count n \<Rightarrow>
          if n = 0 then \<lparr>chk_status = Check_warning, chk_configured = True\<rparr>
          else \<lparr>chk_status = Check_ok, chk_configured = True\<rparr>)"

definition check_memory :: "env \<Rightarrow> check_result" where
  "check_memory env =
     (if filter (\<lambda>v. \<not> env_truthy env v) [''OPENAI_API_KEY'', ''SUPABASE_URL'', ''SUPABASE_KEY''] \<noteq> []
      then \<lparr>chk_status = Check_error, chk_configured = False\<rparr>
      else case mem0_init env None None None None of
        Inr c \<Rightarrow> \<lparr>chk_status = Check_ok, chk_configured = True\<rparr>
      | Inl e \<Rightarrow> \<lparr>chk_status = Check_error, chk_configured = True\<rparr>)"

definition required_vars :: "string list" where
  "required_vars = [''ANTHROPIC_API_KEY'', ''DATABASE_URL'', ''OPENAI_API_KEY'', ''SUPABASE_URL'', ''SUPABASE_KEY'']"

text \<open>\<open>check_environment\<close>: its status and the missing required variables.\<close>

definition check_environment :: "env \<Rightarrow> check_status \<times> string list" where
  "check_environment env =
     (let missing = filter (\<lambda>v. \<not> env_truthy env v) required_vars in
      (if missing \<noteq> [] then Check_error else Check_ok, missing))"

datatype overall_status = Healthy | Overall_warning | Overall_error

text \<open>\<open>GET /api/health\<close>: error (HTTP 503) when a check reports an error, else warning
  when one warns, else healthy (HTTP 200).\<close>

definition overall_of :: "check_status list \<Rightarrow> overall_status \<times> nat" where
  "overall_of ss =
     (if Check_error \<in> set ss then (Overall_error, 503)
      else if Check_warning \<in> set ss then (Overall_warning, 200)
      else (Healthy, 200))"

definition health_check :: "env \<Rightarrow> db_probe \<Rightarrow> overall_status \<times> nat" where
  "health_check env probe =
     overall_of [chk_status (check_anthropic_api env), chk_status (check_database env probe),
                 chk_status (check_memory env), fst (check_environment env)]"

text \<open>\<open>GET /api/health/ready\<close>: ready (HTTP 200) when the model API and the database
  checks are both ok, else not ready (HTTP 503).\<close>

definition readiness_check :: "env \<Rightarrow> db_probe \<Rightarrow> bool \<times> nat" where
  "readiness_check env probe =
     (if chk_status (check_anthropic_api env) = Check_ok \<and> chk_status (check_database env probe) = Check_ok
      then (True, 200) else (False, 503))"

text \<open>\<open>GET /api/health/live\<close>: alive (HTTP 200) whenever the process answers.\<close>

definition liveness_check :: "bool \<times> nat" where
  "liveness_check = (True, 200)"

section \<open>Lemmas\<close>

lemma overall_of_503: "snd (overall_of ss) = 503 \<longleftrightarrow> Check_error \<in> set ss"
  by (simp add: overall_of_def)

lemma overall_of_healthy: "fst (overall_of ss) = Healthy \<longleftrightarrow> set ss \<subseteq> {Check_ok}"
proof -
  have "x = Check_ok" if "x \<noteq> Check_error" "x \<noteq> Check_warning" for x using that by (cases x) auto
  then show ?thesis by (auto simp: overall_of_def) (metis)
qed

lemma check_environment_ok: "fst (check_environment env) = Check_ok \<longleftrightarrow> (\<forall>v\<in>set required_vars. env_truthy env v)"
  by (auto simp: check_environment_def filter_empty_conv)

text \<open>A complete environment configures the three services; so a failing
  dependency check then reports a configured service.\<close>

lemma check_environment_configured:
  assumes "fst (check_environment env) = Check_ok"
  shows "chk_configured (check_anthropic_api env) \<and> chk_configured (check_database env probe)
    \<and> chk_configured (check_memory env)"
  using assms unfolding check_environment_ok required_vars_def
  by (auto simp: check_anthropic_api_def check_database_def check_memory_def env_truthy_def init_client_def Let_def
      split: option.splits db_probe.splits if_splits sum.splits)

text \<open>The model API check is ok exactly for a key starting with \<open>sk-ant-\<close>: a
  configured key is never tested against the API.\<close>

lemma check_anthropic_api_ok:
  "chk_status (check_anthropic_api env) = Check_ok \<longleftrightarrow> (\<exists>k. env ''ANTHROPIC_API_KEY'' = Some k \<and> take 7 k = ''sk-ant-'')"
  by (auto simp: check_anthropic_api_def init_client_def Let_def split: option.splits)

lemma health_check_healthy:
  "fst (health_check env probe) = Healthy \<longleftrightarrow>
     chk_status (check_anthropic_api env) = Check_ok \<and> chk_status (check_database env probe) = Check_ok
   \<and> chk_status (check_memory env) = Check_ok \<and> fst (check_environment env) = Check_ok"
  by (simp add: health_check_def overall_of_healthy)

lemma readiness_of_healthy: "fst (health_check env probe) = Healthy \<Longrightarrow> readiness_check env probe = (True, 200)"
  by (simp add: health_check_healthy readiness_check_def)

text \<open>Readiness does not imply health: a port that \<open>int()\<close> rejects makes the memory
  client fail while the service reports ready.\<close>

lemma ready_but_unhealthy:
  "readiness_check [''ANTHROPIC_API_KEY'' \<mapsto> ''sk-ant-x'', ''DATABASE_URL'' \<mapsto> ''postgres://db'',
      ''OPENAI_API_KEY'' \<mapsto> ''sk-o'', ''SUPABASE_URL'' \<mapsto> ''https://s'', ''SUPABASE_KEY'' \<mapsto> ''k'',
      ''PGVECTOR_PORT'' \<mapsto> ''5433x''] (Probe_count 1) = (True, 200)
   \<and> health_check [''ANTHROPIC_API_KEY'' \<mapsto> ''sk-ant-x'', ''DATABASE_URL'' \<mapsto> ''postgres://db'',
      ''OPENAI_API_KEY'' \<mapsto> ''sk-o'', ''SUPABASE_URL'' \<mapsto> ''https://s'', ''SUPABASE_KEY'' \<mapsto> ''k'',
      ''PGVECTOR_PORT'' \<mapsto> ''5433x''] (Probe_count 1) = (Overall_error, 503)"
  by (simp add: readiness_check_def health_check_def overall_of_def check_anthropic_api_def init_client_def
      check_database_def check_memory_def check_environment_def required_vars_def env_truthy_def
      mem0_init_def opt_truthy_def arg_or_env_def getenv_default_def parse_py_int_def py_strip_def py_space_def py_digit_def)

end
