(* ===== verification/Spec2Isabelle.thy ===== *)
theory Spec2Isabelle
  imports Module_Tools Certify Intake Artifact Registry Tools Typing History Orchestrator Chat Stream Memory Prompt Health
begin

text \<open>
  \<^bold>\<open>A verification development for the AI service of the certification platform\<close>
  (\<open>src/ai-service/src\<close>).

  \<^medskip>
  \<^bold>\<open>The program.\<close> A FastAPI service lets a language model help farmers through a
  certification workflow. The chat and stream routers (\<open>routers/chat.py\<close>,
  \<open>routers/stream.py\<close>) send the conversation to the model through
  \<open>claude/client.py\<close> and save the exchange in the session tables
  (\<open>database/connection.py\<close>); \<open>routers/sessions.py\<close> manages the sessions. The
  tool registry (\<open>tools/registry.py\<close>) binds a model's tool input to one of eight
  handlers (\<open>tools/*.py\<close>), each of which validates its input, checks that the caller
  owns the target application, reads and writes PostgreSQL rows through asyncpg and
  returns a result dictionary or an error dictionary. In this version the client's tool
  loop runs a placeholder instead of the registry, and the routers load the history
  themselves instead of through the history manager (\<open>conversation/history.py\<close>);
  the development models each part as written and proves the properties of each.

  \<^medskip>
  \<^bold>\<open>Theories.\<close>
  \<^item> \<open>Prelude\<close>: JSON values \<open>jval\<close>, Python truthiness, the exceptions that leave a
    handler, how the driver encodes text arguments, Python's \<open>int()\<close> on strings and
    \<open>str()\<close> on integers (with their round trip), and list and map lemmas.
  \<^item> \<open>Store\<close>: the rows of \<open>applications\<close>, \<open>documents\<close>, \<open>module_data\<close>,
    \<open>audit_trail\<close> and \<open>auth.users\<close> as records in one \<open>store\<close>; the session
    context; the error codes and result payloads; the ownership policy all handlers
    share (\<open>resolve_app_id\<close>, \<open>load_owned_app\<close>); the store invariant
    \<open>store_inv\<close> (unique module keys and row ids, module numbers 1 to 5, rows and
    documents of existing applications).
  \<^item> \<open>Module_Tools\<close>: \<open>update_module\<close> (\<open>tools/update_module.py\<close>) and
    \<open>request_audit\<close> (\<open>tools/request_audit.py\<close>), each as one function from the
    arguments, the context, the clock and the store to an outcome.
  \<^item> \<open>Certify\<close>: \<open>certify_application\<close> (\<open>tools/certify_application.py\<close>), with
    the failure list \<open>cert_failures\<close> and the approval write.
  \<^item> \<open>Intake\<close>: \<open>query_application\<close>, \<open>create_application\<close> (with its email
    regex), \<open>upload_document\<close> and \<open>extract_fields\<close>.
  \<^item> \<open>Artifact\<close>: \<open>show_artifact\<close> (\<open>tools/show_artifact.py\<close>), its five panel
    kinds and their lookups.
  \<^item> \<open>Registry\<close>: \<open>ToolRegistry\<close> (\<open>tools/registry.py\<close>) over an arbitrary handler
    type: registration with its checks, lookup, Python's keyword binding of the model's
    input to a handler signature, and the classification of the outcome.
  \<^item> \<open>Tools\<close>: the registry instantiated with the eight handlers (the datatype
    \<open>tool\<close>, each handler's signature and schema, and \<open>tool_invoke\<close>), and the
    module-level registry with the module functions that go through it.
  \<^item> \<open>Typing\<close>: the types of the input schemas, well-typed inputs, and which
    handlers can raise on which inputs.
  \<^item> \<open>History\<close>: \<open>ConversationHistory\<close> (\<open>conversation/history.py\<close>): formatting,
    the token estimate, truncation with Python's slice semantics, the alternation check,
    \<open>prepare_for_api\<close>, the cache and the summary.
  \<^item> \<open>Orchestrator\<close>: \<open>ClaudeClient\<close> (\<open>claude/client.py\<close>): request bodies, the tool
    loop \<open>execute_with_tools\<close> as \<open>tool_loop\<close> with its iteration counter, the
    placeholder tool execution, and the server-sent-event line filter.
  \<^item> \<open>Chat\<close>: the session and message tables (\<open>database/connection.py\<close>) as one record
    with a clock for \<open>now()\<close>, the title helpers (\<open>utils/title_generator.py\<close>), every
    endpoint of \<open>routers/sessions.py\<close>, the chat endpoint and the chat router's own
    messages route (\<open>routers/chat.py\<close>), and the application's choice between the two
    routes of the same path (\<open>src/ai-service/main.py\<close>, modelled from its router
    order).
  \<^item> \<open>Stream\<close>: the streaming endpoint (\<open>routers/stream.py\<close>): the events forwarded
    for each chunk, the accumulated text and tool calls, the saves and the final event.
  \<^item> \<open>Memory\<close>: the vector memory client (\<open>memory/mem0_client.py\<close>): the process
    environment, the constructor with its \<open>ValueError\<close> paths, the stub methods, and
    the module-level client of \<open>get_client\<close> and \<open>reset_client\<close> as explicit state
    with a step function over a caller's calls and the inductive set of reachable caches.
  \<^item> \<open>Prompt\<close>: the system prompt builder (\<open>prompts/system_prompt.py\<close>), each
    section as a list of parts joined with newlines, Python's \<open>str()\<close> and
    \<open>repr()\<close> of the values it formats, the exceptions of its dictionary operations,
    \<open>build_tool_description\<close>, and the routers' call with the session's context.
  \<^item> \<open>Health\<close>: the dependency checks of \<open>routers/health.py\<close> as functions of the
    process environment (and of the database probe), their aggregation by
    \<open>/api/health\<close> and the readiness probe; the memory check runs the constructor of
    \<open>Memory\<close>.
  \<^item> This theory composes the chat endpoint with the prompt builder
    (\<open>chat_service\<close>): the request model's validation, then \<open>chat\<close> with the prompt
    of \<open>router_prompt\<close>; its lemmas show that the prompt never raises on a validated
    request, that a reply answers that prompt, and that the service keeps the message
    store's invariant.

  \<^medskip>
  \<^bold>\<open>How the model corresponds to the code.\<close> A handler
  \<open>async def h(args..., session_context=None)\<close> is a HOL function
  \<open>h args ctx [now] st\<close> returning \<open>(py_exc + payload) \<times> store\<close>: an exception that
  escapes the handler is \<open>Inl\<close>, a returned dictionary is \<open>Inr\<close> (its error code or its
  success payload), and the store is the database after the statements the handler ran.
  The handlers run their statements on the pool outside any transaction, so each
  statement commits on its own and a handler that fails halfway leaves its earlier
  writes. Arguments are JSON values as the model sends them; a non-string passed where
  the driver expects text raises asyncpg's \<open>DataError\<close>, which the handlers report as
  \<open>internal_error\<close>. \<open>NOW()\<close> is the parameter \<open>now\<close>; ids the database generates
  are the counter \<open>next_row\<close> or an explicit fresh id. A query without \<open>ORDER BY\<close>
  that returns one row returns the first match in storage order. The handlers name the
  columns of \<open>module_data\<close> and \<open>documents\<close> in two ways (\<open>field_name\<close> and
  \<open>field_id\<close>, \<open>ocr_status\<close> and \<open>extraction_status\<close>, \<open>extraction_metadata\<close>
  and \<open>metadata\<close>); the model reads them as one schema, and the module name of a row is
  the name of its number. No JSON codec is registered on the pool, so a \<open>jsonb\<close> value
  read back in Python is text.

  \<^medskip>
  \<^bold>\<open>What is proved.\<close> For each handler: its behaviour on the branches that matter
  to the workflow, the absence of writes on its error paths, and that it keeps
  \<open>store_inv\<close>. In particular: \<open>update_module\<close> is an upsert keyed by (application,
  module, field) with provenance \<open>proxy_entered\<close> or \<open>proxy_edited\<close> and refuses
  locked applications (C1, C2). \<open>request_audit\<close> can flag nothing: its document
  \<open>UPDATE\<close> assigns \<open>metadata\<close> three times and is rejected (C3); its field \<open>UPDATE\<close>
  passes untyped parameters to \<open>jsonb_build_object\<close> and is rejected when it is
  prepared, so a requested field that exists makes the call answer
  \<open>database_error\<close>, whatever the application's status (C4); no call changes a module
  row or a document, and a success reports nothing flagged (C5); a success writes one
  trail row naming the requested fields (C6). \<open>certify_application\<close>
  reports every failure and writes only when the application is ready (C7 to C9).
  \<open>get_client\<close> with a user id answers a client of that user and caches it, so a
  second call for that user returns the same client (C10);
  \<open>create_application\<close>, \<open>query_application\<close>, \<open>upload_document\<close> and
  \<open>extract_fields\<close> behave as C11 to C18 state, including an email check proved equal
  to its regular expression (with Python's \<open>$\<close> before a final newline) and the
  cached-results branch of \<open>extract_fields\<close> that can never answer.
  A well-typed tool call that gives the required properties is executed and its handler
  returns a result instead of raising (C19, proved from the handlers' schemas);
  \<open>show_artifact\<close> parses module numbers as Python's \<open>int()\<close> does and
  opens only panels of applications the caller may see (C20 to C22), and never writes.
  The tool descriptions of the system prompt mark each parameter required or optional
  as the schema's \<open>required\<close> list says (C23). The history query returns the oldest
  messages of a session, not the newest (C24). The registry reports an unknown tool or
  a missing argument without running anything (C26, C27); the memory client hands the
  last user's client to a caller without a user id (C25); every
  stream the streaming endpoint opens ends with exactly one terminal event, whatever the
  model sends and wherever reading fails (C28). The messages route the service serves
  is the chat router's, which takes any limit: a negative one makes it fail with 500,
  one above 200 is served, while the shadowed sessions route would answer 422 (C29).
  Executing a conforming input runs the handler and classifies its outcome: a
  \<open>TypeError\<close> is \<open>invalid_input\<close>, any other exception \<open>execution_error\<close>, a
  result is a success unless it is a tool error or a refused certification (C30).
  Truncation keeps a
  suffix with the recent window, respects the budget when the window fits, exceeds it
  when the window does not, and drops no more than it must; the alternation check is
  exactly the alternation property and \<open>prepare_for_api\<close> only returns alternating
  lists (C31 to C36). The prompt the routers build never raises on a validated request
  and names the session's application but reports its type and status as unknown (C37). The tool loop ends
  after at most \<open>max_iterations\<close> calls (C38) and sends the model only the last message
  (C39); the chat endpoint saves the exchange once, after the reply, and nothing on an
  error (C40). Lemmas outside the claims show that registration refuses malformed
  definitions and that a registered name joins the tool list once, that the registry's
  schemas agree with the handlers' signatures, that truncation can make a valid history
  fail the alternation check,
  that failed and audited documents do not block certification, that the prompt builder
  raises on malformed modules or preferences, that a memory added is never returned,
  that the module-level memory client is always the client its constructor builds for
  the user it holds (by rule induction over every sequence of calls),
  that the module-level registry acts as the registry \<open>ToolRegistry()\<close> builds, that
  the stream endpoint saves only with
  \<open>complete\<close>, that the
  message store keeps its order invariant, that both session titles are at most fifty
  characters long, and that the
  health endpoint answers 503 exactly when a check fails while the readiness probe can
  report ready at the same time.

  \<^medskip>
  \<^bold>\<open>External services and bounds.\<close> The language model is a parameter: \<open>api i rq\<close>
  answers the \<open>i\<close>-th call with request body \<open>rq\<close> (an arbitrary function, so every
  property holds for every model behaviour), and a streamed answer is its lines and
  whether reading fails after them. The tool loop needs no fuel: it is structural
  recursion on the remaining iterations, and C38 bounds the calls by
  \<open>max_iterations\<close>. \<open>json.loads\<close> and \<open>json.dumps\<close> of a tool input are
  parameters too; the chat and stream endpoints take the prompt builder as a parameter,
  which \<open>chat_service\<close> instantiates with \<open>router_prompt\<close>. The clock of the prompt is
  the rendered text \<open>stamp\<close>, the memory stub's fresh id the parameter \<open>uuid\<close>.

  \<^medskip>
  \<^bold>\<open>Not modelled.\<close> The similarity threshold of the memory client (a float no
  method reads); characters beyond code point 255 in \<open>repr()\<close>; the prose
  descriptions of the tool definitions (text sent to the model; their input schemas
  are modelled); connection pooling, timing fields, timestamps and log output, the text
  of error messages, and the JSON text encoding of events; the test scripts
  (\<open>test_client.py\<close>, \<open>test_mem0.py\<close>).
\<close>

section \<open>The chat endpoint with the prompt builder\<close>

text \<open>\<open>POST /chat\<close> as the service runs it: the request model rejects tools that are not
  dictionaries with HTTP 422 before the endpoint runs; otherwise the endpoint runs with
  the prompt of \<open>Prompt.router_prompt\<close> for the session. The prompt never raises on a
  validated request (lemma \<open>chat_service_prompt\<close>), so its \<open>Inl\<close> branch below is
  never taken.\<close>

definition chat_prompt :: "string \<Rightarrow> string option \<Rightarrow> string option \<Rightarrow> jval list option \<Rightarrow> string" where
  "chat_prompt stamp m a tools = (case router_prompt stamp m a tools of Inr p \<Rightarrow> p | Inl e \<Rightarrow> [])"

definition chat_service ::
  "(nat \<Rightarrow> api_request \<Rightarrow> response option) \<Rightarrow> (jval \<Rightarrow> string) \<Rightarrow> claude_client \<Rightarrow> string \<Rightarrow>
   string \<Rightarrow> string \<Rightarrow> jval list option \<Rightarrow> chat_db \<Rightarrow> (http_status + chat_response) \<times> chat_db" where
  "chat_service api repr c stamp message sid tools db =
     (if request_tools_ok tools then chat api repr c (chat_prompt stamp) message sid tools db
      else (Inl Http_422, db))"

lemma chat_service_prompt:
  "request_tools_ok tools \<Longrightarrow> router_prompt stamp m a tools = Inr (chat_prompt stamp m a tools)"
  using router_prompt_Inr [of tools stamp m a] by (auto simp: chat_prompt_def)

text \<open>A reply of the service is the model's answer to the prompt the builder makes for
  the session, over the stored history and the new message; the service keeps the
  message store's invariant.\<close>

lemma chat_service_reply:
  assumes "chat_service api repr c stamp message sid tools db = (Inr r, db')"
  shows "\<exists>s p. get_session db sid = Some s \<and> router_prompt stamp (s_mode s) (s_app s) tools = Inr p
    \<and> chat_reply api repr c p
         (map (\<lambda>m. (cm_role m, cm_content m)) (get_session_messages db sid 50) @ [(''user'', message)])
         message tools = Some (cr_message r, cr_tool_calls r)"
proof -
  have ok: "request_tools_ok tools" and ch: "chat api repr c (chat_prompt stamp) message sid tools db = (Inr r, db')"
    using assms by (auto simp: chat_service_def split: if_splits)
  from chat_reply_Inr [OF ch] chat_service_prompt [OF ok] show ?thesis by auto
qed

lemma chat_service_inv:
  "chat_db_inv db \<Longrightarrow> chat_service api repr c stamp message sid tools db = (res, db') \<Longrightarrow> chat_db_inv db'"
  by (auto simp: chat_service_def intro: chat_inv split: if_splits)

end
